theory Spec2Isabelle
  imports Main "HOL-Library.Word"
begin

section \<open>The external term format, as a stream of terms\<close>

text \<open>
  \<^verbatim>\<open>common.c\<close> reads requests and writes responses through the \<^verbatim>\<open>ei\<close> library
  of Erlang. The library works on a byte buffer and an index into it; every
  \<^verbatim>\<open>ei_encode_*\<close> call appends one term header or one leaf term, every
  \<^verbatim>\<open>ei_decode_*\<close> call consumes one. The model keeps that granularity: a buffer
  is the list of the headers and leaves still to be read (or written so far), in
  order. A tuple of arity \<open>n\<close> is its header followed by the streams of its \<open>n\<close>
  elements, exactly as in the byte format. Integers are one constructor, because
  the byte format does not record whether \<^verbatim>\<open>ei_encode_long\<close> or
  \<^verbatim>\<open>ei_encode_ulong\<close> wrote them. Bytes are \<^typ>\<open>char\<close>, doubles are their
  64-bit pattern.
\<close>

datatype ei_term =
    ERL_VERSION_MAGIC
  | ERL_TUPLE_EXT nat
  | ERL_LIST_EXT nat
  | ERL_NIL_EXT
  | ERL_INTEGER_EXT int
  | ERL_FLOAT_EXT "64 word"
  | ERL_ATOM_EXT string
  | ERL_BINARY_EXT string
  | ERL_STRING_EXT string

type_synonym buffer = "ei_term list"

subsection \<open>Encoders of the library\<close>

definition ei_encode_version :: buffer where
  "ei_encode_version = [ERL_VERSION_MAGIC]"

definition ei_encode_tuple_header :: "nat \<Rightarrow> buffer" where
  "ei_encode_tuple_header arity = [ERL_TUPLE_EXT arity]"

text \<open>A list header of arity 0 is written as the empty list itself.\<close>

definition ei_encode_list_header :: "nat \<Rightarrow> buffer" where
  "ei_encode_list_header arity = (if arity = 0 then [ERL_NIL_EXT] else [ERL_LIST_EXT arity])"

definition ei_encode_empty_list :: buffer where
  "ei_encode_empty_list = [ERL_NIL_EXT]"

definition ei_encode_long :: "int \<Rightarrow> buffer" where
  "ei_encode_long p = [ERL_INTEGER_EXT p]"

definition ei_encode_ulong :: "nat \<Rightarrow> buffer" where
  "ei_encode_ulong p = [ERL_INTEGER_EXT (int p)]"

definition ei_encode_longlong :: "int \<Rightarrow> buffer" where
  "ei_encode_longlong p = [ERL_INTEGER_EXT p]"

definition ei_encode_ulonglong :: "nat \<Rightarrow> buffer" where
  "ei_encode_ulonglong p = [ERL_INTEGER_EXT (int p)]"

definition ei_encode_double :: "64 word \<Rightarrow> buffer" where
  "ei_encode_double p = [ERL_FLOAT_EXT p]"

definition ei_encode_boolean :: "bool \<Rightarrow> buffer" where
  "ei_encode_boolean p = [ERL_ATOM_EXT (if p then ''true'' else ''false'')]"

definition ei_encode_atom :: "string \<Rightarrow> buffer" where
  "ei_encode_atom p = [ERL_ATOM_EXT p]"

definition ei_encode_binary :: "string \<Rightarrow> buffer" where
  "ei_encode_binary p = [ERL_BINARY_EXT p]"

definition ei_encode_string :: "string \<Rightarrow> buffer" where
  "ei_encode_string p = (if p = [] then [ERL_NIL_EXT] else [ERL_STRING_EXT p])"

subsection \<open>Decoders of the library\<close>

text \<open>
  A decoder returns \<open>None\<close> where the C function returns a negative value, and
  the decoded value with the rest of the buffer otherwise. \<^verbatim>\<open>long\<close> and
  \<^verbatim>\<open>unsigned long\<close> are 64 bits wide, as on the LP64 targets.
\<close>

definition ei_decode_tuple_header :: "buffer \<Rightarrow> (nat \<times> buffer) option" where
  "ei_decode_tuple_header req =
     (case req of ERL_TUPLE_EXT arity # rest \<Rightarrow> Some (arity, rest) | _ \<Rightarrow> None)"

definition ei_decode_ulong :: "buffer \<Rightarrow> (nat \<times> buffer) option" where
  "ei_decode_ulong req =
     (case req of
        ERL_INTEGER_EXT n # rest \<Rightarrow>
          if 0 \<le> n \<and> n < 2 ^ 64 then Some (nat n, rest) else None
      | _ \<Rightarrow> None)"

definition ei_decode_long :: "buffer \<Rightarrow> (int \<times> buffer) option" where
  "ei_decode_long req =
     (case req of
        ERL_INTEGER_EXT n # rest \<Rightarrow>
          if - (2 ^ 63) \<le> n \<and> n < 2 ^ 63 then Some (n, rest) else None
      | _ \<Rightarrow> None)"

definition ei_decode_longlong :: "buffer \<Rightarrow> (int \<times> buffer) option" where
  "ei_decode_longlong req = ei_decode_long req"

definition ei_decode_ulonglong :: "buffer \<Rightarrow> (nat \<times> buffer) option" where
  "ei_decode_ulonglong req = ei_decode_ulong req"

definition ei_decode_double :: "buffer \<Rightarrow> (64 word \<times> buffer) option" where
  "ei_decode_double req =
     (case req of ERL_FLOAT_EXT d # rest \<Rightarrow> Some (d, rest) | _ \<Rightarrow> None)"

definition ei_decode_boolean :: "buffer \<Rightarrow> (bool \<times> buffer) option" where
  "ei_decode_boolean req =
     (case req of
        ERL_ATOM_EXT a # rest \<Rightarrow>
          if a = ''true'' then Some (True, rest)
          else if a = ''false'' then Some (False, rest)
          else None
      | _ \<Rightarrow> None)"

definition ei_decode_binary :: "buffer \<Rightarrow> (string \<times> buffer) option" where
  "ei_decode_binary req =
     (case req of ERL_BINARY_EXT b # rest \<Rightarrow> Some (b, rest) | _ \<Rightarrow> None)"

text \<open>
  \<^verbatim>\<open>ei_get_type\<close> looks at the next term without consuming it. The model
  answers the one question the callers ask: is it a binary, and of what size.
\<close>

definition ei_get_type_binary :: "buffer \<Rightarrow> nat option" where
  "ei_get_type_binary req =
     (case req of ERL_BINARY_EXT b # rest \<Rightarrow> Some (length b) | _ \<Rightarrow> None)"

section \<open>Results of a C function\<close>

text \<open>
  \<open>Abort\<close> is \<^verbatim>\<open>errx(EXIT_FAILURE, ...)\<close>: the process exits, with the
  format string of the message. \<open>Undefined\<close> marks what C leaves undefined or
  indeterminate (reading memory that was never written, reading through a null
  pointer); nothing is proved about what follows it.
\<close>

datatype 'a outcome = Abort string | Undefined | Ok 'a

definition and_then :: "'a outcome \<Rightarrow> ('a \<Rightarrow> 'b outcome) \<Rightarrow> 'b outcome" where
  "and_then m f = (case m of Abort msg \<Rightarrow> Abort msg | Undefined \<Rightarrow> Undefined | Ok x \<Rightarrow> f x)"

text \<open>A decoder of the library whose failure is fatal at the call site.\<close>

definition or_errx :: "'a option \<Rightarrow> string \<Rightarrow> 'a outcome" where
  "or_errx r msg = (case r of None \<Rightarrow> Abort msg | Some x \<Rightarrow> Ok x)"

section \<open>Data model\<close>

text \<open>\<^verbatim>\<open>data4\<close> is an array of 8 bytes: a guid of the program has \<open>length (data4 g) = 8\<close>.\<close>

record ua_guid =
  data1 :: "32 word"
  data2 :: "16 word"
  data3 :: "16 word"
  data4 :: string

datatype ua_identifier =
    UA_NODEIDTYPE_NUMERIC "32 word"
  | UA_NODEIDTYPE_STRING string
  | UA_NODEIDTYPE_GUID ua_guid
  | UA_NODEIDTYPE_BYTESTRING string

record ua_node_id =
  namespaceIndex :: "16 word"
  nid_identifier :: ua_identifier

record ua_expanded_node_id =
  nodeId :: ua_node_id
  namespaceUri :: string
  serverIndex :: "32 word"

record ua_qualified_name =
  qn_namespaceIndex :: "16 word"
  qn_name :: string

record ua_localized_text =
  lt_locale :: string
  lt_text :: string

text \<open>
  \<^verbatim>\<open>UA_STRING(chars)\<close> and \<^verbatim>\<open>UA_BYTESTRING(chars)\<close> take a C string: the
  length of the result is \<^verbatim>\<open>strlen(chars)\<close>, the bytes before the first NUL.
\<close>

definition UA_STRING :: "string \<Rightarrow> string" where
  "UA_STRING chars = takeWhile (\<lambda>c. c \<noteq> CHR 0x00) chars"

definition UA_NODEID_NUMERIC :: "nat \<Rightarrow> 32 word \<Rightarrow> ua_node_id" where
  "UA_NODEID_NUMERIC nsIndex i =
     \<lparr>namespaceIndex = of_nat nsIndex, nid_identifier = UA_NODEIDTYPE_NUMERIC i\<rparr>"

definition UA_NODEID_STRING :: "nat \<Rightarrow> string \<Rightarrow> ua_node_id" where
  "UA_NODEID_STRING nsIndex chars =
     \<lparr>namespaceIndex = of_nat nsIndex, nid_identifier = UA_NODEIDTYPE_STRING (UA_STRING chars)\<rparr>"

definition UA_NODEID_GUID :: "nat \<Rightarrow> ua_guid \<Rightarrow> ua_node_id" where
  "UA_NODEID_GUID nsIndex g =
     \<lparr>namespaceIndex = of_nat nsIndex, nid_identifier = UA_NODEIDTYPE_GUID g\<rparr>"

definition UA_NODEID_BYTESTRING :: "nat \<Rightarrow> string \<Rightarrow> ua_node_id" where
  "UA_NODEID_BYTESTRING nsIndex chars =
     \<lparr>namespaceIndex = of_nat nsIndex, nid_identifier = UA_NODEIDTYPE_BYTESTRING (UA_STRING chars)\<rparr>"

definition UA_QUALIFIEDNAME :: "nat \<Rightarrow> string \<Rightarrow> ua_qualified_name" where
  "UA_QUALIFIEDNAME nsIndex chars =
     \<lparr>qn_namespaceIndex = of_nat nsIndex, qn_name = UA_STRING chars\<rparr>"

definition UA_LOCALIZEDTEXT :: "string \<Rightarrow> string \<Rightarrow> ua_localized_text" where
  "UA_LOCALIZEDTEXT l t = \<lparr>lt_locale = UA_STRING l, lt_text = UA_STRING t\<rparr>"

definition UA_EXPANDEDNODEID :: "ua_node_id \<Rightarrow> ua_expanded_node_id" where
  "UA_EXPANDEDNODEID n = \<lparr>nodeId = n, namespaceUri = [], serverIndex = 0\<rparr>"

subsection \<open>Values\<close>

text \<open>
  The kinds of value the program names, by their \<^verbatim>\<open>UA_TYPES_*\<close> index
  constant; \<open>UA_TYPES_OTHER\<close> stands for every other index of the table.
\<close>

datatype ua_type =
    UA_TYPES_BOOLEAN | UA_TYPES_SBYTE | UA_TYPES_BYTE | UA_TYPES_INT16 | UA_TYPES_UINT16
  | UA_TYPES_INT32 | UA_TYPES_UINT32 | UA_TYPES_INT64 | UA_TYPES_UINT64
  | UA_TYPES_FLOAT | UA_TYPES_DOUBLE | UA_TYPES_STRING | UA_TYPES_DATETIME | UA_TYPES_GUID
  | UA_TYPES_BYTESTRING | UA_TYPES_XMLELEMENT | UA_TYPES_NODEID | UA_TYPES_EXPANDEDNODEID
  | UA_TYPES_STATUSCODE | UA_TYPES_QUALIFIEDNAME | UA_TYPES_LOCALIZEDTEXT
  | UA_TYPES_SEMANTICCHANGESTRUCTUREDATATYPE | UA_TYPES_TIMESTRING
  | UA_TYPES_UADPNETWORKMESSAGECONTENTMASK | UA_TYPES_XVTYPE | UA_TYPES_ELEMENTOPERAND
  | UA_TYPES_OTHER nat

text \<open>
  One element of a value, with the C representation of its kind: signed and
  unsigned integers are words of their width (read with \<open>sint\<close> or \<open>uint\<close>),
  a float is its 32-bit pattern, a double and a date its 64-bit pattern.
  \<open>UA_XVType x value\<close> has the double \<open>x\<close> and the float \<open>value\<close>.
\<close>

datatype ua_scalar =
    UA_Boolean bool
  | UA_SByte "8 word"
  | UA_Byte "8 word"
  | UA_Int16 "16 word"
  | UA_UInt16 "16 word"
  | UA_Int32 "32 word"
  | UA_UInt32 "32 word"
  | UA_Int64 "64 word"
  | UA_UInt64 "64 word"
  | UA_Float "32 word"
  | UA_Double "64 word"
  | UA_String string
  | UA_DateTime "64 word"
  | UA_Guid ua_guid
  | UA_ByteString string
  | UA_XmlElement string
  | UA_NodeId ua_node_id
  | UA_ExpandedNodeId ua_expanded_node_id
  | UA_StatusCode "32 word"
  | UA_QualifiedName ua_qualified_name
  | UA_LocalizedText ua_localized_text
  | UA_SemanticChangeStructureDataType ua_node_id ua_node_id
  | UA_TimeString string
  | UA_UadpNetworkMessageContentMask "32 word"
  | UA_XVType "64 word" "32 word"
  | UA_ElementOperand "32 word"
  | UA_Other nat

definition type_of :: "ua_scalar \<Rightarrow> ua_type" where
  "type_of s =
     (case s of
        UA_Boolean _ \<Rightarrow> UA_TYPES_BOOLEAN | UA_SByte _ \<Rightarrow> UA_TYPES_SBYTE
      | UA_Byte _ \<Rightarrow> UA_TYPES_BYTE | UA_Int16 _ \<Rightarrow> UA_TYPES_INT16
      | UA_UInt16 _ \<Rightarrow> UA_TYPES_UINT16 | UA_Int32 _ \<Rightarrow> UA_TYPES_INT32
      | UA_UInt32 _ \<Rightarrow> UA_TYPES_UINT32 | UA_Int64 _ \<Rightarrow> UA_TYPES_INT64
      | UA_UInt64 _ \<Rightarrow> UA_TYPES_UINT64 | UA_Float _ \<Rightarrow> UA_TYPES_FLOAT
      | UA_Double _ \<Rightarrow> UA_TYPES_DOUBLE | UA_String _ \<Rightarrow> UA_TYPES_STRING
      | UA_DateTime _ \<Rightarrow> UA_TYPES_DATETIME | UA_Guid _ \<Rightarrow> UA_TYPES_GUID
      | UA_ByteString _ \<Rightarrow> UA_TYPES_BYTESTRING | UA_XmlElement _ \<Rightarrow> UA_TYPES_XMLELEMENT
      | UA_NodeId _ \<Rightarrow> UA_TYPES_NODEID | UA_ExpandedNodeId _ \<Rightarrow> UA_TYPES_EXPANDEDNODEID
      | UA_StatusCode _ \<Rightarrow> UA_TYPES_STATUSCODE | UA_QualifiedName _ \<Rightarrow> UA_TYPES_QUALIFIEDNAME
      | UA_LocalizedText _ \<Rightarrow> UA_TYPES_LOCALIZEDTEXT
      | UA_SemanticChangeStructureDataType _ _ \<Rightarrow> UA_TYPES_SEMANTICCHANGESTRUCTUREDATATYPE
      | UA_TimeString _ \<Rightarrow> UA_TYPES_TIMESTRING
      | UA_UadpNetworkMessageContentMask _ \<Rightarrow> UA_TYPES_UADPNETWORKMESSAGECONTENTMASK
      | UA_XVType _ _ \<Rightarrow> UA_TYPES_XVTYPE | UA_ElementOperand _ \<Rightarrow> UA_TYPES_ELEMENTOPERAND
      | UA_Other k \<Rightarrow> UA_TYPES_OTHER k)"

text \<open>
  A \<^verbatim>\<open>UA_Variant\<close>: empty (no type), one scalar, or an array of a kind with
  its elements and its array dimensions. The elements of an array of the
  program all have the kind of the array.
\<close>

datatype ua_variant =
    Empty
  | Scalar ua_scalar
  | Array ua_type "ua_scalar list" "32 word list"

definition UA_Variant_isEmpty :: "ua_variant \<Rightarrow> bool" where
  "UA_Variant_isEmpty v = (case v of Empty \<Rightarrow> True | _ \<Rightarrow> False)"

definition UA_Variant_isScalar :: "ua_variant \<Rightarrow> bool" where
  "UA_Variant_isScalar v = (case v of Scalar _ \<Rightarrow> True | _ \<Rightarrow> False)"

definition arrayLength :: "ua_variant \<Rightarrow> nat" where
  "arrayLength v = (case v of Array _ xs _ \<Rightarrow> length xs | _ \<Rightarrow> 0)"

text \<open>
  The typed read \<^verbatim>\<open>*((T *)value.data + index)\<close>, where \<^verbatim>\<open>T\<close> is the C type
  of the kind of the value: defined on the scalar at index 0 and inside an array.
\<close>

definition variant_element :: "ua_variant \<Rightarrow> nat \<Rightarrow> ua_scalar option" where
  "variant_element v index =
     (case v of
        Empty \<Rightarrow> None
      | Scalar s \<Rightarrow> if index = 0 then Some s else None
      | Array t xs _ \<Rightarrow>
          if index < length xs \<and> type_of (xs ! index) = t then Some (xs ! index) else None)"

text \<open>
  The classes of node, the values of the enumeration \<^verbatim>\<open>UA_NodeClass\<close> that
  the program names; \<open>UA_NODECLASS_OTHER\<close> stands for any other value.
\<close>

datatype ua_node_class =
    UA_NODECLASS_UNSPECIFIED | UA_NODECLASS_OBJECT | UA_NODECLASS_VARIABLE | UA_NODECLASS_METHOD
  | UA_NODECLASS_OBJECTTYPE | UA_NODECLASS_VARIABLETYPE | UA_NODECLASS_REFERENCETYPE
  | UA_NODECLASS_DATATYPE | UA_NODECLASS_VIEW | UA_NODECLASS_OTHER

text \<open>
  What a \<^verbatim>\<open>void *\<close> handed to the response encoder, or an out parameter of the
  Node Store, points to: nothing (\<^verbatim>\<open>NULL\<close>), one element of a value, a buffer
  of characters, a variant, the array dimensions, or a node class.
\<close>

datatype data_ptr =
    Null
  | Object ua_scalar
  | Chars string
  | Variant ua_variant
  | Dimensions "32 word list"
  | NodeClass ua_node_class

subsection \<open>What the program takes from outside\<close>

text \<open>
  The Node Store (the OPC UA server or client of the open62541 library), the
  casts between \<^verbatim>\<open>float\<close> and \<^verbatim>\<open>double\<close>, the status names and the type
  table of the library are parameters of the model: the status each call
  returns, the value and the attributes its reads leave in their out parameters,
  and the callbacks a write of the local server fires. \<open>entity_type\<close> is true
  for a client connection and false for the local server, as in the source. A
  call is named after its server function; the two families take the same
  arguments but for the addition of a variable type. The calls that add or
  delete a node, that write an attribute and that read one are grouped under
  \<open>Change\<close>, \<open>Write\<close> and \<open>Read\<close>.
\<close>

datatype node_change =
    UA_addVariableNode bool ua_node_id ua_node_id ua_node_id ua_qualified_name ua_node_id
  | UA_Server_setVariableNode_valueCallback ua_node_id
  | UA_Client_addVariableTypeNode ua_node_id ua_node_id ua_node_id ua_qualified_name
  | UA_Server_addVariableTypeNode ua_node_id ua_node_id ua_node_id ua_qualified_name ua_node_id
  | UA_addObjectNode bool ua_node_id ua_node_id ua_node_id ua_qualified_name ua_node_id
  | UA_addObjectTypeNode bool ua_node_id ua_node_id ua_node_id ua_qualified_name
  | UA_addViewNode bool ua_node_id ua_node_id ua_node_id ua_qualified_name
  | UA_addReferenceTypeNode bool ua_node_id ua_node_id ua_node_id ua_qualified_name
  | UA_addDataTypeNode bool ua_node_id ua_node_id ua_node_id ua_qualified_name
  | UA_deleteReference bool ua_node_id ua_node_id bool ua_expanded_node_id bool
  | UA_deleteNode bool ua_node_id bool

datatype attribute_write =
    UA_writeBrowseName bool ua_node_id ua_qualified_name
  | UA_writeDisplayName bool ua_node_id ua_localized_text
  | UA_writeDescription bool ua_node_id ua_localized_text
  | UA_writeWriteMask bool ua_node_id "32 word"
  | UA_writeIsAbstract bool ua_node_id bool
  | UA_writeInverseName bool ua_node_id ua_localized_text
  | UA_writeDataType bool ua_node_id ua_node_id
  | UA_writeValueRank bool ua_node_id "32 word"
  | UA_writeAccessLevel bool ua_node_id "8 word"
  | UA_writeMinimumSamplingInterval bool ua_node_id "64 word"
  | UA_writeEventNotifier bool ua_node_id "8 word"

datatype attribute_read =
    UA_readNodeId bool ua_node_id
  | UA_readNodeClass bool ua_node_id
  | UA_readBrowseName bool ua_node_id
  | UA_readDisplayName bool ua_node_id
  | UA_readDescription bool ua_node_id
  | UA_readWriteMask bool ua_node_id
  | UA_readIsAbstract bool ua_node_id
  | UA_readSymmetric bool ua_node_id
  | UA_readInverseName bool ua_node_id
  | UA_readContainsNoLoops bool ua_node_id
  | UA_readDataType bool ua_node_id
  | UA_readValueRank bool ua_node_id
  | UA_readArrayDimensions bool ua_node_id
  | UA_readAccessLevel bool ua_node_id
  | UA_readMinimumSamplingInterval bool ua_node_id
  | UA_readHistorizing bool ua_node_id
  | UA_readExecutable bool ua_node_id
  | UA_readEventNotifier bool ua_node_id

datatype store_call =
    UA_readValue bool ua_node_id
  | UA_writeValue bool ua_node_id ua_variant
  | UA_writeArrayDimensions bool ua_node_id "32 word list"
  | UA_writeHistorizing bool ua_node_id bool
  | UA_writeExecutable bool ua_node_id bool
  | Change node_change
  | Write attribute_write
  | Read attribute_read

record externals =
  float_to_double :: "32 word \<Rightarrow> 64 word"
  double_to_float :: "64 word \<Rightarrow> 32 word"
  UA_StatusCode_name :: "32 word \<Rightarrow> string"
  UA_TYPES :: "nat \<Rightarrow> ua_type"
  retval_of :: "store_call \<Rightarrow> 32 word"
  value_read :: "bool \<Rightarrow> ua_node_id \<Rightarrow> ua_variant"
  attribute_read :: "store_call \<Rightarrow> data_ptr"
  on_write :: "ua_node_id \<Rightarrow> ua_variant \<Rightarrow> (ua_node_id \<times> ua_variant) list"

definition UA_STATUSCODE_GOOD :: "32 word" where
  "UA_STATUSCODE_GOOD = 0x00000000"

definition UA_STATUSCODE_BADTYPEMISMATCH :: "32 word" where
  "UA_STATUSCODE_BADTYPEMISMATCH = 0x80740000"

text \<open>
  The state of the process: the flag \<^verbatim>\<open>server_is_writing\<close>, the caller of the
  command in progress (\<^verbatim>\<open>caller_function\<close> and the untouched metadata term),
  the messages handed to \<^verbatim>\<open>erlcmd_send\<close> and the calls made to the Node Store,
  both oldest first. A message is the content of \<^verbatim>\<open>resp\<close> after the two bytes
  of the size and the response id.
\<close>

record world =
  server_is_writing :: bool
  caller_function :: string
  caller_metadata :: buffer
  sent :: "buffer list"
  calls :: "store_call list"

definition erlcmd_send :: "buffer \<Rightarrow> world \<Rightarrow> world" where
  "erlcmd_send resp w = w\<lparr>sent := sent w @ [resp]\<rparr>"

definition store :: "store_call \<Rightarrow> world \<Rightarrow> world" where
  "store c w = w\<lparr>calls := calls w @ [c]\<rparr>"

section \<open>Assemblers\<close>

text \<open>
  The pattern that reads a binary into a fresh buffer of \<^verbatim>\<open>term_size + 1\<close>
  bytes and terminates it with NUL: \<^verbatim>\<open>ei_get_type\<close> must see a binary (first
  message), \<^verbatim>\<open>ei_decode_binary\<close> must succeed (second message). The result is
  the content of the buffer before the terminator.
\<close>

definition decode_binary_chars :: "buffer \<Rightarrow> string \<Rightarrow> string \<Rightarrow> (string \<times> buffer) outcome" where
  "decode_binary_chars req msg_size msg =
     (case ei_get_type_binary req of
        None \<Rightarrow> Abort msg_size
      | Some term_size \<Rightarrow> or_errx (ei_decode_binary req) msg)"

text \<open>
  The GUID pattern of \<^verbatim>\<open>assemble_node_id\<close>, \<^verbatim>\<open>assemble_expanded_node_id\<close>
  and \<^verbatim>\<open>handle_write_node_value\<close> (the same text at the three places). The
  binary is copied into the 8 bytes of \<^verbatim>\<open>data4\<close> of a local that was never
  initialised: a shorter binary leaves the tail indeterminate.
\<close>

definition decode_guid :: "buffer \<Rightarrow> (ua_guid \<times> buffer) outcome" where
  "decode_guid req =
     and_then (or_errx (ei_decode_tuple_header req) ''Invalid string, term_size = %d'') (\<lambda>(term_size, r1).
     if term_size \<noteq> 4 then Abort ''Invalid string, term_size = %d'' else
     and_then (or_errx (ei_decode_ulong r1) ''Invalid GUID data1'') (\<lambda>(guid_data1, r2).
     and_then (or_errx (ei_decode_ulong r2) ''Invalid GUID data2'') (\<lambda>(guid_data2, r3).
     and_then (or_errx (ei_decode_ulong r3) ''Invalid GUID data3'') (\<lambda>(guid_data3, r4).
     and_then (or_errx (ei_get_type_binary r4) ''Invalid GUID data4 %d >= %d, %d'') (\<lambda>term_size.
     if term_size > 8 then Abort ''Invalid GUID data4 %d >= %d, %d'' else
     and_then (or_errx (ei_decode_binary r4) ''Invalid GUID data4 %d >= %d, %d'') (\<lambda>(bytes, r5).
     if length bytes < 8 then Undefined
     else Ok (\<lparr>data1 = of_nat guid_data1, data2 = of_nat guid_data2,
               data3 = of_nat guid_data3, data4 = bytes\<rparr>, r5)))))))"

text \<open>The local enum of the assemblers: Numeric 0, String 1, GUID 2, ByteString 3.\<close>

definition assemble_node_id :: "buffer \<Rightarrow> (ua_node_id \<times> buffer) outcome" where
  "assemble_node_id req =
     and_then (or_errx (ei_decode_tuple_header req) ''assemble_node_id requires a 3-tuple, term_size = %d'')
       (\<lambda>(term_size, r1).
     if term_size \<noteq> 3 then Abort ''assemble_node_id requires a 3-tuple, term_size = %d'' else
     and_then (or_errx (ei_decode_ulong r1) ''Invalid node_type'') (\<lambda>(node_type, r2).
     and_then (or_errx (ei_decode_ulong r2) ''Invalid ns_index'') (\<lambda>(ns_index, r3).
     if node_type = 0 then
       and_then (or_errx (ei_decode_ulong r3) ''Invalid identifier'') (\<lambda>(identifier, r4).
       Ok (UA_NODEID_NUMERIC ns_index (of_nat identifier), r4))
     else if node_type = 1 then
       and_then (decode_binary_chars r3 ''Invalid bytestring (size)'' ''Invalid bytestring'')
         (\<lambda>(node_string, r4). Ok (UA_NODEID_STRING ns_index node_string, r4))
     else if node_type = 2 then
       and_then (decode_guid r3) (\<lambda>(node_guid, r4). Ok (UA_NODEID_GUID ns_index node_guid, r4))
     else if node_type = 3 then
       and_then (decode_binary_chars r3 ''Invalid bytestring (size)'' ''Invalid bytestring'')
         (\<lambda>(node_bytestring, r4). Ok (UA_NODEID_BYTESTRING ns_index node_bytestring, r4))
     else Abort ''Unknown node_type'')))"

definition assemble_expanded_node_id :: "buffer \<Rightarrow> (ua_expanded_node_id \<times> buffer) outcome" where
  "assemble_expanded_node_id req =
     and_then (or_errx (ei_decode_tuple_header req) ''assemble_node_id requires a 3-tuple, term_size = %d'')
       (\<lambda>(term_size, r1).
     if term_size \<noteq> 3 then Abort ''assemble_node_id requires a 3-tuple, term_size = %d'' else
     and_then (or_errx (ei_decode_ulong r1) ''Invalid node_type'') (\<lambda>(node_type, r2).
     and_then (or_errx (ei_decode_ulong r2) ''Invalid ns_index'') (\<lambda>(ns_index, r3).
     if node_type = 0 then
       and_then (or_errx (ei_decode_ulong r3) ''Invalid identifier'') (\<lambda>(identifier, r4).
       Ok (UA_EXPANDEDNODEID (UA_NODEID_NUMERIC ns_index (of_nat identifier)), r4))
     else if node_type = 1 then
       and_then (decode_binary_chars r3 ''Invalid bytestring (size)'' ''Invalid bytestring'')
         (\<lambda>(node_string, r4). Ok (UA_EXPANDEDNODEID (UA_NODEID_STRING ns_index node_string), r4))
     else if node_type = 2 then
       and_then (decode_guid r3)
         (\<lambda>(node_guid, r4). Ok (UA_EXPANDEDNODEID (UA_NODEID_GUID ns_index node_guid), r4))
     else if node_type = 3 then
       and_then (decode_binary_chars r3 ''Invalid bytestring (size)'' ''Invalid bytestring'')
         (\<lambda>(node_bytestring, r4).
            Ok (UA_EXPANDEDNODEID (UA_NODEID_BYTESTRING ns_index node_bytestring), r4))
     else Abort ''Unknown node_type'')))"

definition assemble_qualified_name :: "buffer \<Rightarrow> (ua_qualified_name \<times> buffer) outcome" where
  "assemble_qualified_name req =
     and_then (or_errx (ei_decode_tuple_header req) ''assemble_qualified_name requires a 2-tuple, term_size = %d'')
       (\<lambda>(term_size, r1).
     if term_size \<noteq> 2 then Abort ''assemble_qualified_name requires a 2-tuple, term_size = %d'' else
     and_then (or_errx (ei_decode_ulong r1) ''Invalid ns_index'') (\<lambda>(ns_index, r2).
     and_then (decode_binary_chars r2 ''Invalid bytestring (size)'' ''Invalid bytestring'')
       (\<lambda>(node_qualified_name_str, r3).
     Ok (UA_QUALIFIEDNAME ns_index node_qualified_name_str, r3))))"

section \<open>Encoders\<close>

definition encode_ua_guid :: "ua_guid \<Rightarrow> buffer" where
  "encode_ua_guid g =
     ei_encode_tuple_header 4 @ ei_encode_ulong (unat (data1 g)) @ ei_encode_ulong (unat (data2 g))
     @ ei_encode_ulong (unat (data3 g)) @ ei_encode_binary (data4 g)"

text \<open>
  \<^verbatim>\<open>{ns_index, node_id_type, identifier}\<close>. The identifier types of the library
  are Numeric 0, String 3, GUID 4, ByteString 5; the datatype has one constructor
  for each.
\<close>

definition encode_identifier :: "ua_identifier \<Rightarrow> buffer" where
  "encode_identifier i =
     (case i of
        UA_NODEIDTYPE_NUMERIC n \<Rightarrow> ei_encode_binary ''integer'' @ ei_encode_ulong (unat n)
      | UA_NODEIDTYPE_STRING s \<Rightarrow> ei_encode_binary ''string'' @ ei_encode_binary s
      | UA_NODEIDTYPE_GUID g \<Rightarrow> ei_encode_binary ''guid'' @ encode_ua_guid g
      | UA_NODEIDTYPE_BYTESTRING s \<Rightarrow> ei_encode_binary ''bytestring'' @ ei_encode_binary s)"

definition encode_node_id :: "ua_node_id \<Rightarrow> buffer" where
  "encode_node_id n =
     ei_encode_tuple_header 3 @ ei_encode_ulong (unat (namespaceIndex n))
     @ encode_identifier (nid_identifier n)"

definition encode_qualified_name :: "ua_qualified_name \<Rightarrow> buffer" where
  "encode_qualified_name q =
     ei_encode_tuple_header 2 @ ei_encode_ulong (unat (qn_namespaceIndex q))
     @ ei_encode_binary (qn_name q)"

definition encode_localized_text :: "ua_localized_text \<Rightarrow> buffer" where
  "encode_localized_text t =
     ei_encode_tuple_header 2 @ ei_encode_binary (lt_locale t) @ ei_encode_binary (lt_text t)"

text \<open>\<^verbatim>\<open>{ns_index, node_id_type, identifier, namespaceuri, serverIndex}\<close>\<close>

definition encode_expanded_node_id :: "ua_expanded_node_id \<Rightarrow> buffer" where
  "encode_expanded_node_id e =
     ei_encode_tuple_header 5 @ ei_encode_ulong (unat (namespaceIndex (nodeId e)))
     @ encode_identifier (nid_identifier (nodeId e))
     @ ei_encode_binary (namespaceUri e) @ ei_encode_ulong (unat (serverIndex e))"

definition encode_ua_float :: "externals \<Rightarrow> 32 word \<Rightarrow> buffer" where
  "encode_ua_float ext v = ei_encode_double (float_to_double ext v)"

definition encode_status_code :: "externals \<Rightarrow> 32 word \<Rightarrow> buffer" where
  "encode_status_code ext c = ei_encode_binary (UA_StatusCode_name ext c)"

text \<open>\<^verbatim>\<open>{affected, affectedType}\<close>\<close>

definition encode_semantic_change_structure_data_type :: "ua_node_id \<Rightarrow> ua_node_id \<Rightarrow> buffer" where
  "encode_semantic_change_structure_data_type affected affectedType =
     ei_encode_tuple_header 2 @ encode_node_id affected @ encode_node_id affectedType"

text \<open>\<^verbatim>\<open>{value, x}\<close>\<close>

definition encode_xv_type :: "externals \<Rightarrow> 64 word \<Rightarrow> 32 word \<Rightarrow> buffer" where
  "encode_xv_type ext x v =
     ei_encode_tuple_header 2 @ ei_encode_double (float_to_double ext v) @ ei_encode_double x"

definition encode_array_dimensions_struct :: "32 word list \<Rightarrow> nat \<Rightarrow> buffer outcome" where
  "encode_array_dimensions_struct dims data_len =
     (if length dims < data_len then Undefined
      else Ok (ei_encode_list_header data_len
               @ concat (map (\<lambda>d. ei_encode_ulong (unat d)) (take data_len dims))
               @ (if data_len \<noteq> 0 then ei_encode_empty_list else [])))"

text \<open>
  The switch of \<^verbatim>\<open>encode_variant_scalar_struct\<close> on the type index, once the
  element has been read with the type of that index.
\<close>

definition encode_element :: "externals \<Rightarrow> ua_scalar \<Rightarrow> buffer" where
  "encode_element ext s =
     (case s of
        UA_Boolean b \<Rightarrow> ei_encode_boolean b
      | UA_SByte w \<Rightarrow> ei_encode_long (sint w)
      | UA_Byte w \<Rightarrow> ei_encode_ulong (unat w)
      | UA_Int16 w \<Rightarrow> ei_encode_long (sint w)
      | UA_UInt16 w \<Rightarrow> ei_encode_ulong (unat w)
      | UA_Int32 w \<Rightarrow> ei_encode_long (sint w)
      | UA_UInt32 w \<Rightarrow> ei_encode_ulong (unat w)
      | UA_Int64 w \<Rightarrow> ei_encode_longlong (sint w)
      | UA_UInt64 w \<Rightarrow> ei_encode_ulonglong (unat w)
      | UA_Float f \<Rightarrow> encode_ua_float ext f
      | UA_Double d \<Rightarrow> ei_encode_double d
      | UA_String b \<Rightarrow> ei_encode_binary b
      | UA_DateTime w \<Rightarrow> ei_encode_ulonglong (unat w)
      | UA_Guid g \<Rightarrow> encode_ua_guid g
      | UA_ByteString b \<Rightarrow> ei_encode_binary b
      | UA_XmlElement b \<Rightarrow> ei_encode_binary b
      | UA_NodeId n \<Rightarrow> encode_node_id n
      | UA_ExpandedNodeId e \<Rightarrow> encode_expanded_node_id e
      | UA_StatusCode c \<Rightarrow> encode_status_code ext c
      | UA_QualifiedName q \<Rightarrow> encode_qualified_name q
      | UA_LocalizedText t \<Rightarrow> encode_localized_text t
      | UA_SemanticChangeStructureDataType a b \<Rightarrow> encode_semantic_change_structure_data_type a b
      | UA_TimeString b \<Rightarrow> ei_encode_binary b
      | UA_UadpNetworkMessageContentMask w \<Rightarrow> ei_encode_ulong (unat w)
      | UA_XVType x v \<Rightarrow> encode_xv_type ext x v
      | UA_ElementOperand w \<Rightarrow> ei_encode_long (uint w)
      | UA_Other k \<Rightarrow> ei_encode_atom ''error'')"

definition encode_variant_scalar_struct :: "externals \<Rightarrow> ua_variant \<Rightarrow> nat \<Rightarrow> buffer outcome" where
  "encode_variant_scalar_struct ext v index =
     (case variant_element v index of
        None \<Rightarrow> Undefined
      | Some s \<Rightarrow> Ok (encode_element ext s))"

text \<open>The loop of \<^verbatim>\<open>encode_variant_array_struct\<close> over the indices.\<close>

fun encode_variant_elements :: "externals \<Rightarrow> ua_variant \<Rightarrow> nat list \<Rightarrow> buffer outcome" where
  "encode_variant_elements ext v [] = Ok []"
| "encode_variant_elements ext v (i # is) =
     and_then (encode_variant_scalar_struct ext v i) (\<lambda>b.
     and_then (encode_variant_elements ext v is) (\<lambda>bs. Ok (b @ bs)))"

definition encode_variant_array_struct :: "externals \<Rightarrow> ua_variant \<Rightarrow> buffer outcome" where
  "encode_variant_array_struct ext v =
     and_then (encode_variant_elements ext v [0..<arrayLength v]) (\<lambda>elements.
     Ok (ei_encode_list_header (arrayLength v) @ elements
         @ (if arrayLength v \<noteq> 0 then ei_encode_empty_list else [])))"

definition encode_variant_struct :: "externals \<Rightarrow> ua_variant \<Rightarrow> buffer outcome" where
  "encode_variant_struct ext v =
     (if UA_Variant_isEmpty v then Ok (ei_encode_atom ''nil'')
      else if UA_Variant_isScalar v then encode_variant_scalar_struct ext v 0
      else encode_variant_array_struct ext v)"

subsection \<open>The response encoder\<close>

text \<open>
  \<^verbatim>\<open>encode_data_response\<close> takes a \<^verbatim>\<open>void *\<close> and casts it to the C type of
  the \<^verbatim>\<open>data_type\<close> code. A read through the pointer is defined where an object
  of the same width stands there; reading more bytes than the object has, reading
  through \<^verbatim>\<open>NULL\<close> and reading an object of another shape are \<open>Undefined\<close>.
  The codes 7 to 11 cast to the configuration and discovery structures, which are
  not among the objects of the model.
\<close>

definition read_word8 :: "data_ptr \<Rightarrow> 8 word option" where
  "read_word8 p = (case p of Object (UA_SByte w) \<Rightarrow> Some w | Object (UA_Byte w) \<Rightarrow> Some w | _ \<Rightarrow> None)"

definition read_word16 :: "data_ptr \<Rightarrow> 16 word option" where
  "read_word16 p = (case p of Object (UA_Int16 w) \<Rightarrow> Some w | Object (UA_UInt16 w) \<Rightarrow> Some w | _ \<Rightarrow> None)"

definition read_word32 :: "data_ptr \<Rightarrow> 32 word option" where
  "read_word32 p =
     (case p of
        Object (UA_Int32 w) \<Rightarrow> Some w
      | Object (UA_UInt32 w) \<Rightarrow> Some w
      | Object (UA_StatusCode w) \<Rightarrow> Some w
      | Object (UA_UadpNetworkMessageContentMask w) \<Rightarrow> Some w
      | Object (UA_ElementOperand w) \<Rightarrow> Some w
      | _ \<Rightarrow> None)"

definition read_word64 :: "data_ptr \<Rightarrow> 64 word option" where
  "read_word64 p =
     (case p of
        Object (UA_Int64 w) \<Rightarrow> Some w
      | Object (UA_UInt64 w) \<Rightarrow> Some w
      | Object (UA_DateTime w) \<Rightarrow> Some w
      | _ \<Rightarrow> None)"

definition or_undefined :: "'a option \<Rightarrow> ('a \<Rightarrow> buffer) \<Rightarrow> buffer outcome" where
  "or_undefined r f = (case r of None \<Rightarrow> Undefined | Some x \<Rightarrow> Ok (f x))"

definition encode_data_response :: "externals \<Rightarrow> data_ptr \<Rightarrow> nat \<Rightarrow> nat \<Rightarrow> buffer outcome" where
  "encode_data_response ext data data_type data_len =
     (if data_type = 0 then
        (case data of Object (UA_Boolean b) \<Rightarrow> Ok (ei_encode_boolean b) | _ \<Rightarrow> Undefined)
      else if data_type = 1 then or_undefined (read_word32 data) (\<lambda>w. ei_encode_long (sint w))
      else if data_type = 2 then or_undefined (read_word32 data) (\<lambda>w. ei_encode_ulong (unat w))
      else if data_type = 3 then
        (case data of Chars c \<Rightarrow> Ok (ei_encode_string (UA_STRING c)) | _ \<Rightarrow> Undefined)
      else if data_type = 4 then
        (case data of Object (UA_Double d) \<Rightarrow> Ok (ei_encode_double d) | _ \<Rightarrow> Undefined)
      else if data_type = 5 then
        (case data of
           Chars c \<Rightarrow> if length c < data_len then Undefined else Ok (ei_encode_binary (take data_len c))
         | _ \<Rightarrow> Undefined)
      else if data_type = 6 then
        (case data of Chars c \<Rightarrow> Ok (ei_encode_atom (UA_STRING c)) | _ \<Rightarrow> Undefined)
      else if 7 \<le> data_type \<and> data_type \<le> 11 then Undefined
      else if data_type = 12 then
        (case data of Object (UA_NodeId n) \<Rightarrow> Ok (encode_node_id n) | _ \<Rightarrow> Undefined)
      else if data_type = 13 then
        (case data of Object (UA_QualifiedName q) \<Rightarrow> Ok (encode_qualified_name q) | _ \<Rightarrow> Undefined)
      else if data_type = 14 then
        (case data of Object (UA_LocalizedText t) \<Rightarrow> Ok (encode_localized_text t) | _ \<Rightarrow> Undefined)
      else if data_type = 15 then or_undefined (read_word64 data) (\<lambda>w. ei_encode_longlong (sint w))
      else if data_type = 16 then or_undefined (read_word64 data) (\<lambda>w. ei_encode_ulonglong (unat w))
      else if data_type = 17 then
        (case data of Object (UA_Float f) \<Rightarrow> Ok (encode_ua_float ext f) | _ \<Rightarrow> Undefined)
      else if data_type = 18 then
        (case data of Object (UA_Guid g) \<Rightarrow> Ok (encode_ua_guid g) | _ \<Rightarrow> Undefined)
      else if data_type = 19 then
        (case data of Object (UA_ExpandedNodeId e) \<Rightarrow> Ok (encode_expanded_node_id e) | _ \<Rightarrow> Undefined)
      else if data_type = 20 then or_undefined (read_word32 data) (encode_status_code ext)
      else if data_type = 21 then
        (case data of
           Object (UA_SemanticChangeStructureDataType a b) \<Rightarrow>
             Ok (encode_semantic_change_structure_data_type a b)
         | _ \<Rightarrow> Undefined)
      else if data_type = 22 then
        (case data of Object (UA_XVType x v) \<Rightarrow> Ok (encode_xv_type ext x v) | _ \<Rightarrow> Undefined)
      else if data_type = 23 then or_undefined (read_word8 data) (\<lambda>w. ei_encode_long (sint w))
      else if data_type = 24 then or_undefined (read_word8 data) (\<lambda>w. ei_encode_ulong (unat w))
      else if data_type = 25 then or_undefined (read_word16 data) (\<lambda>w. ei_encode_long (sint w))
      else if data_type = 26 then or_undefined (read_word16 data) (\<lambda>w. ei_encode_ulong (unat w))
      else if data_type = 27 then or_undefined (read_word32 data) (\<lambda>w. ei_encode_ulong (unat w))
      else if data_type = 28 then
        (case data of Dimensions ds \<Rightarrow> encode_array_dimensions_struct ds data_len | _ \<Rightarrow> Undefined)
      else if data_type = 29 then
        (case data of Variant v \<Rightarrow> encode_variant_struct ext v | _ \<Rightarrow> Undefined)
      else Abort ''data_type error'')"

section \<open>Senders\<close>

definition encode_caller_metadata :: "world \<Rightarrow> buffer" where
  "encode_caller_metadata w = ei_encode_atom (caller_function w) @ caller_metadata w"

text \<open>\<^verbatim>\<open>{:subscription, {:timeout, subId}}\<close>\<close>

definition send_subscription_timeout_response ::
    "externals \<Rightarrow> data_ptr \<Rightarrow> nat \<Rightarrow> nat \<Rightarrow> world \<Rightarrow> world outcome" where
  "send_subscription_timeout_response ext data data_type data_len w =
     and_then (encode_data_response ext data data_type data_len) (\<lambda>payload.
     Ok (erlcmd_send (ei_encode_version @ ei_encode_tuple_header 2 @ ei_encode_atom ''subscription''
                      @ ei_encode_tuple_header 2 @ ei_encode_atom ''timeout'' @ payload) w))"

text \<open>\<^verbatim>\<open>{:subscription, {:delete, subId}}\<close>\<close>

definition send_subscription_deleted_response ::
    "externals \<Rightarrow> data_ptr \<Rightarrow> nat \<Rightarrow> nat \<Rightarrow> world \<Rightarrow> world outcome" where
  "send_subscription_deleted_response ext data data_type data_len w =
     and_then (encode_data_response ext data data_type data_len) (\<lambda>payload.
     Ok (erlcmd_send (ei_encode_version @ ei_encode_tuple_header 2 @ ei_encode_atom ''subscription''
                      @ ei_encode_tuple_header 2 @ ei_encode_atom ''delete'' @ payload) w))"

text \<open>\<^verbatim>\<open>{:subscription, {:data, subId, monId, data}}\<close>\<close>

definition send_monitored_item_response ::
    "externals \<Rightarrow> data_ptr \<Rightarrow> data_ptr \<Rightarrow> data_ptr \<Rightarrow> nat \<Rightarrow> world \<Rightarrow> world outcome" where
  "send_monitored_item_response ext subscription_id monitored_id data data_type w =
     and_then (encode_data_response ext subscription_id 27 0) (\<lambda>sub.
     and_then (encode_data_response ext monitored_id 27 0) (\<lambda>mon.
     and_then (encode_data_response ext data data_type 0) (\<lambda>payload.
     Ok (erlcmd_send (ei_encode_version @ ei_encode_tuple_header 2 @ ei_encode_atom ''subscription''
                      @ ei_encode_tuple_header 4 @ ei_encode_atom ''data'' @ sub @ mon @ payload) w))))"

text \<open>\<^verbatim>\<open>{:subscription, {:delete, subId, monId}}\<close>\<close>

definition send_monitored_item_delete_response ::
    "externals \<Rightarrow> data_ptr \<Rightarrow> data_ptr \<Rightarrow> world \<Rightarrow> world outcome" where
  "send_monitored_item_delete_response ext subscription_id monitored_id w =
     and_then (encode_data_response ext subscription_id 27 0) (\<lambda>sub.
     and_then (encode_data_response ext monitored_id 27 0) (\<lambda>mon.
     Ok (erlcmd_send (ei_encode_version @ ei_encode_tuple_header 2 @ ei_encode_atom ''subscription''
                      @ ei_encode_tuple_header 3 @ ei_encode_atom ''delete'' @ sub @ mon) w)))"

text \<open>\<^verbatim>\<open>{:write, node_id, value}\<close>\<close>

definition send_write_data_response ::
    "externals \<Rightarrow> ua_node_id \<Rightarrow> data_ptr \<Rightarrow> nat \<Rightarrow> world \<Rightarrow> world outcome" where
  "send_write_data_response ext node_id data data_type w =
     and_then (encode_data_response ext data data_type 0) (\<lambda>payload.
     Ok (erlcmd_send (ei_encode_version @ ei_encode_tuple_header 3 @ ei_encode_atom ''write''
                      @ encode_node_id node_id @ payload) w))"

text \<open>\<^verbatim>\<open>{:ok, data}\<close>, after the caller.\<close>

definition send_data_response ::
    "externals \<Rightarrow> data_ptr \<Rightarrow> nat \<Rightarrow> nat \<Rightarrow> world \<Rightarrow> world outcome" where
  "send_data_response ext data data_type data_len w =
     and_then (encode_data_response ext data data_type data_len) (\<lambda>payload.
     Ok (erlcmd_send (ei_encode_version @ ei_encode_tuple_header 3 @ encode_caller_metadata w
                      @ ei_encode_tuple_header 2 @ ei_encode_atom ''ok'' @ payload) w))"

text \<open>\<^verbatim>\<open>{:error, reason}\<close>, the reason an atom.\<close>

definition send_error_response :: "string \<Rightarrow> world \<Rightarrow> world" where
  "send_error_response reason w =
     erlcmd_send (ei_encode_version @ ei_encode_tuple_header 3 @ encode_caller_metadata w
                  @ ei_encode_tuple_header 2 @ ei_encode_atom ''error'' @ ei_encode_atom reason) w"

definition send_ok_response :: "world \<Rightarrow> world" where
  "send_ok_response w =
     erlcmd_send (ei_encode_version @ ei_encode_tuple_header 3 @ encode_caller_metadata w
                  @ ei_encode_atom ''ok'') w"

text \<open>\<^verbatim>\<open>{:error, name}\<close>, the name of the status code as a binary.\<close>

definition send_opex_response :: "externals \<Rightarrow> 32 word \<Rightarrow> world \<Rightarrow> world" where
  "send_opex_response ext reason w =
     erlcmd_send (ei_encode_version @ ei_encode_tuple_header 3 @ encode_caller_metadata w
                  @ ei_encode_tuple_header 2 @ ei_encode_atom ''error''
                  @ ei_encode_binary (UA_StatusCode_name ext reason)) w"

text \<open>
  The \<^verbatim>\<open>onWrite\<close> callback that \<^verbatim>\<open>handle_add_variable_node\<close> registers on the
  nodes of the local server.
\<close>

definition send_write_response :: "externals \<Rightarrow> ua_node_id \<Rightarrow> ua_variant \<Rightarrow> world \<Rightarrow> world outcome" where
  "send_write_response ext node_id data w =
     (if server_is_writing w then Ok (w\<lparr>server_is_writing := False\<rparr>)
      else send_write_data_response ext node_id (Variant data) 29 w)"

text \<open>The callbacks that one write of the local server fires, in order.\<close>

fun fire_on_write :: "externals \<Rightarrow> (ua_node_id \<times> ua_variant) list \<Rightarrow> world \<Rightarrow> world outcome" where
  "fire_on_write ext [] w = Ok w"
| "fire_on_write ext ((node_id, data) # later) w =
     and_then (send_write_response ext node_id data w) (fire_on_write ext later)"

section \<open>Command handlers\<close>

text \<open>
  A handler takes the Node Store and the rest of the platform (\<open>ext\<close>), the
  entity mode, the request from the read index on, and the state of the
  process. Where the source sends \<^verbatim>\<open>einval\<close> and returns:
\<close>

definition or_einval :: "'a option \<Rightarrow> world \<Rightarrow> ('a \<Rightarrow> world outcome) \<Rightarrow> world outcome" where
  "or_einval r w f = (case r of None \<Rightarrow> Ok (send_error_response ''einval'' w) | Some x \<Rightarrow> f x)"

text \<open>The end of every handler that writes an attribute.\<close>

definition respond_to :: "externals \<Rightarrow> 32 word \<Rightarrow> world \<Rightarrow> world outcome" where
  "respond_to ext retval w =
     (if retval \<noteq> UA_STATUSCODE_GOOD then Ok (send_opex_response ext retval w)
      else Ok (send_ok_response w))"

text \<open>The loop that reads \<^verbatim>\<open>array_dimension_size\<close> dimensions.\<close>

fun decode_dimensions :: "nat \<Rightarrow> buffer \<Rightarrow> (32 word list \<times> buffer) option" where
  "decode_dimensions 0 req = Some ([], req)"
| "decode_dimensions (Suc n) req =
     (case ei_decode_ulong req of
        None \<Rightarrow> None
      | Some (dimension, rest) \<Rightarrow>
          (case decode_dimensions n rest of
             None \<Rightarrow> None
           | Some (dims, rest') \<Rightarrow> Some (of_nat dimension # dims, rest')))"

definition handle_write_node_array_dimensions ::
    "externals \<Rightarrow> bool \<Rightarrow> buffer \<Rightarrow> world \<Rightarrow> world outcome" where
  "handle_write_node_array_dimensions ext entity_type req w =
     and_then (or_errx (ei_decode_tuple_header req)
                 '':handle_write_node_array_dimension requires a 3-tuple, term_size = %d'')
       (\<lambda>(term_size, r1).
     if term_size \<noteq> 3
     then Abort '':handle_write_node_array_dimension requires a 3-tuple, term_size = %d'' else
     and_then (assemble_node_id r1) (\<lambda>(node_id, r2).
     or_einval (ei_decode_ulong r2) w (\<lambda>(array_dimension_size, r3).
     and_then (or_errx (ei_decode_tuple_header r3)
                 '':handle_write_node_array_dimension arity mismatch, list_size = %d, array_d = %ld'')
       (\<lambda>(term_size, r4).
     if term_size \<noteq> array_dimension_size
     then Abort '':handle_write_node_array_dimension arity mismatch, list_size = %d, array_d = %ld''
     else
     or_einval (decode_dimensions array_dimension_size r4) w (\<lambda>(array_dimension, r5).
     let call = UA_writeArrayDimensions entity_type node_id array_dimension in
     respond_to ext (retval_of ext call) (store call w))))))"

definition handle_write_node_historizing ::
    "externals \<Rightarrow> bool \<Rightarrow> buffer \<Rightarrow> world \<Rightarrow> world outcome" where
  "handle_write_node_historizing ext entity_type req w =
     and_then (or_errx (ei_decode_tuple_header req)
                 '':handle_write_node_historizing requires a 2-tuple, term_size = %d'')
       (\<lambda>(term_size, r1).
     if term_size \<noteq> 2
     then Abort '':handle_write_node_historizing requires a 2-tuple, term_size = %d'' else
     and_then (assemble_node_id r1) (\<lambda>(node_id, r2).
     or_einval (ei_decode_boolean r2) w (\<lambda>(historizing, r3).
     let call = UA_writeHistorizing entity_type node_id historizing in
     respond_to ext (retval_of ext call) (store call w))))"

text \<open>
  ``Change 'Excutable' of a node in the server.'' Both branches of the source
  call the Historizing operation, \<^verbatim>\<open>UA_Client_writeHistorizingAttribute\<close> and
  \<^verbatim>\<open>UA_Server_writeHistorizing\<close>.
\<close>

definition handle_write_node_executable ::
    "externals \<Rightarrow> bool \<Rightarrow> buffer \<Rightarrow> world \<Rightarrow> world outcome" where
  "handle_write_node_executable ext entity_type req w =
     and_then (or_errx (ei_decode_tuple_header req)
                 '':handle_write_node_executable requires a 2-tuple, term_size = %d'')
       (\<lambda>(term_size, r1).
     if term_size \<noteq> 2
     then Abort '':handle_write_node_executable requires a 2-tuple, term_size = %d'' else
     and_then (assemble_node_id r1) (\<lambda>(node_id, r2).
     or_einval (ei_decode_boolean r2) w (\<lambda>(executable, r3).
     let call = UA_writeHistorizing entity_type node_id executable in
     respond_to ext (retval_of ext call) (store call w))))"

subsection \<open>Writing a value\<close>

text \<open>
  The switch of \<^verbatim>\<open>handle_write_node_value\<close> on \<^verbatim>\<open>data_type\<close>, up to the
  decoded \<^verbatim>\<open>data\<close> of each case: \<open>Ok None\<close> where the case sends
  \<^verbatim>\<open>einval\<close> and returns, \<open>Abort\<close> where it calls \<^verbatim>\<open>errx\<close>. The casts to
  the narrower C types keep the low bits.
\<close>

definition einval_or :: "'a option \<Rightarrow> ('a \<Rightarrow> 'b) \<Rightarrow> 'b option outcome" where
  "einval_or r f = (case r of None \<Rightarrow> Ok None | Some x \<Rightarrow> Ok (Some (f x)))"

definition decode_value :: "externals \<Rightarrow> ua_type \<Rightarrow> buffer \<Rightarrow> (ua_scalar \<times> buffer) option outcome" where
  "decode_value ext t req =
     (case t of
        UA_TYPES_BOOLEAN \<Rightarrow> einval_or (ei_decode_boolean req) (\<lambda>(d, r). (UA_Boolean d, r))
      | UA_TYPES_SBYTE \<Rightarrow> einval_or (ei_decode_long req) (\<lambda>(d, r). (UA_SByte (word_of_int d), r))
      | UA_TYPES_BYTE \<Rightarrow> einval_or (ei_decode_ulong req) (\<lambda>(d, r). (UA_Byte (of_nat d), r))
      | UA_TYPES_INT16 \<Rightarrow> einval_or (ei_decode_long req) (\<lambda>(d, r). (UA_Int16 (word_of_int d), r))
      | UA_TYPES_UINT16 \<Rightarrow> einval_or (ei_decode_ulong req) (\<lambda>(d, r). (UA_UInt16 (of_nat d), r))
      | UA_TYPES_INT32 \<Rightarrow> einval_or (ei_decode_long req) (\<lambda>(d, r). (UA_Int32 (word_of_int d), r))
      | UA_TYPES_UINT32 \<Rightarrow> einval_or (ei_decode_ulong req) (\<lambda>(d, r). (UA_UInt32 (of_nat d), r))
      | UA_TYPES_INT64 \<Rightarrow> einval_or (ei_decode_longlong req) (\<lambda>(d, r). (UA_Int64 (word_of_int d), r))
      | UA_TYPES_UINT64 \<Rightarrow> einval_or (ei_decode_ulonglong req) (\<lambda>(d, r). (UA_UInt64 (of_nat d), r))
      | UA_TYPES_FLOAT \<Rightarrow>
          einval_or (ei_decode_double req) (\<lambda>(d, r). (UA_Float (double_to_float ext d), r))
      | UA_TYPES_DOUBLE \<Rightarrow> einval_or (ei_decode_double req) (\<lambda>(d, r). (UA_Double d, r))
      | UA_TYPES_STRING \<Rightarrow>
          and_then (decode_binary_chars req ''Invalid string (size)'' ''Invalid string'')
            (\<lambda>(arg1, r). Ok (Some (UA_String (UA_STRING arg1), r)))
      | UA_TYPES_DATETIME \<Rightarrow>
          einval_or (ei_decode_longlong req) (\<lambda>(d, r). (UA_DateTime (word_of_int d), r))
      | UA_TYPES_GUID \<Rightarrow> and_then (decode_guid req) (\<lambda>(guid, r). Ok (Some (UA_Guid guid, r)))
      | UA_TYPES_BYTESTRING \<Rightarrow>
          and_then (decode_binary_chars req ''Invalid byte_string (size)'' ''Invalid byte_string'')
            (\<lambda>(arg1, r). Ok (Some (UA_ByteString (UA_STRING arg1), r)))
      | UA_TYPES_XMLELEMENT \<Rightarrow>
          and_then (decode_binary_chars req ''Invalid xml (size)'' ''Invalid xml'')
            (\<lambda>(arg1, r). Ok (Some (UA_XmlElement (UA_STRING arg1), r)))
      | UA_TYPES_NODEID \<Rightarrow>
          and_then (assemble_node_id req) (\<lambda>(node_id_arg_1, r). Ok (Some (UA_NodeId node_id_arg_1, r)))
      | UA_TYPES_EXPANDEDNODEID \<Rightarrow>
          and_then (assemble_expanded_node_id req)
            (\<lambda>(expanded_node_id_arg_1, r). Ok (Some (UA_ExpandedNodeId expanded_node_id_arg_1, r)))
      | UA_TYPES_STATUSCODE \<Rightarrow>
          einval_or (ei_decode_ulong req) (\<lambda>(d, r). (UA_StatusCode (of_nat d), r))
      | UA_TYPES_QUALIFIEDNAME \<Rightarrow>
          and_then (assemble_qualified_name req)
            (\<lambda>(qualified_name, r). Ok (Some (UA_QualifiedName qualified_name, r)))
      | UA_TYPES_LOCALIZEDTEXT \<Rightarrow>
          and_then (or_errx (ei_decode_tuple_header req)
                      '':handle_write_node_value requires a 2-tuple, term_size = %d'')
            (\<lambda>(term_size, r1).
          if term_size \<noteq> 2
          then Abort '':handle_write_node_value requires a 2-tuple, term_size = %d'' else
          and_then (decode_binary_chars r1 ''Invalid locale (size)'' ''Invalid locale'') (\<lambda>(arg1, r2).
          and_then (decode_binary_chars r2 ''Invalid text (size)'' ''Invalid text'') (\<lambda>(arg2, r3).
          Ok (Some (UA_LocalizedText (UA_LOCALIZEDTEXT arg1 arg2), r3)))))
      | UA_TYPES_SEMANTICCHANGESTRUCTUREDATATYPE \<Rightarrow>
          and_then (or_errx (ei_decode_tuple_header req)
                      '':handle_write_node_value requires a 2-tuple, term_size = %d'')
            (\<lambda>(term_size, r1).
          if term_size \<noteq> 2
          then Abort '':handle_write_node_value requires a 2-tuple, term_size = %d'' else
          and_then (assemble_node_id r1) (\<lambda>(node_id_arg_1, r2).
          and_then (assemble_node_id r2) (\<lambda>(node_id_arg_2, r3).
          Ok (Some (UA_SemanticChangeStructureDataType node_id_arg_1 node_id_arg_2, r3)))))
      | UA_TYPES_TIMESTRING \<Rightarrow>
          and_then (decode_binary_chars req ''Invalid time_string (size)'' ''Invalid time_string'')
            (\<lambda>(arg1, r). Ok (Some (UA_TimeString (UA_STRING arg1), r)))
      | UA_TYPES_UADPNETWORKMESSAGECONTENTMASK \<Rightarrow>
          einval_or (ei_decode_ulong req) (\<lambda>(d, r). (UA_UadpNetworkMessageContentMask (of_nat d), r))
      | UA_TYPES_XVTYPE \<Rightarrow>
          and_then (or_errx (ei_decode_tuple_header req)
                      '':handle_write_node_value (UA_TYPES_XVTYPE) requires a 2-tuple, term_size = %d'')
            (\<lambda>(term_size, r1).
          if term_size \<noteq> 2
          then Abort '':handle_write_node_value (UA_TYPES_XVTYPE) requires a 2-tuple, term_size = %d''
          else
          (case ei_decode_double r1 of
             None \<Rightarrow> Ok None
           | Some (float_data, r2) \<Rightarrow>
               einval_or (ei_decode_double r2)
                 (\<lambda>(double_data, r3). (UA_XVType double_data (double_to_float ext float_data), r3))))
      | UA_TYPES_ELEMENTOPERAND \<Rightarrow>
          einval_or (ei_decode_ulong req) (\<lambda>(d, r). (UA_ElementOperand (of_nat d), r))
      | UA_TYPES_OTHER k \<Rightarrow> Abort '':handle_write_node_value invalid data_type = %ld'')"

text \<open>
  The store into \<^verbatim>\<open>value\<close> that ends each case: a fresh scalar when the value
  read was empty or scalar, the element at \<^verbatim>\<open>data_index\<close> otherwise. Storing an
  element of another kind than the array's writes over memory of another shape.
\<close>

definition put_value :: "bool \<Rightarrow> bool \<Rightarrow> ua_variant \<Rightarrow> nat \<Rightarrow> ua_scalar \<Rightarrow> ua_variant outcome" where
  "put_value is_scalar is_null v data_index data =
     (if is_scalar \<or> is_null then Ok (Scalar data)
      else (case v of
              Array t xs dims \<Rightarrow>
                if data_index < length xs \<and> type_of data = t
                then Ok (Array t (xs[data_index := data]) dims) else Undefined
            | _ \<Rightarrow> Undefined))"

text \<open>
  The write of the value: the client operation, or the flag and then the server
  operation, during which the local server fires the \<^verbatim>\<open>onWrite\<close> callbacks.
\<close>

definition write_value :: "externals \<Rightarrow> bool \<Rightarrow> ua_node_id \<Rightarrow> ua_variant \<Rightarrow> world \<Rightarrow> world outcome" where
  "write_value ext entity_type node_id v w =
     (if entity_type then Ok (store (UA_writeValue True node_id v) w)
      else fire_on_write ext (on_write ext node_id v)
             (store (UA_writeValue False node_id v) (w\<lparr>server_is_writing := True\<rparr>)))"

definition handle_write_node_value ::
    "externals \<Rightarrow> bool \<Rightarrow> buffer \<Rightarrow> world \<Rightarrow> world outcome" where
  "handle_write_node_value ext entity_type req w =
     and_then (or_errx (ei_decode_tuple_header req)
                 '':handle_write_node_value requires a 4-tuple, term_size = %d'')
       (\<lambda>(term_size, r1).
     if term_size \<noteq> 4
     then Abort '':handle_write_node_value requires a 4-tuple, term_size = %d'' else
     and_then (assemble_node_id r1) (\<lambda>(node_id, r2).
     or_einval (ei_decode_ulong r2) w (\<lambda>(data_type, r3).
     or_einval (ei_decode_ulong r3) w (\<lambda>(data_index, r4).
     let w1 = store (UA_readValue entity_type node_id) w;
         retval = retval_of ext (UA_readValue entity_type node_id);
         v0 = value_read ext entity_type node_id
     in
     if retval \<noteq> UA_STATUSCODE_GOOD then Ok (send_opex_response ext retval w1) else
     let is_null = UA_Variant_isEmpty v0;
         v1 = (if is_null then Empty else v0);
         is_scalar = UA_Variant_isScalar v1;
         v2 = (if is_scalar then Empty else v1)
     in
     if \<not> is_scalar \<and> \<not> is_null \<and> arrayLength v2 \<le> data_index
     then Ok (send_opex_response ext UA_STATUSCODE_BADTYPEMISMATCH w1) else
     and_then (decode_value ext (UA_TYPES ext data_type) r4) (\<lambda>decoded.
     (case decoded of
        None \<Rightarrow> Ok (send_error_response ''einval'' w1)
      | Some (data, r5) \<Rightarrow>
          and_then (put_value is_scalar is_null v2 data_index data) (\<lambda>v3.
          and_then (write_value ext entity_type node_id v3 w1) (\<lambda>w2.
          respond_to ext (retval_of ext (UA_writeValue entity_type node_id v3)) w2))))))))"

subsection \<open>Writing a blank array\<close>

text \<open>
  The element that \<^verbatim>\<open>UA_T_init\<close> or \<^verbatim>\<open>UA_T_clear\<close> leaves, for the kinds
  of the switch of \<^verbatim>\<open>handle_write_node_blank_array\<close>.
\<close>

definition UA_NODEID_NULL :: ua_node_id where
  "UA_NODEID_NULL = \<lparr>namespaceIndex = 0, nid_identifier = UA_NODEIDTYPE_NUMERIC 0\<rparr>"

definition blank_element :: "ua_type \<Rightarrow> ua_scalar option" where
  "blank_element t =
     (case t of
        UA_TYPES_BOOLEAN \<Rightarrow> Some (UA_Boolean False)
      | UA_TYPES_SBYTE \<Rightarrow> Some (UA_SByte 0)
      | UA_TYPES_BYTE \<Rightarrow> Some (UA_Byte 0)
      | UA_TYPES_INT16 \<Rightarrow> Some (UA_Int16 0)
      | UA_TYPES_UINT16 \<Rightarrow> Some (UA_UInt16 0)
      | UA_TYPES_INT32 \<Rightarrow> Some (UA_Int32 0)
      | UA_TYPES_UINT32 \<Rightarrow> Some (UA_UInt32 0)
      | UA_TYPES_INT64 \<Rightarrow> Some (UA_Int64 0)
      | UA_TYPES_UINT64 \<Rightarrow> Some (UA_UInt64 0)
      | UA_TYPES_FLOAT \<Rightarrow> Some (UA_Float 0)
      | UA_TYPES_DOUBLE \<Rightarrow> Some (UA_Double 0)
      | UA_TYPES_STRING \<Rightarrow> Some (UA_String [])
      | UA_TYPES_DATETIME \<Rightarrow> Some (UA_DateTime 0)
      | UA_TYPES_GUID \<Rightarrow>
          Some (UA_Guid \<lparr>data1 = 0, data2 = 0, data3 = 0, data4 = replicate 8 (CHR 0x00)\<rparr>)
      | UA_TYPES_BYTESTRING \<Rightarrow> Some (UA_ByteString [])
      | UA_TYPES_XMLELEMENT \<Rightarrow> Some (UA_XmlElement [])
      | UA_TYPES_NODEID \<Rightarrow> Some (UA_NodeId UA_NODEID_NULL)
      | UA_TYPES_EXPANDEDNODEID \<Rightarrow> Some (UA_ExpandedNodeId (UA_EXPANDEDNODEID UA_NODEID_NULL))
      | UA_TYPES_STATUSCODE \<Rightarrow> Some (UA_StatusCode 0)
      | UA_TYPES_QUALIFIEDNAME \<Rightarrow>
          Some (UA_QualifiedName \<lparr>qn_namespaceIndex = 0, qn_name = []\<rparr>)
      | UA_TYPES_LOCALIZEDTEXT \<Rightarrow> Some (UA_LocalizedText \<lparr>lt_locale = [], lt_text = []\<rparr>)
      | UA_TYPES_SEMANTICCHANGESTRUCTUREDATATYPE \<Rightarrow>
          Some (UA_SemanticChangeStructureDataType UA_NODEID_NULL UA_NODEID_NULL)
      | UA_TYPES_TIMESTRING \<Rightarrow> Some (UA_TimeString [])
      | UA_TYPES_UADPNETWORKMESSAGECONTENTMASK \<Rightarrow> Some (UA_UadpNetworkMessageContentMask 0)
      | UA_TYPES_XVTYPE \<Rightarrow> Some (UA_XVType 0 0)
      | UA_TYPES_ELEMENTOPERAND \<Rightarrow> Some (UA_ElementOperand 0)
      | UA_TYPES_OTHER k \<Rightarrow> None)"

definition handle_write_node_blank_array ::
    "externals \<Rightarrow> bool \<Rightarrow> buffer \<Rightarrow> world \<Rightarrow> world outcome" where
  "handle_write_node_blank_array ext entity_type req w =
     and_then (or_errx (ei_decode_tuple_header req)
                 '':handle_write_node_blank_array requires a 5-tuple, term_size = %d'')
       (\<lambda>(term_size, r1).
     if term_size \<noteq> 5
     then Abort '':handle_write_node_blank_array requires a 5-tuple, term_size = %d'' else
     and_then (assemble_node_id r1) (\<lambda>(node_id, r2).
     or_einval (ei_decode_ulong r2) w (\<lambda>(data_type, r3).
     or_einval (ei_decode_ulong r3) w (\<lambda>(array_dimension_size, r4).
     or_einval (ei_decode_ulong r4) w (\<lambda>(array_raw_size, r5).
     and_then (or_errx (blank_element (UA_TYPES ext data_type))
                 '':handle_write_node_value invalid data_type = %ld'') (\<lambda>blank.
     and_then (or_errx (ei_decode_tuple_header r5)
                 '':handle_write_node_array_dimension arity mismatch, list_size = %d, array_d = %ld'')
       (\<lambda>(term_size, r6).
     if term_size \<noteq> array_dimension_size
     then Abort '':handle_write_node_array_dimension arity mismatch, list_size = %d, array_d = %ld''
     else
     or_einval (decode_dimensions array_dimension_size r6) w (\<lambda>(arrayDimensions, r7).
     let v = Array (UA_TYPES ext data_type) (replicate array_raw_size blank) arrayDimensions in
     and_then (write_value ext entity_type node_id v w) (\<lambda>w1.
     respond_to ext (retval_of ext (UA_writeValue entity_type node_id v)) w1)))))))))"

subsection \<open>Reading a value\<close>

text \<open>
  An out parameter handed to the Node Store is the address of an object that the
  handler holds (a local, or what \<^verbatim>\<open>UA_Variant_new\<close> returned), or a pointer
  that the handler declared and never set. The Node Store writes its result
  through the pointer: through one that was never set the behaviour is undefined.
\<close>

datatype out_parameter = Allocated | Never_set

definition read_through :: "out_parameter \<Rightarrow> 'a \<Rightarrow> 'a outcome" where
  "read_through out result = (case out of Allocated \<Rightarrow> Ok result | Never_set \<Rightarrow> Undefined)"

text \<open>
  The three handlers declare \<^verbatim>\<open>value\<close> as a pointer. The first two set it to
  a variant of \<^verbatim>\<open>UA_Variant_new\<close> and get the variant that the Node Store
  returns; the third, \<^verbatim>\<open>handle_read_node_value_by_data_type\<close>, hands the
  pointer to the Node Store as declared.
\<close>

definition handle_read_node_value ::
    "externals \<Rightarrow> bool \<Rightarrow> buffer \<Rightarrow> world \<Rightarrow> world outcome" where
  "handle_read_node_value ext entity_type req w =
     and_then (or_errx (ei_decode_tuple_header req)
                 '':handle_read_node_value requires a 2-tuple, term_size = %d'')
       (\<lambda>(term_size, r1).
     if term_size \<noteq> 2
     then Abort '':handle_read_node_value requires a 2-tuple, term_size = %d'' else
     and_then (assemble_node_id r1) (\<lambda>(node_id, r2).
     or_einval (ei_decode_ulong r2) w (\<lambda>(data_index, r3).
     let w1 = store (UA_readValue entity_type node_id) w;
         retval = retval_of ext (UA_readValue entity_type node_id);
         v = value_read ext entity_type node_id
     in
     if retval \<noteq> UA_STATUSCODE_GOOD then Ok (send_opex_response ext retval w1)
     else send_data_response ext (Variant v) 29 0 w1)))"

text \<open>
  The chain of \<^verbatim>\<open>handle_read_node_value_by_index\<close> and the switch of
  \<^verbatim>\<open>handle_read_node_value_by_data_type\<close> send each kind with the same
  \<^verbatim>\<open>data_type\<close> code of \<^verbatim>\<open>encode_data_response\<close>: a code for the object
  itself, or code 5 for the bytes of a string with its length; the other kinds
  get \<^verbatim>\<open>eagain\<close>.
\<close>

datatype sent_as = Code nat | Bytes | Eagain

definition read_code :: "ua_type \<Rightarrow> sent_as" where
  "read_code t =
     (case t of
        UA_TYPES_BOOLEAN \<Rightarrow> Code 0
      | UA_TYPES_SBYTE \<Rightarrow> Code 1
      | UA_TYPES_BYTE \<Rightarrow> Code 2
      | UA_TYPES_INT16 \<Rightarrow> Code 1
      | UA_TYPES_UINT16 \<Rightarrow> Code 2
      | UA_TYPES_INT32 \<Rightarrow> Code 1
      | UA_TYPES_UINT32 \<Rightarrow> Code 2
      | UA_TYPES_INT64 \<Rightarrow> Code 15
      | UA_TYPES_UINT64 \<Rightarrow> Code 16
      | UA_TYPES_FLOAT \<Rightarrow> Code 17
      | UA_TYPES_DOUBLE \<Rightarrow> Code 4
      | UA_TYPES_STRING \<Rightarrow> Bytes
      | UA_TYPES_DATETIME \<Rightarrow> Code 15
      | UA_TYPES_GUID \<Rightarrow> Code 18
      | UA_TYPES_BYTESTRING \<Rightarrow> Bytes
      | UA_TYPES_XMLELEMENT \<Rightarrow> Bytes
      | UA_TYPES_NODEID \<Rightarrow> Code 12
      | UA_TYPES_EXPANDEDNODEID \<Rightarrow> Code 19
      | UA_TYPES_STATUSCODE \<Rightarrow> Code 20
      | UA_TYPES_QUALIFIEDNAME \<Rightarrow> Code 13
      | UA_TYPES_LOCALIZEDTEXT \<Rightarrow> Code 14
      | UA_TYPES_SEMANTICCHANGESTRUCTUREDATATYPE \<Rightarrow> Code 21
      | UA_TYPES_TIMESTRING \<Rightarrow> Bytes
      | UA_TYPES_UADPNETWORKMESSAGECONTENTMASK \<Rightarrow> Code 2
      | UA_TYPES_XVTYPE \<Rightarrow> Code 22
      | UA_TYPES_ELEMENTOPERAND \<Rightarrow> Code 2
      | UA_TYPES_OTHER k \<Rightarrow> Eagain)"

definition variant_type :: "ua_variant \<Rightarrow> ua_type option" where
  "variant_type v =
     (case v of Empty \<Rightarrow> None | Scalar s \<Rightarrow> Some (type_of s) | Array t _ _ \<Rightarrow> Some t)"

text \<open>The four string kinds share the C type \<^verbatim>\<open>UA_String\<close>.\<close>

definition read_string :: "ua_scalar \<Rightarrow> string option" where
  "read_string s =
     (case s of
        UA_String b \<Rightarrow> Some b | UA_ByteString b \<Rightarrow> Some b
      | UA_XmlElement b \<Rightarrow> Some b | UA_TimeString b \<Rightarrow> Some b
      | _ \<Rightarrow> None)"

text \<open>
  Sending what \<open>p\<close> points to (an element of the value, or nothing) as the
  table says.
\<close>

definition send_read :: "externals \<Rightarrow> sent_as \<Rightarrow> ua_scalar option \<Rightarrow> world \<Rightarrow> world outcome" where
  "send_read ext how p w =
     (case how of
        Eagain \<Rightarrow> Ok (send_error_response ''eagain'' w)
      | Code c \<Rightarrow>
          (case p of None \<Rightarrow> send_data_response ext Null c 0 w
           | Some s \<Rightarrow> send_data_response ext (Object s) c 0 w)
      | Bytes \<Rightarrow>
          (case p of None \<Rightarrow> Undefined
           | Some s \<Rightarrow>
               (case read_string s of None \<Rightarrow> Undefined
                | Some b \<Rightarrow> send_data_response ext (Chars b) 5 (length b) w)))"

definition handle_read_node_value_by_index ::
    "externals \<Rightarrow> bool \<Rightarrow> buffer \<Rightarrow> world \<Rightarrow> world outcome" where
  "handle_read_node_value_by_index ext entity_type req w =
     and_then (or_errx (ei_decode_tuple_header req)
                 '':handle_read_node_value requires a 2-tuple, term_size = %d'')
       (\<lambda>(term_size, r1).
     if term_size \<noteq> 2
     then Abort '':handle_read_node_value requires a 2-tuple, term_size = %d'' else
     and_then (assemble_node_id r1) (\<lambda>(node_id, r2).
     or_einval (ei_decode_ulong r2) w (\<lambda>(data_index0, r3).
     let w1 = store (UA_readValue entity_type node_id) w;
         retval = retval_of ext (UA_readValue entity_type node_id);
         v = value_read ext entity_type node_id
     in
     if retval \<noteq> UA_STATUSCODE_GOOD then Ok (send_opex_response ext retval w1)
     else if UA_Variant_isEmpty v then Ok (send_error_response ''nil'' w1)
     else
     let data_index = (if UA_Variant_isScalar v then 0 else data_index0) in
     if \<not> UA_Variant_isScalar v \<and> arrayLength v \<le> data_index
     then Ok (send_opex_response ext UA_STATUSCODE_BADTYPEMISMATCH w1)
     else
     (case variant_type v of
        None \<Rightarrow> Undefined
      | Some t \<Rightarrow>
          send_read ext (read_code t)
            (variant_element v (if t = UA_TYPES_TIMESTRING then 0 else data_index)) w1))))"

text \<open>
  \<^verbatim>\<open>value->data\<close>: the first element of the value, if it has one. The ``nil''
  test of the typed read asks for a value that is empty and whose type is the
  entry \<^verbatim>\<open>&UA_TYPES[data_type]\<close> of the type table.
\<close>

definition first_element :: "ua_variant \<Rightarrow> ua_scalar option" where
  "first_element v =
     (case v of Empty \<Rightarrow> None | Scalar s \<Rightarrow> Some s | Array t xs _ \<Rightarrow> (case xs of [] \<Rightarrow> None | x # _ \<Rightarrow> Some x))"

definition handle_read_node_value_by_data_type ::
    "externals \<Rightarrow> bool \<Rightarrow> buffer \<Rightarrow> world \<Rightarrow> world outcome" where
  "handle_read_node_value_by_data_type ext entity_type req w =
     and_then (or_errx (ei_decode_tuple_header req)
                 '':handle_read_node_value_by_data_type requires a 2-tuple, term_size = %d'')
       (\<lambda>(term_size, r1).
     if term_size \<noteq> 2
     then Abort '':handle_read_node_value_by_data_type requires a 2-tuple, term_size = %d'' else
     and_then (assemble_node_id r1) (\<lambda>(node_id, r2).
     or_einval (ei_decode_ulong r2) w (\<lambda>(data_type, r3).
     and_then (read_through Never_set (value_read ext entity_type node_id)) (\<lambda>v.
     let w1 = store (UA_readValue entity_type node_id) w;
         retval = retval_of ext (UA_readValue entity_type node_id)
     in
     if retval \<noteq> UA_STATUSCODE_GOOD then Ok (send_opex_response ext retval w1)
     else if UA_Variant_isEmpty v \<and> variant_type v = Some (UA_TYPES ext data_type)
     then Ok (send_error_response ''nil'' w1)
     else send_read ext (read_code (UA_TYPES ext data_type)) (first_element v) w1))))"

subsection \<open>Adding and deleting nodes\<close>

definition handle_test :: "externals \<Rightarrow> bool \<Rightarrow> buffer \<Rightarrow> world \<Rightarrow> world outcome" where
  "handle_test ext entity_type req w = Ok (send_ok_response w)"

text \<open>
  On the local server the new variable node gets \<^verbatim>\<open>send_write_response\<close> as its
  \<^verbatim>\<open>onWrite\<close> callback, whatever the status of the addition.
\<close>

definition handle_add_variable_node ::
    "externals \<Rightarrow> bool \<Rightarrow> buffer \<Rightarrow> world \<Rightarrow> world outcome" where
  "handle_add_variable_node ext entity_type req w =
     and_then (or_errx (ei_decode_tuple_header req)
                 '':handle_add_variable_node requires a 5-tuple, term_size = %d'')
       (\<lambda>(term_size, r1).
     if term_size \<noteq> 5
     then Abort '':handle_add_variable_node requires a 5-tuple, term_size = %d'' else
     and_then (assemble_node_id r1) (\<lambda>(requested_new_node_id, r2).
     and_then (assemble_node_id r2) (\<lambda>(parent_node_id, r3).
     and_then (assemble_node_id r3) (\<lambda>(reference_type_node_id, r4).
     and_then (assemble_qualified_name r4) (\<lambda>(browse_name, r5).
     and_then (assemble_node_id r5) (\<lambda>(type_definition, r6).
     let call = Change (UA_addVariableNode entity_type requested_new_node_id parent_node_id
                  reference_type_node_id browse_name type_definition);
         w1 = (if entity_type then store call w
               else store (Change (UA_Server_setVariableNode_valueCallback requested_new_node_id))
                      (store call w))
     in respond_to ext (retval_of ext call) w1))))))"

text \<open>The client adds a variable type without the type definition it decoded.\<close>

definition handle_add_variable_type_node ::
    "externals \<Rightarrow> bool \<Rightarrow> buffer \<Rightarrow> world \<Rightarrow> world outcome" where
  "handle_add_variable_type_node ext entity_type req w =
     and_then (or_errx (ei_decode_tuple_header req)
                 '':handle_add_variable_type_node requires a 5-tuple, term_size = %d'')
       (\<lambda>(term_size, r1).
     if term_size \<noteq> 5
     then Abort '':handle_add_variable_type_node requires a 5-tuple, term_size = %d'' else
     and_then (assemble_node_id r1) (\<lambda>(requested_new_node_id, r2).
     and_then (assemble_node_id r2) (\<lambda>(parent_node_id, r3).
     and_then (assemble_node_id r3) (\<lambda>(reference_type_node_id, r4).
     and_then (assemble_qualified_name r4) (\<lambda>(browse_name, r5).
     and_then (assemble_node_id r5) (\<lambda>(type_definition, r6).
     let call = (if entity_type
                 then Change (UA_Client_addVariableTypeNode requested_new_node_id parent_node_id
                                reference_type_node_id browse_name)
                 else Change (UA_Server_addVariableTypeNode requested_new_node_id parent_node_id
                                reference_type_node_id browse_name type_definition))
     in respond_to ext (retval_of ext call) (store call w)))))))"

definition handle_add_object_node ::
    "externals \<Rightarrow> bool \<Rightarrow> buffer \<Rightarrow> world \<Rightarrow> world outcome" where
  "handle_add_object_node ext entity_type req w =
     and_then (or_errx (ei_decode_tuple_header req)
                 '':handle_add_object_node requires a 5-tuple, term_size = %d'')
       (\<lambda>(term_size, r1).
     if term_size \<noteq> 5
     then Abort '':handle_add_object_node requires a 5-tuple, term_size = %d'' else
     and_then (assemble_node_id r1) (\<lambda>(requested_new_node_id, r2).
     and_then (assemble_node_id r2) (\<lambda>(parent_node_id, r3).
     and_then (assemble_node_id r3) (\<lambda>(reference_type_node_id, r4).
     and_then (assemble_qualified_name r4) (\<lambda>(browse_name, r5).
     and_then (assemble_node_id r5) (\<lambda>(type_definition, r6).
     let call = Change (UA_addObjectNode entity_type requested_new_node_id parent_node_id
                  reference_type_node_id browse_name type_definition)
     in respond_to ext (retval_of ext call) (store call w)))))))"

definition handle_add_object_type_node ::
    "externals \<Rightarrow> bool \<Rightarrow> buffer \<Rightarrow> world \<Rightarrow> world outcome" where
  "handle_add_object_type_node ext entity_type req w =
     and_then (or_errx (ei_decode_tuple_header req)
                 '':handle_add_object_type_node requires a 4-tuple, term_size = %d'')
       (\<lambda>(term_size, r1).
     if term_size \<noteq> 4
     then Abort '':handle_add_object_type_node requires a 4-tuple, term_size = %d'' else
     and_then (assemble_node_id r1) (\<lambda>(requested_new_node_id, r2).
     and_then (assemble_node_id r2) (\<lambda>(parent_node_id, r3).
     and_then (assemble_node_id r3) (\<lambda>(reference_type_node_id, r4).
     and_then (assemble_qualified_name r4) (\<lambda>(browse_name, r5).
     let call = Change (UA_addObjectTypeNode entity_type requested_new_node_id parent_node_id
                  reference_type_node_id browse_name)
     in respond_to ext (retval_of ext call) (store call w))))))"

definition handle_add_view_node ::
    "externals \<Rightarrow> bool \<Rightarrow> buffer \<Rightarrow> world \<Rightarrow> world outcome" where
  "handle_add_view_node ext entity_type req w =
     and_then (or_errx (ei_decode_tuple_header req)
                 '':handle_add_view_node requires a 4-tuple, term_size = %d'')
       (\<lambda>(term_size, r1).
     if term_size \<noteq> 4
     then Abort '':handle_add_view_node requires a 4-tuple, term_size = %d'' else
     and_then (assemble_node_id r1) (\<lambda>(requested_new_node_id, r2).
     and_then (assemble_node_id r2) (\<lambda>(parent_node_id, r3).
     and_then (assemble_node_id r3) (\<lambda>(reference_type_node_id, r4).
     and_then (assemble_qualified_name r4) (\<lambda>(browse_name, r5).
     let call = Change (UA_addViewNode entity_type requested_new_node_id parent_node_id
                  reference_type_node_id browse_name)
     in respond_to ext (retval_of ext call) (store call w))))))"

definition handle_add_reference_type_node ::
    "externals \<Rightarrow> bool \<Rightarrow> buffer \<Rightarrow> world \<Rightarrow> world outcome" where
  "handle_add_reference_type_node ext entity_type req w =
     and_then (or_errx (ei_decode_tuple_header req)
                 '':handle_add_reference_type_node requires a 4-tuple, term_size = %d'')
       (\<lambda>(term_size, r1).
     if term_size \<noteq> 4
     then Abort '':handle_add_reference_type_node requires a 4-tuple, term_size = %d'' else
     and_then (assemble_node_id r1) (\<lambda>(requested_new_node_id, r2).
     and_then (assemble_node_id r2) (\<lambda>(parent_node_id, r3).
     and_then (assemble_node_id r3) (\<lambda>(reference_type_node_id, r4).
     and_then (assemble_qualified_name r4) (\<lambda>(browse_name, r5).
     let call = Change (UA_addReferenceTypeNode entity_type requested_new_node_id parent_node_id
                  reference_type_node_id browse_name)
     in respond_to ext (retval_of ext call) (store call w))))))"

definition handle_add_data_type_node ::
    "externals \<Rightarrow> bool \<Rightarrow> buffer \<Rightarrow> world \<Rightarrow> world outcome" where
  "handle_add_data_type_node ext entity_type req w =
     and_then (or_errx (ei_decode_tuple_header req)
                 '':handle_add_data_type_node requires a 4-tuple, term_size = %d'')
       (\<lambda>(term_size, r1).
     if term_size \<noteq> 4
     then Abort '':handle_add_data_type_node requires a 4-tuple, term_size = %d'' else
     and_then (assemble_node_id r1) (\<lambda>(requested_new_node_id, r2).
     and_then (assemble_node_id r2) (\<lambda>(parent_node_id, r3).
     and_then (assemble_node_id r3) (\<lambda>(reference_type_node_id, r4).
     and_then (assemble_qualified_name r4) (\<lambda>(browse_name, r5).
     let call = Change (UA_addDataTypeNode entity_type requested_new_node_id parent_node_id
                  reference_type_node_id browse_name)
     in respond_to ext (retval_of ext call) (store call w))))))"

text \<open>
  The two handlers that delete do not look at what \<^verbatim>\<open>ei_decode_boolean\<close>
  returns: when it fails, the flag handed to the Node Store was never written.
\<close>

definition unchecked_boolean :: "buffer \<Rightarrow> (bool \<times> buffer) outcome" where
  "unchecked_boolean req = (case ei_decode_boolean req of None \<Rightarrow> Undefined | Some r \<Rightarrow> Ok r)"

definition handle_delete_reference ::
    "externals \<Rightarrow> bool \<Rightarrow> buffer \<Rightarrow> world \<Rightarrow> world outcome" where
  "handle_delete_reference ext entity_type req w =
     and_then (or_errx (ei_decode_tuple_header req)
                 '':handle_delete_reference requires a 5-tuple, term_size = %d'')
       (\<lambda>(term_size, r1).
     if term_size \<noteq> 5
     then Abort '':handle_delete_reference requires a 5-tuple, term_size = %d'' else
     and_then (assemble_node_id r1) (\<lambda>(source_id, r2).
     and_then (assemble_node_id r2) (\<lambda>(reference_type_id, r3).
     and_then (assemble_expanded_node_id r3) (\<lambda>(target_id, r4).
     and_then (unchecked_boolean r4) (\<lambda>(is_forward, r5).
     and_then (unchecked_boolean r5) (\<lambda>(delete_bidirectional, r6).
     let call = Change (UA_deleteReference entity_type source_id reference_type_id is_forward target_id
                  delete_bidirectional)
     in respond_to ext (retval_of ext call) (store call w)))))))"

definition handle_delete_node ::
    "externals \<Rightarrow> bool \<Rightarrow> buffer \<Rightarrow> world \<Rightarrow> world outcome" where
  "handle_delete_node ext entity_type req w =
     and_then (or_errx (ei_decode_tuple_header req)
                 '':handle_delete_node requires a 2-tuple, term_size = %d'')
       (\<lambda>(term_size, r1).
     if term_size \<noteq> 2
     then Abort '':handle_delete_node requires a 2-tuple, term_size = %d'' else
     and_then (assemble_node_id r1) (\<lambda>(node_id, r2).
     and_then (unchecked_boolean r2) (\<lambda>(delete_references, r3).
     let call = Change (UA_deleteNode entity_type node_id delete_references)
     in respond_to ext (retval_of ext call) (store call w))))"

subsection \<open>Writing the other attributes\<close>

definition handle_write_node_browse_name ::
    "externals \<Rightarrow> bool \<Rightarrow> buffer \<Rightarrow> world \<Rightarrow> world outcome" where
  "handle_write_node_browse_name ext entity_type req w =
     and_then (or_errx (ei_decode_tuple_header req)
                 '':handle_write_node_browse_name requires a 2-tuple, term_size = %d'')
       (\<lambda>(term_size, r1).
     if term_size \<noteq> 2
     then Abort '':handle_write_node_browse_name requires a 2-tuple, term_size = %d'' else
     and_then (assemble_node_id r1) (\<lambda>(node_id, r2).
     and_then (assemble_qualified_name r2) (\<lambda>(browse_name, r3).
     let call = Write (UA_writeBrowseName entity_type node_id browse_name) in
     respond_to ext (retval_of ext call) (store call w))))"

definition handle_write_node_display_name ::
    "externals \<Rightarrow> bool \<Rightarrow> buffer \<Rightarrow> world \<Rightarrow> world outcome" where
  "handle_write_node_display_name ext entity_type req w =
     and_then (or_errx (ei_decode_tuple_header req)
                 '':handle_write_node_display_name requires a 3-tuple, term_size = %d'')
       (\<lambda>(term_size, r1).
     if term_size \<noteq> 3
     then Abort '':handle_write_node_display_name requires a 3-tuple, term_size = %d'' else
     and_then (assemble_node_id r1) (\<lambda>(node_id, r2).
     and_then (decode_binary_chars r2 ''Invalid locale (size)'' ''Invalid locale'') (\<lambda>(locale_str, r3).
     and_then (decode_binary_chars r3 ''Invalid name_str (size)'' ''Invalid name_str'')
       (\<lambda>(name_str, r4).
     let call = Write (UA_writeDisplayName entity_type node_id (UA_LOCALIZEDTEXT locale_str name_str)) in
     respond_to ext (retval_of ext call) (store call w)))))"

definition handle_write_node_description ::
    "externals \<Rightarrow> bool \<Rightarrow> buffer \<Rightarrow> world \<Rightarrow> world outcome" where
  "handle_write_node_description ext entity_type req w =
     and_then (or_errx (ei_decode_tuple_header req)
                 '':handle_write_node_description requires a 3-tuple, term_size = %d'')
       (\<lambda>(term_size, r1).
     if term_size \<noteq> 3
     then Abort '':handle_write_node_description requires a 3-tuple, term_size = %d'' else
     and_then (assemble_node_id r1) (\<lambda>(node_id, r2).
     and_then (decode_binary_chars r2 ''Invalid locale (size)'' ''Invalid locale'') (\<lambda>(locale_str, r3).
     and_then (decode_binary_chars r3 ''Invalid description_str (size)'' ''Invalid description_str'')
       (\<lambda>(description_str, r4).
     let call = Write (UA_writeDescription entity_type node_id (UA_LOCALIZEDTEXT locale_str description_str))
     in respond_to ext (retval_of ext call) (store call w)))))"

definition handle_write_node_write_mask ::
    "externals \<Rightarrow> bool \<Rightarrow> buffer \<Rightarrow> world \<Rightarrow> world outcome" where
  "handle_write_node_write_mask ext entity_type req w =
     and_then (or_errx (ei_decode_tuple_header req)
                 '':handle_write_node_write_mask requires a 2-tuple, term_size = %d'')
       (\<lambda>(term_size, r1).
     if term_size \<noteq> 2
     then Abort '':handle_write_node_write_mask requires a 2-tuple, term_size = %d'' else
     and_then (assemble_node_id r1) (\<lambda>(node_id, r2).
     or_einval (ei_decode_ulong r2) w (\<lambda>(write_mask, r3).
     let call = Write (UA_writeWriteMask entity_type node_id (of_nat write_mask)) in
     respond_to ext (retval_of ext call) (store call w))))"

definition handle_write_node_is_abstract ::
    "externals \<Rightarrow> bool \<Rightarrow> buffer \<Rightarrow> world \<Rightarrow> world outcome" where
  "handle_write_node_is_abstract ext entity_type req w =
     and_then (or_errx (ei_decode_tuple_header req)
                 '':handle_write_node_is_abstract requires a 2-tuple, term_size = %d'')
       (\<lambda>(term_size, r1).
     if term_size \<noteq> 2
     then Abort '':handle_write_node_is_abstract requires a 2-tuple, term_size = %d'' else
     and_then (assemble_node_id r1) (\<lambda>(node_id, r2).
     or_einval (ei_decode_boolean r2) w (\<lambda>(is_abstract, r3).
     let call = Write (UA_writeIsAbstract entity_type node_id is_abstract) in
     respond_to ext (retval_of ext call) (store call w))))"

definition handle_write_node_inverse_name ::
    "externals \<Rightarrow> bool \<Rightarrow> buffer \<Rightarrow> world \<Rightarrow> world outcome" where
  "handle_write_node_inverse_name ext entity_type req w =
     and_then (or_errx (ei_decode_tuple_header req)
                 '':handle_write_node_inverse_name requires a 3-tuple, term_size = %d'')
       (\<lambda>(term_size, r1).
     if term_size \<noteq> 3
     then Abort '':handle_write_node_inverse_name requires a 3-tuple, term_size = %d'' else
     and_then (assemble_node_id r1) (\<lambda>(node_id, r2).
     and_then (decode_binary_chars r2 ''Invalid locale (size)'' ''Invalid locale'') (\<lambda>(locale_str, r3).
     and_then (decode_binary_chars r3 ''Invalid inverse_name_str (size)'' ''Invalid inverse_name_str'')
       (\<lambda>(inverse_name_str, r4).
     let call = Write (UA_writeInverseName entity_type node_id (UA_LOCALIZEDTEXT locale_str inverse_name_str))
     in respond_to ext (retval_of ext call) (store call w)))))"

text \<open>The handler asks for a tuple of two elements; its message says three.\<close>

definition handle_write_node_data_type ::
    "externals \<Rightarrow> bool \<Rightarrow> buffer \<Rightarrow> world \<Rightarrow> world outcome" where
  "handle_write_node_data_type ext entity_type req w =
     and_then (or_errx (ei_decode_tuple_header req)
                 '':handle_write_node_data_type requires a 3-tuple, term_size = %d'')
       (\<lambda>(term_size, r1).
     if term_size \<noteq> 2
     then Abort '':handle_write_node_data_type requires a 3-tuple, term_size = %d'' else
     and_then (assemble_node_id r1) (\<lambda>(node_id, r2).
     and_then (assemble_node_id r2) (\<lambda>(data_type_node_id, r3).
     let call = Write (UA_writeDataType entity_type node_id data_type_node_id) in
     respond_to ext (retval_of ext call) (store call w))))"

definition handle_write_node_value_rank ::
    "externals \<Rightarrow> bool \<Rightarrow> buffer \<Rightarrow> world \<Rightarrow> world outcome" where
  "handle_write_node_value_rank ext entity_type req w =
     and_then (or_errx (ei_decode_tuple_header req)
                 '':handle_write_node_value_rank requires a 2-tuple, term_size = %d'')
       (\<lambda>(term_size, r1).
     if term_size \<noteq> 2
     then Abort '':handle_write_node_value_rank requires a 2-tuple, term_size = %d'' else
     and_then (assemble_node_id r1) (\<lambda>(node_id, r2).
     or_einval (ei_decode_ulong r2) w (\<lambda>(value_rank, r3).
     let call = Write (UA_writeValueRank entity_type node_id (of_nat value_rank)) in
     respond_to ext (retval_of ext call) (store call w))))"

definition handle_write_node_access_level ::
    "externals \<Rightarrow> bool \<Rightarrow> buffer \<Rightarrow> world \<Rightarrow> world outcome" where
  "handle_write_node_access_level ext entity_type req w =
     and_then (or_errx (ei_decode_tuple_header req)
                 '':handle_write_node_access_level requires a 2-tuple, term_size = %d'')
       (\<lambda>(term_size, r1).
     if term_size \<noteq> 2
     then Abort '':handle_write_node_access_level requires a 2-tuple, term_size = %d'' else
     and_then (assemble_node_id r1) (\<lambda>(node_id, r2).
     or_einval (ei_decode_ulong r2) w (\<lambda>(access_level, r3).
     let call = Write (UA_writeAccessLevel entity_type node_id (of_nat access_level)) in
     respond_to ext (retval_of ext call) (store call w))))"

definition handle_write_node_minimum_sampling_interval ::
    "externals \<Rightarrow> bool \<Rightarrow> buffer \<Rightarrow> world \<Rightarrow> world outcome" where
  "handle_write_node_minimum_sampling_interval ext entity_type req w =
     and_then (or_errx (ei_decode_tuple_header req)
                 '':handle_write_node_minimum_sampling_interval requires a 2-tuple, term_size = %d'')
       (\<lambda>(term_size, r1).
     if term_size \<noteq> 2
     then Abort '':handle_write_node_minimum_sampling_interval requires a 2-tuple, term_size = %d''
     else
     and_then (assemble_node_id r1) (\<lambda>(node_id, r2).
     or_einval (ei_decode_double r2) w (\<lambda>(sampling_interval, r3).
     let call = Write (UA_writeMinimumSamplingInterval entity_type node_id sampling_interval) in
     respond_to ext (retval_of ext call) (store call w))))"

definition handle_write_node_event_notifier ::
    "externals \<Rightarrow> bool \<Rightarrow> buffer \<Rightarrow> world \<Rightarrow> world outcome" where
  "handle_write_node_event_notifier ext entity_type req w =
     and_then (or_errx (ei_decode_tuple_header req)
                 '':handle_write_node_event_notifier requires a 2-tuple, term_size = %d'')
       (\<lambda>(term_size, r1).
     if term_size \<noteq> 2
     then Abort '':handle_write_node_event_notifier requires a 2-tuple, term_size = %d'' else
     and_then (assemble_node_id r1) (\<lambda>(node_id, r2).
     or_einval (ei_decode_ulong r2) w (\<lambda>(event_notifier, r3).
     let call = Write (UA_writeEventNotifier entity_type node_id (of_nat event_notifier)) in
     respond_to ext (retval_of ext call) (store call w))))"

subsection \<open>Reading the other attributes\<close>

text \<open>
  The handlers that read an attribute take the node identifier alone, with no
  tuple around it. Those of Symmetric, ContainsNoLoops, ArrayDimensions and
  EventNotifier hand the address of a local to the Node Store; the others
  declare the out parameter as a pointer and hand it over as declared. A status
  other than good is sent back by name, the attribute with the
  \<^verbatim>\<open>data_type\<close> code of its C type otherwise.
\<close>

definition read_attribute ::
    "externals \<Rightarrow> store_call \<Rightarrow> out_parameter \<Rightarrow> nat \<Rightarrow> world \<Rightarrow> world outcome" where
  "read_attribute ext call out data_type w =
     and_then (read_through out (attribute_read ext call)) (\<lambda>attribute.
     let w1 = store call w;
         retval = retval_of ext call
     in
     if retval \<noteq> UA_STATUSCODE_GOOD then Ok (send_opex_response ext retval w1)
     else send_data_response ext attribute data_type 0 w1)"

definition handle_read_node_node_id ::
    "externals \<Rightarrow> bool \<Rightarrow> buffer \<Rightarrow> world \<Rightarrow> world outcome" where
  "handle_read_node_node_id ext entity_type req w =
     and_then (assemble_node_id req) (\<lambda>(node_id, r1).
     read_attribute ext (Read (UA_readNodeId entity_type node_id)) Never_set 12 w)"

text \<open>The switch on the class has no default: another value sends nothing.\<close>

definition node_class_name :: "ua_node_class \<Rightarrow> string option" where
  "node_class_name c =
     (case c of
        UA_NODECLASS_UNSPECIFIED \<Rightarrow> Some ''Unspecified''
      | UA_NODECLASS_OBJECT \<Rightarrow> Some ''Object''
      | UA_NODECLASS_VARIABLE \<Rightarrow> Some ''Variable''
      | UA_NODECLASS_METHOD \<Rightarrow> Some ''Method''
      | UA_NODECLASS_OBJECTTYPE \<Rightarrow> Some ''ObjectType''
      | UA_NODECLASS_VARIABLETYPE \<Rightarrow> Some ''VariableType''
      | UA_NODECLASS_REFERENCETYPE \<Rightarrow> Some ''ReferenceType''
      | UA_NODECLASS_DATATYPE \<Rightarrow> Some ''DataType''
      | UA_NODECLASS_VIEW \<Rightarrow> Some ''View''
      | UA_NODECLASS_OTHER \<Rightarrow> None)"

definition handle_read_node_node_class ::
    "externals \<Rightarrow> bool \<Rightarrow> buffer \<Rightarrow> world \<Rightarrow> world outcome" where
  "handle_read_node_node_class ext entity_type req w =
     and_then (assemble_node_id req) (\<lambda>(node_id, r1).
     let call = Read (UA_readNodeClass entity_type node_id) in
     and_then (read_through Never_set (attribute_read ext call)) (\<lambda>attribute.
     let w1 = store call w;
         retval = retval_of ext call
     in
     if retval \<noteq> UA_STATUSCODE_GOOD then Ok (send_opex_response ext retval w1)
     else
       (case attribute of
          NodeClass node_class \<Rightarrow>
            (case node_class_name node_class of
               Some name \<Rightarrow> send_data_response ext (Chars name) 3 0 w1
             | None \<Rightarrow> Ok w1)
        | _ \<Rightarrow> Undefined)))"

definition handle_read_node_browse_name ::
    "externals \<Rightarrow> bool \<Rightarrow> buffer \<Rightarrow> world \<Rightarrow> world outcome" where
  "handle_read_node_browse_name ext entity_type req w =
     and_then (assemble_node_id req) (\<lambda>(node_id, r1).
     read_attribute ext (Read (UA_readBrowseName entity_type node_id)) Never_set 13 w)"

definition handle_read_node_display_name ::
    "externals \<Rightarrow> bool \<Rightarrow> buffer \<Rightarrow> world \<Rightarrow> world outcome" where
  "handle_read_node_display_name ext entity_type req w =
     and_then (assemble_node_id req) (\<lambda>(node_id, r1).
     read_attribute ext (Read (UA_readDisplayName entity_type node_id)) Never_set 14 w)"

definition handle_read_node_description ::
    "externals \<Rightarrow> bool \<Rightarrow> buffer \<Rightarrow> world \<Rightarrow> world outcome" where
  "handle_read_node_description ext entity_type req w =
     and_then (assemble_node_id req) (\<lambda>(node_id, r1).
     read_attribute ext (Read (UA_readDescription entity_type node_id)) Never_set 14 w)"

definition handle_read_node_write_mask ::
    "externals \<Rightarrow> bool \<Rightarrow> buffer \<Rightarrow> world \<Rightarrow> world outcome" where
  "handle_read_node_write_mask ext entity_type req w =
     and_then (assemble_node_id req) (\<lambda>(node_id, r1).
     read_attribute ext (Read (UA_readWriteMask entity_type node_id)) Never_set 2 w)"

definition handle_read_node_is_abstract ::
    "externals \<Rightarrow> bool \<Rightarrow> buffer \<Rightarrow> world \<Rightarrow> world outcome" where
  "handle_read_node_is_abstract ext entity_type req w =
     and_then (assemble_node_id req) (\<lambda>(node_id, r1).
     read_attribute ext (Read (UA_readIsAbstract entity_type node_id)) Never_set 0 w)"

definition handle_read_node_symmetric ::
    "externals \<Rightarrow> bool \<Rightarrow> buffer \<Rightarrow> world \<Rightarrow> world outcome" where
  "handle_read_node_symmetric ext entity_type req w =
     and_then (assemble_node_id req) (\<lambda>(node_id, r1).
     read_attribute ext (Read (UA_readSymmetric entity_type node_id)) Allocated 0 w)"

definition handle_read_node_inverse_name ::
    "externals \<Rightarrow> bool \<Rightarrow> buffer \<Rightarrow> world \<Rightarrow> world outcome" where
  "handle_read_node_inverse_name ext entity_type req w =
     and_then (assemble_node_id req) (\<lambda>(node_id, r1).
     read_attribute ext (Read (UA_readInverseName entity_type node_id)) Never_set 14 w)"

definition handle_read_node_contains_no_loops ::
    "externals \<Rightarrow> bool \<Rightarrow> buffer \<Rightarrow> world \<Rightarrow> world outcome" where
  "handle_read_node_contains_no_loops ext entity_type req w =
     and_then (assemble_node_id req) (\<lambda>(node_id, r1).
     read_attribute ext (Read (UA_readContainsNoLoops entity_type node_id)) Allocated 0 w)"

definition handle_read_node_data_type ::
    "externals \<Rightarrow> bool \<Rightarrow> buffer \<Rightarrow> world \<Rightarrow> world outcome" where
  "handle_read_node_data_type ext entity_type req w =
     and_then (assemble_node_id req) (\<lambda>(node_id, r1).
     read_attribute ext (Read (UA_readDataType entity_type node_id)) Never_set 12 w)"

definition handle_read_node_value_rank ::
    "externals \<Rightarrow> bool \<Rightarrow> buffer \<Rightarrow> world \<Rightarrow> world outcome" where
  "handle_read_node_value_rank ext entity_type req w =
     and_then (assemble_node_id req) (\<lambda>(node_id, r1).
     read_attribute ext (Read (UA_readValueRank entity_type node_id)) Never_set 2 w)"

text \<open>
  The client returns the dimensions as an array and its size, the server as a
  variant, of which the handler takes \<^verbatim>\<open>data\<close> and \<^verbatim>\<open>arrayLength\<close>: in both
  modes the encoder gets an array of \<^verbatim>\<open>UA_UInt32\<close> and its length, an empty
  one for a node without dimensions.
\<close>

definition handle_read_node_array_dimensions ::
    "externals \<Rightarrow> bool \<Rightarrow> buffer \<Rightarrow> world \<Rightarrow> world outcome" where
  "handle_read_node_array_dimensions ext entity_type req w =
     and_then (assemble_node_id req) (\<lambda>(node_id, r1).
     let call = Read (UA_readArrayDimensions entity_type node_id) in
     and_then (read_through Allocated (attribute_read ext call)) (\<lambda>attribute.
     let w1 = store call w;
         retval = retval_of ext call
     in
     if retval \<noteq> UA_STATUSCODE_GOOD then Ok (send_opex_response ext retval w1)
     else
       (case attribute of
          Dimensions array_dimensions \<Rightarrow>
            send_data_response ext (Dimensions array_dimensions) 28 (length array_dimensions) w1
        | _ \<Rightarrow> Undefined)))"

definition handle_read_node_access_level ::
    "externals \<Rightarrow> bool \<Rightarrow> buffer \<Rightarrow> world \<Rightarrow> world outcome" where
  "handle_read_node_access_level ext entity_type req w =
     and_then (assemble_node_id req) (\<lambda>(node_id, r1).
     read_attribute ext (Read (UA_readAccessLevel entity_type node_id)) Never_set 24 w)"

definition handle_read_node_minimum_sampling_interval ::
    "externals \<Rightarrow> bool \<Rightarrow> buffer \<Rightarrow> world \<Rightarrow> world outcome" where
  "handle_read_node_minimum_sampling_interval ext entity_type req w =
     and_then (assemble_node_id req) (\<lambda>(node_id, r1).
     read_attribute ext (Read (UA_readMinimumSamplingInterval entity_type node_id)) Never_set 4
       w)"

definition handle_read_node_historizing ::
    "externals \<Rightarrow> bool \<Rightarrow> buffer \<Rightarrow> world \<Rightarrow> world outcome" where
  "handle_read_node_historizing ext entity_type req w =
     and_then (assemble_node_id req) (\<lambda>(node_id, r1).
     read_attribute ext (Read (UA_readHistorizing entity_type node_id)) Never_set 0 w)"

definition handle_read_node_executable ::
    "externals \<Rightarrow> bool \<Rightarrow> buffer \<Rightarrow> world \<Rightarrow> world outcome" where
  "handle_read_node_executable ext entity_type req w =
     and_then (assemble_node_id req) (\<lambda>(node_id, r1).
     read_attribute ext (Read (UA_readExecutable entity_type node_id)) Never_set 0 w)"

definition handle_read_node_event_notifier ::
    "externals \<Rightarrow> bool \<Rightarrow> buffer \<Rightarrow> world \<Rightarrow> world outcome" where
  "handle_read_node_event_notifier ext entity_type req w =
     and_then (assemble_node_id req) (\<lambda>(node_id, r1).
     read_attribute ext (Read (UA_readEventNotifier entity_type node_id)) Allocated 24 w)"

section \<open>A sample platform and a sample request\<close>

text \<open>
  For the examples: a platform that knows the names of two status codes and the
  indices of the built-in kinds (0 Boolean to 20 LocalizedText), whose Node Store
  answers Good, holds an empty value in a node of class Variable, and fires one
  callback for every write of the local server. The examples hold no float, so its casts are never used.
\<close>

definition sample_types :: "nat \<Rightarrow> ua_type" where
  "sample_types i =
     (if i < 21 then
        [UA_TYPES_BOOLEAN, UA_TYPES_SBYTE, UA_TYPES_BYTE, UA_TYPES_INT16, UA_TYPES_UINT16,
         UA_TYPES_INT32, UA_TYPES_UINT32, UA_TYPES_INT64, UA_TYPES_UINT64, UA_TYPES_FLOAT,
         UA_TYPES_DOUBLE, UA_TYPES_STRING, UA_TYPES_DATETIME, UA_TYPES_GUID, UA_TYPES_BYTESTRING,
         UA_TYPES_XMLELEMENT, UA_TYPES_NODEID, UA_TYPES_EXPANDEDNODEID, UA_TYPES_STATUSCODE,
         UA_TYPES_QUALIFIEDNAME, UA_TYPES_LOCALIZEDTEXT] ! i
      else UA_TYPES_OTHER i)"

definition sample_platform :: externals where
  "sample_platform =
     \<lparr>float_to_double = (\<lambda>f. 0),
      double_to_float = (\<lambda>d. 0),
      UA_StatusCode_name =
        (\<lambda>c. if c = UA_STATUSCODE_GOOD then ''Good''
             else if c = UA_STATUSCODE_BADTYPEMISMATCH then ''BadTypeMismatch''
             else ''Unknown StatusCode''),
      UA_TYPES = sample_types,
      retval_of = (\<lambda>c. UA_STATUSCODE_GOOD),
      value_read = (\<lambda>entity_type n. Empty),
      attribute_read =
        (\<lambda>c. case c of Read (UA_readNodeClass entity_type n) \<Rightarrow> NodeClass UA_NODECLASS_VARIABLE
                       | _ \<Rightarrow> Null),
      on_write = (\<lambda>n v. [(n, v)])\<rparr>"

definition sample_world :: world where
  "sample_world =
     \<lparr>server_is_writing = False, caller_function = ''command'',
      caller_metadata = [ERL_ATOM_EXT ''from''], sent = [], calls = []\<rparr>"

text \<open>The node \<^verbatim>\<open>ns=1;i=42\<close>, and the term a request carries for it.\<close>

definition sample_node :: ua_node_id where
  "sample_node = \<lparr>namespaceIndex = 1, nid_identifier = UA_NODEIDTYPE_NUMERIC 42\<rparr>"

definition sample_node_term :: buffer where
  "sample_node_term = [ERL_TUPLE_EXT 3, ERL_INTEGER_EXT 0, ERL_INTEGER_EXT 1, ERL_INTEGER_EXT 42]"

section \<open>What the claims speak of\<close>

text \<open>
  The values that survive encoding and decoding again, kind by kind: a float when
  the cast back from the double returns it, a date when it is not negative, a
  guid of 8 bytes, and the strings without NUL byte, because the decoder takes
  the length of what it read with \<^verbatim>\<open>strlen\<close>. Node identifiers and status
  codes are written in one form and read in another.
\<close>

definition round_trips :: "externals \<Rightarrow> ua_scalar \<Rightarrow> bool" where
  "round_trips ext s =
     (case s of
        UA_Float f \<Rightarrow> double_to_float ext (float_to_double ext f) = f
      | UA_XVType x v \<Rightarrow> double_to_float ext (float_to_double ext v) = v
      | UA_String b \<Rightarrow> CHR 0x00 \<notin> set b
      | UA_ByteString b \<Rightarrow> CHR 0x00 \<notin> set b
      | UA_XmlElement b \<Rightarrow> CHR 0x00 \<notin> set b
      | UA_TimeString b \<Rightarrow> CHR 0x00 \<notin> set b
      | UA_DateTime w \<Rightarrow> uint w < 2 ^ 63
      | UA_Guid g \<Rightarrow> length (data4 g) = 8
      | UA_QualifiedName q \<Rightarrow> CHR 0x00 \<notin> set (qn_name q)
      | UA_LocalizedText t \<Rightarrow> CHR 0x00 \<notin> set (lt_locale t) \<and> CHR 0x00 \<notin> set (lt_text t)
      | UA_NodeId n \<Rightarrow> False
      | UA_ExpandedNodeId e \<Rightarrow> False
      | UA_StatusCode c \<Rightarrow> False
      | UA_SemanticChangeStructureDataType a b \<Rightarrow> False
      | UA_Other k \<Rightarrow> False
      | _ \<Rightarrow> True)"

section \<open>Facts about the library and the codec\<close>

lemmas ei_encode_defs = ei_encode_version_def ei_encode_tuple_header_def ei_encode_list_header_def
  ei_encode_empty_list_def ei_encode_long_def ei_encode_ulong_def ei_encode_longlong_def
  ei_encode_ulonglong_def ei_encode_double_def ei_encode_boolean_def ei_encode_atom_def
  ei_encode_binary_def ei_encode_string_def

lemmas ei_decode_defs = ei_decode_tuple_header_def ei_decode_ulong_def ei_decode_long_def
  ei_decode_longlong_def ei_decode_ulonglong_def ei_decode_double_def ei_decode_boolean_def
  ei_decode_binary_def ei_get_type_binary_def

lemmas control_defs = or_errx_def and_then_def

lemma UA_STRING_iff: "UA_STRING s = s \<longleftrightarrow> CHR 0x00 \<notin> set s"
  unfolding UA_STRING_def by (induction s) auto

lemma uint8_lt: "uint (w :: 8 word) < 18446744073709551616"
  using uint_lt2p [of w] by simp

lemma uint16_lt: "uint (w :: 16 word) < 18446744073709551616"
  using uint_lt2p [of w] by simp

lemma uint32_lt: "uint (w :: 32 word) < 18446744073709551616"
  using uint_lt2p [of w] by simp

lemma uint64_lt: "uint (w :: 64 word) < 18446744073709551616"
  using uint_lt2p [of w] by simp

lemma sint8_range: "- 9223372036854775808 \<le> sint (w :: 8 word) \<and> sint w < 9223372036854775808"
  using sint_ge [of w] sint_lt [of w] by simp

lemma sint16_range: "- 9223372036854775808 \<le> sint (w :: 16 word) \<and> sint w < 9223372036854775808"
  using sint_ge [of w] sint_lt [of w] by simp

lemma sint32_range: "- 9223372036854775808 \<le> sint (w :: 32 word) \<and> sint w < 9223372036854775808"
  using sint_ge [of w] sint_lt [of w] by simp

lemma sint64_range: "- 9223372036854775808 \<le> sint (w :: 64 word) \<and> sint w < 9223372036854775808"
  using sint_ge [of w] sint_lt [of w] by simp

lemma uint64_lower: "- 9223372036854775808 \<le> uint (w :: 64 word)"
proof -
  have "0 \<le> uint w" by simp
  then show ?thesis by linarith
qed

lemma assemble_sample_node: "assemble_node_id (sample_node_term @ rest) = Ok (sample_node, rest)"
  by (simp add: assemble_node_id_def sample_node_term_def sample_node_def ei_decode_defs control_defs
      UA_NODEID_NUMERIC_def)

subsection \<open>Decoding what the encoders wrote\<close>

text \<open>
  The encoder of node identifiers writes the namespace first and names the kind
  with a binary; the assembler reads the code of the kind first and the namespace
  second, so it takes the namespace for the kind and fails on the binary.
\<close>

lemma assemble_encoded_node_id:
  "assemble_node_id (encode_node_id n @ rest) = Abort ''Invalid ns_index''"
  by (cases "nid_identifier n")
     (simp_all add: assemble_node_id_def encode_node_id_def encode_identifier_def ei_encode_defs
        ei_decode_defs control_defs uint16_lt)

lemma assemble_encoded_expanded_node_id:
  "assemble_expanded_node_id (encode_expanded_node_id e @ rest)
     = Abort ''assemble_node_id requires a 3-tuple, term_size = %d''"
  by (simp add: assemble_expanded_node_id_def encode_expanded_node_id_def ei_encode_defs
      ei_decode_defs control_defs)

lemma assemble_encoded_qualified_name:
  "assemble_qualified_name (encode_qualified_name q @ rest)
     = Ok (q\<lparr>qn_name := UA_STRING (qn_name q)\<rparr>, rest)"
  by (simp add: assemble_qualified_name_def encode_qualified_name_def ei_encode_defs
      ei_decode_defs control_defs decode_binary_chars_def UA_QUALIFIEDNAME_def uint16_lt)

lemma qualified_name_kept:
  "q\<lparr>qn_name := UA_STRING (qn_name q)\<rparr> = q \<longleftrightarrow> CHR 0x00 \<notin> set (qn_name q)"
  by (cases q) (simp add: UA_STRING_iff)

lemma localized_text_kept:
  "\<lparr>lt_locale = UA_STRING (lt_locale t), lt_text = UA_STRING (lt_text t)\<rparr> = t
     \<longleftrightarrow> CHR 0x00 \<notin> set (lt_locale t) \<and> CHR 0x00 \<notin> set (lt_text t)"
  by (cases t) (simp add: UA_STRING_iff)

lemma decode_encoded_guid:
  "decode_guid (encode_ua_guid g @ rest) =
     (if length (data4 g) > 8 then Abort ''Invalid GUID data4 %d >= %d, %d''
      else if length (data4 g) < 8 then Undefined else Ok (g, rest))"
  by (simp add: decode_guid_def encode_ua_guid_def ei_encode_defs ei_decode_defs control_defs
      uint16_lt uint32_lt)

lemma decode_encoded_value:
  "decode_value ext (type_of s) (encode_element ext s @ rest) = Ok (Some (s, rest))
     \<longleftrightarrow> round_trips ext s"
proof (cases s)
  case (UA_NodeId n)
  then show ?thesis
    by (simp add: decode_value_def type_of_def encode_element_def round_trips_def
        assemble_encoded_node_id control_defs)
next
  case (UA_ExpandedNodeId e)
  then show ?thesis
    by (simp add: decode_value_def type_of_def encode_element_def round_trips_def
        assemble_encoded_expanded_node_id control_defs)
next
  case (UA_SemanticChangeStructureDataType a b)
  then show ?thesis
    by (simp add: decode_value_def type_of_def encode_element_def round_trips_def
        assemble_encoded_node_id control_defs encode_semantic_change_structure_data_type_def
        ei_encode_defs ei_decode_defs)
next
  case (UA_Guid g)
  then show ?thesis
    by (simp add: decode_value_def type_of_def encode_element_def round_trips_def
        decode_encoded_guid control_defs)
next
  case (UA_QualifiedName q)
  then show ?thesis
    by (simp add: decode_value_def type_of_def encode_element_def round_trips_def control_defs
        assemble_encoded_qualified_name qualified_name_kept)
next
  case (UA_LocalizedText t)
  then show ?thesis
    by (simp add: decode_value_def type_of_def encode_element_def round_trips_def control_defs
        encode_localized_text_def decode_binary_chars_def UA_LOCALIZEDTEXT_def localized_text_kept
        ei_encode_defs ei_decode_defs)
next
  case (UA_DateTime w)
  then show ?thesis
    by (simp add: decode_value_def type_of_def encode_element_def round_trips_def control_defs
        einval_or_def ei_encode_defs ei_decode_defs uint64_lower)
qed (simp_all add: decode_value_def type_of_def encode_element_def round_trips_def control_defs
      einval_or_def encode_ua_float_def encode_xv_type_def encode_status_code_def
      decode_binary_chars_def UA_STRING_iff ei_encode_defs ei_decode_defs
      uint8_lt uint16_lt uint32_lt uint64_lt sint8_range sint16_range sint32_range sint64_range)

subsection \<open>Handlers, state and responses\<close>

lemmas send_defs = send_error_response_def send_ok_response_def send_opex_response_def
  erlcmd_send_def encode_caller_metadata_def store_def

lemmas handler_defs = handle_write_node_array_dimensions_def handle_write_node_historizing_def
  handle_write_node_executable_def handle_write_node_value_def handle_write_node_blank_array_def
  handle_read_node_value_def handle_read_node_value_by_index_def
  handle_read_node_value_by_data_type_def

lemmas node_handler_defs = handle_test_def handle_add_variable_node_def
  handle_add_variable_type_node_def handle_add_object_node_def handle_add_object_type_node_def
  handle_add_view_node_def handle_add_reference_type_node_def handle_add_data_type_node_def
  handle_delete_reference_def handle_delete_node_def

lemmas attribute_write_defs = handle_write_node_browse_name_def handle_write_node_display_name_def
  handle_write_node_description_def handle_write_node_write_mask_def
  handle_write_node_is_abstract_def handle_write_node_inverse_name_def
  handle_write_node_data_type_def handle_write_node_value_rank_def
  handle_write_node_access_level_def handle_write_node_minimum_sampling_interval_def
  handle_write_node_event_notifier_def

lemmas attribute_read_defs = read_attribute_def handle_read_node_node_id_def
  handle_read_node_node_class_def handle_read_node_browse_name_def
  handle_read_node_display_name_def handle_read_node_description_def
  handle_read_node_write_mask_def handle_read_node_is_abstract_def handle_read_node_symmetric_def
  handle_read_node_inverse_name_def handle_read_node_contains_no_loops_def
  handle_read_node_data_type_def handle_read_node_value_rank_def
  handle_read_node_array_dimensions_def handle_read_node_access_level_def
  handle_read_node_minimum_sampling_interval_def handle_read_node_historizing_def
  handle_read_node_executable_def handle_read_node_event_notifier_def



lemma sent_update_eq: "w\<lparr>sent := a\<rparr> = w\<lparr>sent := b\<rparr> \<Longrightarrow> a = b"
  by (drule arg_cong [where f = sent]) simp

text \<open>An Ok response and an error response are different messages.\<close>

lemma send_data_not_error:
  "send_data_response ext p c n w \<noteq> Ok (send_error_response reason w)"
  by (cases "encode_data_response ext p c n")
     (auto simp add: send_data_response_def control_defs send_defs ei_encode_defs
        dest!: sent_update_eq)

lemma send_read_eagain:
  "send_read ext how p w = Ok (send_error_response ''eagain'' w) \<longleftrightarrow> how = Eagain"
  by (cases how; cases p)
     (auto simp add: send_read_def send_data_not_error split: option.splits)

lemma read_code_le: "read_code t = Code c \<Longrightarrow> c \<le> 22"
  by (cases t) (auto simp: read_code_def)

lemma read_code_eagain: "read_code t = Eagain \<longleftrightarrow> (\<exists>k. t = UA_TYPES_OTHER k)"
  by (cases t) (simp_all add: read_code_def)

lemma encode_null: "c \<le> 29 \<Longrightarrow> encode_data_response ext Null c n = Undefined"
  by (simp add: encode_data_response_def or_undefined_def
      read_word8_def read_word16_def read_word32_def read_word64_def) arith

text \<open>No value is empty and has a type: the ``nil'' test of the typed read never holds.\<close>

lemma empty_and_typed: "(UA_Variant_isEmpty v \<and> variant_type v = Some t) = False"
  by (cases v) (simp_all add: UA_Variant_isEmpty_def variant_type_def)

subsection \<open>The write of a value and its callbacks\<close>











subsection \<open>Tuples of another arity\<close>

lemma payload_tuple_or_abort:
  "arity \<noteq> 2 \<Longrightarrow>
      decode_value ext UA_TYPES_LOCALIZEDTEXT (ERL_TUPLE_EXT arity # rest)
        = Abort '':handle_write_node_value requires a 2-tuple, term_size = %d''
      \<and> decode_value ext UA_TYPES_SEMANTICCHANGESTRUCTUREDATATYPE (ERL_TUPLE_EXT arity # rest)
        = Abort '':handle_write_node_value requires a 2-tuple, term_size = %d''
      \<and> decode_value ext UA_TYPES_XVTYPE (ERL_TUPLE_EXT arity # rest)
        = Abort '':handle_write_node_value (UA_TYPES_XVTYPE) requires a 2-tuple, term_size = %d''"
  by (simp add: decode_value_def ei_decode_tuple_header_def control_defs)

lemma payload_assembler:
  "decode_value ext UA_TYPES_NODEID req
     = and_then (assemble_node_id req) (\<lambda>(node_id_arg_1, r). Ok (Some (UA_NodeId node_id_arg_1, r)))
   \<and> decode_value ext UA_TYPES_EXPANDEDNODEID req
       = and_then (assemble_expanded_node_id req) (\<lambda>(x, r). Ok (Some (UA_ExpandedNodeId x, r)))
   \<and> decode_value ext UA_TYPES_QUALIFIEDNAME req
       = and_then (assemble_qualified_name req) (\<lambda>(q, r). Ok (Some (UA_QualifiedName q, r)))
   \<and> decode_value ext UA_TYPES_GUID req
       = and_then (decode_guid req) (\<lambda>(guid, r). Ok (Some (UA_Guid guid, r)))"
  by (simp add: decode_value_def)

lemma semantic_change_payload:
  "decode_value ext UA_TYPES_SEMANTICCHANGESTRUCTUREDATATYPE (ERL_TUPLE_EXT 2 # req)
     = and_then (assemble_node_id req) (\<lambda>(node_id_arg_1, r2).
       and_then (assemble_node_id r2) (\<lambda>(node_id_arg_2, r3).
       Ok (Some (UA_SemanticChangeStructureDataType node_id_arg_1 node_id_arg_2, r3))))"
  by (simp add: decode_value_def ei_decode_tuple_header_def control_defs)

lemma tuple_of_three_or_abort:
  "(arity \<noteq> 3 \<longrightarrow>
      assemble_node_id (ERL_TUPLE_EXT arity # rest)
        = Abort ''assemble_node_id requires a 3-tuple, term_size = %d''
      \<and> assemble_expanded_node_id (ERL_TUPLE_EXT arity # rest)
        = Abort ''assemble_node_id requires a 3-tuple, term_size = %d''
      \<and> handle_write_node_array_dimensions ext entity_type (ERL_TUPLE_EXT arity # rest) w
        = Abort '':handle_write_node_array_dimension requires a 3-tuple, term_size = %d''
      \<and> handle_write_node_display_name ext entity_type (ERL_TUPLE_EXT arity # rest) w
        = Abort '':handle_write_node_display_name requires a 3-tuple, term_size = %d''
      \<and> handle_write_node_description ext entity_type (ERL_TUPLE_EXT arity # rest) w
        = Abort '':handle_write_node_description requires a 3-tuple, term_size = %d''
      \<and> handle_write_node_inverse_name ext entity_type (ERL_TUPLE_EXT arity # rest) w
        = Abort '':handle_write_node_inverse_name requires a 3-tuple, term_size = %d''
      \<and> handle_read_node_node_id ext entity_type (ERL_TUPLE_EXT arity # rest) w
        = Abort ''assemble_node_id requires a 3-tuple, term_size = %d''
      \<and> handle_read_node_node_class ext entity_type (ERL_TUPLE_EXT arity # rest) w
        = Abort ''assemble_node_id requires a 3-tuple, term_size = %d''
      \<and> handle_read_node_browse_name ext entity_type (ERL_TUPLE_EXT arity # rest) w
        = Abort ''assemble_node_id requires a 3-tuple, term_size = %d''
      \<and> handle_read_node_display_name ext entity_type (ERL_TUPLE_EXT arity # rest) w
        = Abort ''assemble_node_id requires a 3-tuple, term_size = %d''
      \<and> handle_read_node_description ext entity_type (ERL_TUPLE_EXT arity # rest) w
        = Abort ''assemble_node_id requires a 3-tuple, term_size = %d''
      \<and> handle_read_node_write_mask ext entity_type (ERL_TUPLE_EXT arity # rest) w
        = Abort ''assemble_node_id requires a 3-tuple, term_size = %d''
      \<and> handle_read_node_is_abstract ext entity_type (ERL_TUPLE_EXT arity # rest) w
        = Abort ''assemble_node_id requires a 3-tuple, term_size = %d''
      \<and> handle_read_node_symmetric ext entity_type (ERL_TUPLE_EXT arity # rest) w
        = Abort ''assemble_node_id requires a 3-tuple, term_size = %d''
      \<and> handle_read_node_inverse_name ext entity_type (ERL_TUPLE_EXT arity # rest) w
        = Abort ''assemble_node_id requires a 3-tuple, term_size = %d''
      \<and> handle_read_node_contains_no_loops ext entity_type (ERL_TUPLE_EXT arity # rest) w
        = Abort ''assemble_node_id requires a 3-tuple, term_size = %d''
      \<and> handle_read_node_data_type ext entity_type (ERL_TUPLE_EXT arity # rest) w
        = Abort ''assemble_node_id requires a 3-tuple, term_size = %d''
      \<and> handle_read_node_value_rank ext entity_type (ERL_TUPLE_EXT arity # rest) w
        = Abort ''assemble_node_id requires a 3-tuple, term_size = %d''
      \<and> handle_read_node_array_dimensions ext entity_type (ERL_TUPLE_EXT arity # rest) w
        = Abort ''assemble_node_id requires a 3-tuple, term_size = %d''
      \<and> handle_read_node_access_level ext entity_type (ERL_TUPLE_EXT arity # rest) w
        = Abort ''assemble_node_id requires a 3-tuple, term_size = %d''
      \<and> handle_read_node_minimum_sampling_interval ext entity_type (ERL_TUPLE_EXT arity # rest) w
        = Abort ''assemble_node_id requires a 3-tuple, term_size = %d''
      \<and> handle_read_node_historizing ext entity_type (ERL_TUPLE_EXT arity # rest) w
        = Abort ''assemble_node_id requires a 3-tuple, term_size = %d''
      \<and> handle_read_node_executable ext entity_type (ERL_TUPLE_EXT arity # rest) w
        = Abort ''assemble_node_id requires a 3-tuple, term_size = %d''
      \<and> handle_read_node_event_notifier ext entity_type (ERL_TUPLE_EXT arity # rest) w
        = Abort ''assemble_node_id requires a 3-tuple, term_size = %d''
      \<and> decode_value ext UA_TYPES_NODEID (ERL_TUPLE_EXT arity # rest)
        = Abort ''assemble_node_id requires a 3-tuple, term_size = %d''
      \<and> decode_value ext UA_TYPES_EXPANDEDNODEID (ERL_TUPLE_EXT arity # rest)
        = Abort ''assemble_node_id requires a 3-tuple, term_size = %d'')"
  by (simp add: handle_write_node_array_dimensions_def attribute_write_defs attribute_read_defs
      payload_assembler assemble_node_id_def assemble_expanded_node_id_def
      ei_decode_tuple_header_def control_defs)

lemma tuple_of_two_or_abort:
  "(arity \<noteq> 2 \<longrightarrow>
      assemble_qualified_name (ERL_TUPLE_EXT arity # rest)
        = Abort ''assemble_qualified_name requires a 2-tuple, term_size = %d''
      \<and> handle_write_node_historizing ext entity_type (ERL_TUPLE_EXT arity # rest) w
        = Abort '':handle_write_node_historizing requires a 2-tuple, term_size = %d''
      \<and> handle_write_node_executable ext entity_type (ERL_TUPLE_EXT arity # rest) w
        = Abort '':handle_write_node_executable requires a 2-tuple, term_size = %d''
      \<and> handle_read_node_value ext entity_type (ERL_TUPLE_EXT arity # rest) w
        = Abort '':handle_read_node_value requires a 2-tuple, term_size = %d''
      \<and> handle_read_node_value_by_index ext entity_type (ERL_TUPLE_EXT arity # rest) w
        = Abort '':handle_read_node_value requires a 2-tuple, term_size = %d''
      \<and> handle_read_node_value_by_data_type ext entity_type (ERL_TUPLE_EXT arity # rest) w
        = Abort '':handle_read_node_value_by_data_type requires a 2-tuple, term_size = %d''
      \<and> handle_delete_node ext entity_type (ERL_TUPLE_EXT arity # rest) w
        = Abort '':handle_delete_node requires a 2-tuple, term_size = %d''
      \<and> handle_write_node_browse_name ext entity_type (ERL_TUPLE_EXT arity # rest) w
        = Abort '':handle_write_node_browse_name requires a 2-tuple, term_size = %d''
      \<and> handle_write_node_write_mask ext entity_type (ERL_TUPLE_EXT arity # rest) w
        = Abort '':handle_write_node_write_mask requires a 2-tuple, term_size = %d''
      \<and> handle_write_node_is_abstract ext entity_type (ERL_TUPLE_EXT arity # rest) w
        = Abort '':handle_write_node_is_abstract requires a 2-tuple, term_size = %d''
      \<and> handle_write_node_value_rank ext entity_type (ERL_TUPLE_EXT arity # rest) w
        = Abort '':handle_write_node_value_rank requires a 2-tuple, term_size = %d''
      \<and> handle_write_node_access_level ext entity_type (ERL_TUPLE_EXT arity # rest) w
        = Abort '':handle_write_node_access_level requires a 2-tuple, term_size = %d''
      \<and> handle_write_node_minimum_sampling_interval ext entity_type (ERL_TUPLE_EXT arity # rest) w
        = Abort '':handle_write_node_minimum_sampling_interval requires a 2-tuple, term_size = %d''
      \<and> handle_write_node_event_notifier ext entity_type (ERL_TUPLE_EXT arity # rest) w
        = Abort '':handle_write_node_event_notifier requires a 2-tuple, term_size = %d''
      \<and> handle_write_node_data_type ext entity_type (ERL_TUPLE_EXT arity # rest) w
        = Abort '':handle_write_node_data_type requires a 3-tuple, term_size = %d''
      \<and> decode_value ext UA_TYPES_QUALIFIEDNAME (ERL_TUPLE_EXT arity # rest)
        = Abort ''assemble_qualified_name requires a 2-tuple, term_size = %d''
      \<and> decode_value ext UA_TYPES_LOCALIZEDTEXT (ERL_TUPLE_EXT arity # rest)
        = Abort '':handle_write_node_value requires a 2-tuple, term_size = %d''
      \<and> decode_value ext UA_TYPES_SEMANTICCHANGESTRUCTUREDATATYPE (ERL_TUPLE_EXT arity # rest)
        = Abort '':handle_write_node_value requires a 2-tuple, term_size = %d''
      \<and> decode_value ext UA_TYPES_XVTYPE (ERL_TUPLE_EXT arity # rest)
        = Abort '':handle_write_node_value (UA_TYPES_XVTYPE) requires a 2-tuple, term_size = %d'')"
  by (simp add: handle_write_node_historizing_def handle_write_node_executable_def
      handle_read_node_value_def handle_read_node_value_by_index_def
      handle_read_node_value_by_data_type_def handle_delete_node_def attribute_write_defs
      assemble_qualified_name_def payload_tuple_or_abort payload_assembler
      ei_decode_tuple_header_def control_defs)

lemma tuple_of_four_or_abort:
  "(arity \<noteq> 4 \<longrightarrow>
      decode_guid (ERL_TUPLE_EXT arity # rest) = Abort ''Invalid string, term_size = %d''
      \<and> decode_value ext UA_TYPES_GUID (ERL_TUPLE_EXT arity # rest) = Abort ''Invalid string, term_size = %d''
      \<and> handle_write_node_value ext entity_type (ERL_TUPLE_EXT arity # rest) w
        = Abort '':handle_write_node_value requires a 4-tuple, term_size = %d''
      \<and> handle_add_object_type_node ext entity_type (ERL_TUPLE_EXT arity # rest) w
        = Abort '':handle_add_object_type_node requires a 4-tuple, term_size = %d''
      \<and> handle_add_view_node ext entity_type (ERL_TUPLE_EXT arity # rest) w
        = Abort '':handle_add_view_node requires a 4-tuple, term_size = %d''
      \<and> handle_add_reference_type_node ext entity_type (ERL_TUPLE_EXT arity # rest) w
        = Abort '':handle_add_reference_type_node requires a 4-tuple, term_size = %d''
      \<and> handle_add_data_type_node ext entity_type (ERL_TUPLE_EXT arity # rest) w
        = Abort '':handle_add_data_type_node requires a 4-tuple, term_size = %d'')"
  by (simp add: handle_write_node_value_def node_handler_defs decode_guid_def
      payload_assembler ei_decode_tuple_header_def control_defs)

lemma tuple_of_five_or_abort:
  "(arity \<noteq> 5 \<longrightarrow>
      handle_write_node_blank_array ext entity_type (ERL_TUPLE_EXT arity # rest) w
        = Abort '':handle_write_node_blank_array requires a 5-tuple, term_size = %d''
      \<and> handle_add_variable_node ext entity_type (ERL_TUPLE_EXT arity # rest) w
        = Abort '':handle_add_variable_node requires a 5-tuple, term_size = %d''
      \<and> handle_add_variable_type_node ext entity_type (ERL_TUPLE_EXT arity # rest) w
        = Abort '':handle_add_variable_type_node requires a 5-tuple, term_size = %d''
      \<and> handle_add_object_node ext entity_type (ERL_TUPLE_EXT arity # rest) w
        = Abort '':handle_add_object_node requires a 5-tuple, term_size = %d''
      \<and> handle_delete_reference ext entity_type (ERL_TUPLE_EXT arity # rest) w
        = Abort '':handle_delete_reference requires a 5-tuple, term_size = %d'')"
  by (simp add: handle_write_node_blank_array_def node_handler_defs
      ei_decode_tuple_header_def control_defs)

lemma dimensions_or_abort:
  "(assemble_node_id req = Ok (n, req') \<and> arity \<noteq> array_dimension_size
        \<and> ei_decode_ulong req' = Some (array_dimension_size, ERL_TUPLE_EXT arity # rest) \<longrightarrow>
      handle_write_node_array_dimensions ext entity_type (ERL_TUPLE_EXT 3 # req) w
        = Abort '':handle_write_node_array_dimension arity mismatch, list_size = %d, array_d = %ld'')"
  by (simp add: handle_write_node_array_dimensions_def ei_decode_tuple_header_def control_defs
      or_einval_def)

lemma blank_dimensions_or_abort:
  "(assemble_node_id req = Ok (n, req') \<and> arity \<noteq> array_dimension_size
        \<and> ei_decode_ulong req' = Some (data_type, req'')
        \<and> ei_decode_ulong req'' = Some (array_dimension_size, req''')
        \<and> ei_decode_ulong req''' = Some (array_raw_size, ERL_TUPLE_EXT arity # rest)
        \<and> blank_element (UA_TYPES ext data_type) = Some blank \<longrightarrow>
      handle_write_node_blank_array ext entity_type (ERL_TUPLE_EXT 5 # req) w
        = Abort '':handle_write_node_array_dimension arity mismatch, list_size = %d, array_d = %ld'')"
  by (simp add: handle_write_node_blank_array_def ei_decode_tuple_header_def control_defs
      or_einval_def)

lemma abort_with_guid:
  "(ei_decode_ulong req = Some (2, req')
        \<and> ei_decode_ulong req' = Some (ns_index, req'')
        \<and> decode_guid req'' = Abort msg \<longrightarrow>
      assemble_node_id (ERL_TUPLE_EXT 3 # req) = Abort msg
      \<and> assemble_expanded_node_id (ERL_TUPLE_EXT 3 # req) = Abort msg)"
  by (simp add: assemble_node_id_def assemble_expanded_node_id_def ei_decode_tuple_header_def
      control_defs)

lemma abort_with_node_id:
  "(assemble_node_id req = Abort msg \<longrightarrow>
      handle_write_node_array_dimensions ext entity_type (ERL_TUPLE_EXT 3 # req) w = Abort msg
      \<and> handle_write_node_historizing ext entity_type (ERL_TUPLE_EXT 2 # req) w = Abort msg
      \<and> handle_write_node_executable ext entity_type (ERL_TUPLE_EXT 2 # req) w = Abort msg
      \<and> handle_read_node_value ext entity_type (ERL_TUPLE_EXT 2 # req) w = Abort msg
      \<and> handle_read_node_value_by_index ext entity_type (ERL_TUPLE_EXT 2 # req) w = Abort msg
      \<and> handle_read_node_value_by_data_type ext entity_type (ERL_TUPLE_EXT 2 # req) w = Abort msg
      \<and> handle_write_node_value ext entity_type (ERL_TUPLE_EXT 4 # req) w = Abort msg
      \<and> handle_write_node_blank_array ext entity_type (ERL_TUPLE_EXT 5 # req) w = Abort msg
      \<and> handle_add_variable_node ext entity_type (ERL_TUPLE_EXT 5 # req) w = Abort msg
      \<and> handle_add_variable_type_node ext entity_type (ERL_TUPLE_EXT 5 # req) w = Abort msg
      \<and> handle_add_object_node ext entity_type (ERL_TUPLE_EXT 5 # req) w = Abort msg
      \<and> handle_delete_reference ext entity_type (ERL_TUPLE_EXT 5 # req) w = Abort msg
      \<and> handle_add_object_type_node ext entity_type (ERL_TUPLE_EXT 4 # req) w = Abort msg
      \<and> handle_add_view_node ext entity_type (ERL_TUPLE_EXT 4 # req) w = Abort msg
      \<and> handle_add_reference_type_node ext entity_type (ERL_TUPLE_EXT 4 # req) w = Abort msg
      \<and> handle_add_data_type_node ext entity_type (ERL_TUPLE_EXT 4 # req) w = Abort msg
      \<and> handle_delete_node ext entity_type (ERL_TUPLE_EXT 2 # req) w = Abort msg
      \<and> handle_write_node_browse_name ext entity_type (ERL_TUPLE_EXT 2 # req) w = Abort msg
      \<and> handle_write_node_write_mask ext entity_type (ERL_TUPLE_EXT 2 # req) w = Abort msg
      \<and> handle_write_node_is_abstract ext entity_type (ERL_TUPLE_EXT 2 # req) w = Abort msg
      \<and> handle_write_node_value_rank ext entity_type (ERL_TUPLE_EXT 2 # req) w = Abort msg
      \<and> handle_write_node_access_level ext entity_type (ERL_TUPLE_EXT 2 # req) w = Abort msg
      \<and> handle_write_node_minimum_sampling_interval ext entity_type (ERL_TUPLE_EXT 2 # req) w = Abort msg
      \<and> handle_write_node_event_notifier ext entity_type (ERL_TUPLE_EXT 2 # req) w = Abort msg
      \<and> handle_write_node_data_type ext entity_type (ERL_TUPLE_EXT 2 # req) w = Abort msg
      \<and> handle_write_node_display_name ext entity_type (ERL_TUPLE_EXT 3 # req) w = Abort msg
      \<and> handle_write_node_description ext entity_type (ERL_TUPLE_EXT 3 # req) w = Abort msg
      \<and> handle_write_node_inverse_name ext entity_type (ERL_TUPLE_EXT 3 # req) w = Abort msg
      \<and> handle_read_node_node_id ext entity_type req w = Abort msg
      \<and> handle_read_node_node_class ext entity_type req w = Abort msg
      \<and> handle_read_node_browse_name ext entity_type req w = Abort msg
      \<and> handle_read_node_display_name ext entity_type req w = Abort msg
      \<and> handle_read_node_description ext entity_type req w = Abort msg
      \<and> handle_read_node_write_mask ext entity_type req w = Abort msg
      \<and> handle_read_node_is_abstract ext entity_type req w = Abort msg
      \<and> handle_read_node_symmetric ext entity_type req w = Abort msg
      \<and> handle_read_node_inverse_name ext entity_type req w = Abort msg
      \<and> handle_read_node_contains_no_loops ext entity_type req w = Abort msg
      \<and> handle_read_node_data_type ext entity_type req w = Abort msg
      \<and> handle_read_node_value_rank ext entity_type req w = Abort msg
      \<and> handle_read_node_array_dimensions ext entity_type req w = Abort msg
      \<and> handle_read_node_access_level ext entity_type req w = Abort msg
      \<and> handle_read_node_minimum_sampling_interval ext entity_type req w = Abort msg
      \<and> handle_read_node_historizing ext entity_type req w = Abort msg
      \<and> handle_read_node_executable ext entity_type req w = Abort msg
      \<and> handle_read_node_event_notifier ext entity_type req w = Abort msg
      \<and> decode_value ext UA_TYPES_SEMANTICCHANGESTRUCTUREDATATYPE (ERL_TUPLE_EXT 2 # req) = Abort msg)"
  by (simp add: handler_defs node_handler_defs attribute_write_defs attribute_read_defs
      semantic_change_payload ei_decode_tuple_header_def control_defs)

lemma abort_with_second_node_id:
  "(assemble_node_id req = Ok (n, req')
        \<and> assemble_node_id req' = Abort msg \<longrightarrow>
      handle_add_variable_node ext entity_type (ERL_TUPLE_EXT 5 # req) w = Abort msg
      \<and> handle_add_variable_type_node ext entity_type (ERL_TUPLE_EXT 5 # req) w = Abort msg
      \<and> handle_add_object_node ext entity_type (ERL_TUPLE_EXT 5 # req) w = Abort msg
      \<and> handle_add_object_type_node ext entity_type (ERL_TUPLE_EXT 4 # req) w = Abort msg
      \<and> handle_add_view_node ext entity_type (ERL_TUPLE_EXT 4 # req) w = Abort msg
      \<and> handle_add_reference_type_node ext entity_type (ERL_TUPLE_EXT 4 # req) w = Abort msg
      \<and> handle_add_data_type_node ext entity_type (ERL_TUPLE_EXT 4 # req) w = Abort msg
      \<and> handle_delete_reference ext entity_type (ERL_TUPLE_EXT 5 # req) w = Abort msg
      \<and> handle_write_node_data_type ext entity_type (ERL_TUPLE_EXT 2 # req) w = Abort msg
      \<and> decode_value ext UA_TYPES_SEMANTICCHANGESTRUCTUREDATATYPE (ERL_TUPLE_EXT 2 # req) = Abort msg)"
  by (simp add: node_handler_defs attribute_write_defs semantic_change_payload
      ei_decode_tuple_header_def control_defs)

lemma abort_with_browse_name:
  "(assemble_node_id req = Ok (n, req')
        \<and> assemble_qualified_name req' = Abort msg \<longrightarrow>
      handle_write_node_browse_name ext entity_type (ERL_TUPLE_EXT 2 # req) w = Abort msg)"
  by (simp add: node_handler_defs attribute_write_defs semantic_change_payload
      ei_decode_tuple_header_def control_defs)

lemma abort_with_third_node_id:
  "(assemble_node_id req = Ok (n, req')
        \<and> assemble_node_id req' = Ok (parent, req'')
        \<and> assemble_node_id req'' = Abort msg \<longrightarrow>
      handle_add_variable_node ext entity_type (ERL_TUPLE_EXT 5 # req) w = Abort msg
      \<and> handle_add_variable_type_node ext entity_type (ERL_TUPLE_EXT 5 # req) w = Abort msg
      \<and> handle_add_object_node ext entity_type (ERL_TUPLE_EXT 5 # req) w = Abort msg
      \<and> handle_add_object_type_node ext entity_type (ERL_TUPLE_EXT 4 # req) w = Abort msg
      \<and> handle_add_view_node ext entity_type (ERL_TUPLE_EXT 4 # req) w = Abort msg
      \<and> handle_add_reference_type_node ext entity_type (ERL_TUPLE_EXT 4 # req) w = Abort msg
      \<and> handle_add_data_type_node ext entity_type (ERL_TUPLE_EXT 4 # req) w = Abort msg)"
  by (simp add: node_handler_defs attribute_write_defs semantic_change_payload
      ei_decode_tuple_header_def control_defs)

lemma abort_with_target_id:
  "(assemble_node_id req = Ok (n, req')
        \<and> assemble_node_id req' = Ok (parent, req'')
        \<and> assemble_expanded_node_id req'' = Abort msg \<longrightarrow>
      handle_delete_reference ext entity_type (ERL_TUPLE_EXT 5 # req) w = Abort msg)"
  by (simp add: node_handler_defs attribute_write_defs semantic_change_payload
      ei_decode_tuple_header_def control_defs)

lemma abort_with_qualified_name:
  "(assemble_node_id req = Ok (n, req')
        \<and> assemble_node_id req' = Ok (parent, req'')
        \<and> assemble_node_id req'' = Ok (reference, req''')
        \<and> assemble_qualified_name req''' = Abort msg \<longrightarrow>
      handle_add_variable_node ext entity_type (ERL_TUPLE_EXT 5 # req) w = Abort msg
      \<and> handle_add_variable_type_node ext entity_type (ERL_TUPLE_EXT 5 # req) w = Abort msg
      \<and> handle_add_object_node ext entity_type (ERL_TUPLE_EXT 5 # req) w = Abort msg
      \<and> handle_add_object_type_node ext entity_type (ERL_TUPLE_EXT 4 # req) w = Abort msg
      \<and> handle_add_view_node ext entity_type (ERL_TUPLE_EXT 4 # req) w = Abort msg
      \<and> handle_add_reference_type_node ext entity_type (ERL_TUPLE_EXT 4 # req) w = Abort msg
      \<and> handle_add_data_type_node ext entity_type (ERL_TUPLE_EXT 4 # req) w = Abort msg)"
  by (simp add: node_handler_defs attribute_write_defs semantic_change_payload
      ei_decode_tuple_header_def control_defs)

lemma abort_with_type_definition:
  "(assemble_node_id req = Ok (n, req')
        \<and> assemble_node_id req' = Ok (parent, req'')
        \<and> assemble_node_id req'' = Ok (reference, req''')
        \<and> assemble_qualified_name req''' = Ok (name, req'''')
        \<and> assemble_node_id req'''' = Abort msg \<longrightarrow>
      handle_add_variable_node ext entity_type (ERL_TUPLE_EXT 5 # req) w = Abort msg
      \<and> handle_add_variable_type_node ext entity_type (ERL_TUPLE_EXT 5 # req) w = Abort msg
      \<and> handle_add_object_node ext entity_type (ERL_TUPLE_EXT 5 # req) w = Abort msg)"
  by (simp add: node_handler_defs attribute_write_defs semantic_change_payload
      ei_decode_tuple_header_def control_defs)

lemma abort_with_payload:
  "(assemble_node_id req = Ok (n, req')
        \<and> ei_decode_ulong req' = Some (data_type, req'')
        \<and> ei_decode_ulong req'' = Some (data_index, req''')
        \<and> retval_of ext (UA_readValue entity_type n) = UA_STATUSCODE_GOOD
        \<and> (UA_Variant_isEmpty (value_read ext entity_type n)
             \<or> UA_Variant_isScalar (value_read ext entity_type n)
             \<or> data_index < arrayLength (value_read ext entity_type n))
        \<and> decode_value ext (UA_TYPES ext data_type) req''' = Abort msg \<longrightarrow>
      handle_write_node_value ext entity_type (ERL_TUPLE_EXT 4 # req) w = Abort msg)"
  by (auto simp add: handle_write_node_value_def ei_decode_tuple_header_def control_defs
      or_einval_def Let_def UA_Variant_isEmpty_def UA_Variant_isScalar_def arrayLength_def
      split: ua_variant.splits)

section \<open>The claims\<close>

subsection \<open>C1: decoding what was encoded\<close>

text \<open>
  C1, as stated, fails: the assembler of node identifiers does not return the
  identifier from the term that the node-id encoder produced. It aborts, here on
  the node \<^verbatim>\<open>ns=1;i=42\<close>.
\<close>

theorem node_id_round_trip_counterexample:
  "assemble_node_id (encode_node_id sample_node) \<noteq> Ok (sample_node, [])"
  using assemble_encoded_node_id [of sample_node "[]"] by simp

text \<open>
  C1, amended: decoding the encoding of a value returns the value exactly for the
  values of \<open>round_trips\<close> (booleans, the integer kinds, doubles, content masks
  and element operands always; floats, dates, guids and the string kinds under
  the conditions written there); a qualified name comes back from its assembler
  exactly when its name holds no NUL byte; and the assembler of node identifiers
  aborts on every term of the node-id encoder.
\<close>

theorem decode_encode_round_trip:
  "(decode_value ext (type_of s) (encode_element ext s @ rest) = Ok (Some (s, rest))
      \<longleftrightarrow> round_trips ext s)
   \<and> (assemble_qualified_name (encode_qualified_name q @ rest) = Ok (q, rest)
      \<longleftrightarrow> CHR 0x00 \<notin> set (qn_name q))
   \<and> assemble_node_id (encode_node_id n @ rest) = Abort ''Invalid ns_index''"
  by (simp add: decode_encoded_value assemble_encoded_qualified_name qualified_name_kept
      assemble_encoded_node_id)

theorem decode_encode_round_trip_witness:
  "decode_value sample_platform UA_TYPES_INT32 [ERL_INTEGER_EXT (- 7)] = Ok (Some (UA_Int32 (- 7), []))
   \<and> assemble_qualified_name [ERL_TUPLE_EXT 2, ERL_INTEGER_EXT 1, ERL_BINARY_EXT ''pump'']
       = Ok (\<lparr>qn_namespaceIndex = 1, qn_name = ''pump''\<rparr>, [])"
  using decode_encode_round_trip [of sample_platform "UA_Int32 (- 7)" "[]"
          "\<lparr>qn_namespaceIndex = 1, qn_name = ''pump''\<rparr>" sample_node]
  by (simp add: round_trips_def type_of_def encode_element_def encode_qualified_name_def
      ei_encode_defs)

subsection \<open>C2: a tuple of another arity\<close>

text \<open>
  C2, as stated, fails: a tuple of another arity does not always end in the abort.
  \<^verbatim>\<open>handle_write_node_value\<close> tests the index against the length of the array
  before its switch reads the payload. Here the node holds an array of two
  localized texts, the request names the kind 20 (LocalizedText, whose payload is
  a tuple of two) and the index 5, and its payload is a tuple of three: the answer
  is the error \<^verbatim>\<open>BadTypeMismatch\<close>, an ordinary response, and the tuple is never
  read.
\<close>

theorem payload_tuple_counterexample:
  "handle_write_node_value
     (sample_platform\<lparr>value_read := (\<lambda>entity_type n.
        Array UA_TYPES_LOCALIZEDTEXT
          [UA_LocalizedText \<lparr>lt_locale = ''en'', lt_text = ''on''\<rparr>,
           UA_LocalizedText \<lparr>lt_locale = ''en'', lt_text = ''off''\<rparr>] [])\<rparr>)
     False
     (ERL_TUPLE_EXT 4 # sample_node_term
        @ [ERL_INTEGER_EXT 20, ERL_INTEGER_EXT 5,
           ERL_TUPLE_EXT 3, ERL_BINARY_EXT ''en'', ERL_BINARY_EXT ''on'', ERL_BINARY_EXT ''off''])
     sample_world
   = Ok (sample_world\<lparr>calls := [UA_readValue False sample_node],
          sent := [[ERL_VERSION_MAGIC, ERL_TUPLE_EXT 3, ERL_ATOM_EXT ''command'', ERL_ATOM_EXT ''from'',
                    ERL_TUPLE_EXT 2, ERL_ATOM_EXT ''error'', ERL_BINARY_EXT ''BadTypeMismatch'']]\<rparr>)
   \<and> decode_value sample_platform (sample_types 20)
       [ERL_TUPLE_EXT 3, ERL_BINARY_EXT ''en'', ERL_BINARY_EXT ''on'', ERL_BINARY_EXT ''off'']
     = Abort '':handle_write_node_value requires a 2-tuple, term_size = %d''"
  by (simp add: handle_write_node_value_def assemble_sample_node ei_decode_defs control_defs
      or_einval_def sample_platform_def sample_world_def sample_types_def UA_STATUSCODE_GOOD_def
      UA_STATUSCODE_BADTYPEMISMATCH_def UA_Variant_isEmpty_def UA_Variant_isScalar_def
      arrayLength_def send_defs ei_encode_defs decode_value_def)

text \<open>
  C2, amended: a tuple header that an assembler or a handler reaches with an
  arity other than the one it expects ends in the abort, with no response sent
  and nothing written. An assembler reaches its own tuple first, and its guid
  after the kind and the namespace. A handler reaches its outer tuple first (the
  handlers that read an attribute have none and start with the node identifier),
  a later identifier or qualified name once those before it were assembled, the
  tuple of the dimensions once the integers before it were decoded (and the kind,
  for the blank array, is one of the switch), and the payload of
  \<^verbatim>\<open>handle_write_node_value\<close> once the kind and the index were decoded, the
  read of the value returned Good and the index is not past the end of an array.
  The abort of an assembler, for the arity of its tuple or for any other reason,
  is then the abort of the handler. (\<^verbatim>\<open>handle_test\<close> reads nothing of the
  request. \<^verbatim>\<open>handle_write_node_data_type\<close> expects two elements and names
  three in its message.)
\<close>

theorem arity_mismatch_aborts:
  "(arity \<noteq> 3 \<longrightarrow>
      assemble_node_id (ERL_TUPLE_EXT arity # rest)
        = Abort ''assemble_node_id requires a 3-tuple, term_size = %d''
      \<and> assemble_expanded_node_id (ERL_TUPLE_EXT arity # rest)
        = Abort ''assemble_node_id requires a 3-tuple, term_size = %d''
      \<and> handle_write_node_array_dimensions ext entity_type (ERL_TUPLE_EXT arity # rest) w
        = Abort '':handle_write_node_array_dimension requires a 3-tuple, term_size = %d''
      \<and> handle_write_node_display_name ext entity_type (ERL_TUPLE_EXT arity # rest) w
        = Abort '':handle_write_node_display_name requires a 3-tuple, term_size = %d''
      \<and> handle_write_node_description ext entity_type (ERL_TUPLE_EXT arity # rest) w
        = Abort '':handle_write_node_description requires a 3-tuple, term_size = %d''
      \<and> handle_write_node_inverse_name ext entity_type (ERL_TUPLE_EXT arity # rest) w
        = Abort '':handle_write_node_inverse_name requires a 3-tuple, term_size = %d''
      \<and> handle_read_node_node_id ext entity_type (ERL_TUPLE_EXT arity # rest) w
        = Abort ''assemble_node_id requires a 3-tuple, term_size = %d''
      \<and> handle_read_node_node_class ext entity_type (ERL_TUPLE_EXT arity # rest) w
        = Abort ''assemble_node_id requires a 3-tuple, term_size = %d''
      \<and> handle_read_node_browse_name ext entity_type (ERL_TUPLE_EXT arity # rest) w
        = Abort ''assemble_node_id requires a 3-tuple, term_size = %d''
      \<and> handle_read_node_display_name ext entity_type (ERL_TUPLE_EXT arity # rest) w
        = Abort ''assemble_node_id requires a 3-tuple, term_size = %d''
      \<and> handle_read_node_description ext entity_type (ERL_TUPLE_EXT arity # rest) w
        = Abort ''assemble_node_id requires a 3-tuple, term_size = %d''
      \<and> handle_read_node_write_mask ext entity_type (ERL_TUPLE_EXT arity # rest) w
        = Abort ''assemble_node_id requires a 3-tuple, term_size = %d''
      \<and> handle_read_node_is_abstract ext entity_type (ERL_TUPLE_EXT arity # rest) w
        = Abort ''assemble_node_id requires a 3-tuple, term_size = %d''
      \<and> handle_read_node_symmetric ext entity_type (ERL_TUPLE_EXT arity # rest) w
        = Abort ''assemble_node_id requires a 3-tuple, term_size = %d''
      \<and> handle_read_node_inverse_name ext entity_type (ERL_TUPLE_EXT arity # rest) w
        = Abort ''assemble_node_id requires a 3-tuple, term_size = %d''
      \<and> handle_read_node_contains_no_loops ext entity_type (ERL_TUPLE_EXT arity # rest) w
        = Abort ''assemble_node_id requires a 3-tuple, term_size = %d''
      \<and> handle_read_node_data_type ext entity_type (ERL_TUPLE_EXT arity # rest) w
        = Abort ''assemble_node_id requires a 3-tuple, term_size = %d''
      \<and> handle_read_node_value_rank ext entity_type (ERL_TUPLE_EXT arity # rest) w
        = Abort ''assemble_node_id requires a 3-tuple, term_size = %d''
      \<and> handle_read_node_array_dimensions ext entity_type (ERL_TUPLE_EXT arity # rest) w
        = Abort ''assemble_node_id requires a 3-tuple, term_size = %d''
      \<and> handle_read_node_access_level ext entity_type (ERL_TUPLE_EXT arity # rest) w
        = Abort ''assemble_node_id requires a 3-tuple, term_size = %d''
      \<and> handle_read_node_minimum_sampling_interval ext entity_type (ERL_TUPLE_EXT arity # rest) w
        = Abort ''assemble_node_id requires a 3-tuple, term_size = %d''
      \<and> handle_read_node_historizing ext entity_type (ERL_TUPLE_EXT arity # rest) w
        = Abort ''assemble_node_id requires a 3-tuple, term_size = %d''
      \<and> handle_read_node_executable ext entity_type (ERL_TUPLE_EXT arity # rest) w
        = Abort ''assemble_node_id requires a 3-tuple, term_size = %d''
      \<and> handle_read_node_event_notifier ext entity_type (ERL_TUPLE_EXT arity # rest) w
        = Abort ''assemble_node_id requires a 3-tuple, term_size = %d''
      \<and> decode_value ext UA_TYPES_NODEID (ERL_TUPLE_EXT arity # rest)
        = Abort ''assemble_node_id requires a 3-tuple, term_size = %d''
      \<and> decode_value ext UA_TYPES_EXPANDEDNODEID (ERL_TUPLE_EXT arity # rest)
        = Abort ''assemble_node_id requires a 3-tuple, term_size = %d'')
   \<and> (arity \<noteq> 2 \<longrightarrow>
      assemble_qualified_name (ERL_TUPLE_EXT arity # rest)
        = Abort ''assemble_qualified_name requires a 2-tuple, term_size = %d''
      \<and> handle_write_node_historizing ext entity_type (ERL_TUPLE_EXT arity # rest) w
        = Abort '':handle_write_node_historizing requires a 2-tuple, term_size = %d''
      \<and> handle_write_node_executable ext entity_type (ERL_TUPLE_EXT arity # rest) w
        = Abort '':handle_write_node_executable requires a 2-tuple, term_size = %d''
      \<and> handle_read_node_value ext entity_type (ERL_TUPLE_EXT arity # rest) w
        = Abort '':handle_read_node_value requires a 2-tuple, term_size = %d''
      \<and> handle_read_node_value_by_index ext entity_type (ERL_TUPLE_EXT arity # rest) w
        = Abort '':handle_read_node_value requires a 2-tuple, term_size = %d''
      \<and> handle_read_node_value_by_data_type ext entity_type (ERL_TUPLE_EXT arity # rest) w
        = Abort '':handle_read_node_value_by_data_type requires a 2-tuple, term_size = %d''
      \<and> handle_delete_node ext entity_type (ERL_TUPLE_EXT arity # rest) w
        = Abort '':handle_delete_node requires a 2-tuple, term_size = %d''
      \<and> handle_write_node_browse_name ext entity_type (ERL_TUPLE_EXT arity # rest) w
        = Abort '':handle_write_node_browse_name requires a 2-tuple, term_size = %d''
      \<and> handle_write_node_write_mask ext entity_type (ERL_TUPLE_EXT arity # rest) w
        = Abort '':handle_write_node_write_mask requires a 2-tuple, term_size = %d''
      \<and> handle_write_node_is_abstract ext entity_type (ERL_TUPLE_EXT arity # rest) w
        = Abort '':handle_write_node_is_abstract requires a 2-tuple, term_size = %d''
      \<and> handle_write_node_value_rank ext entity_type (ERL_TUPLE_EXT arity # rest) w
        = Abort '':handle_write_node_value_rank requires a 2-tuple, term_size = %d''
      \<and> handle_write_node_access_level ext entity_type (ERL_TUPLE_EXT arity # rest) w
        = Abort '':handle_write_node_access_level requires a 2-tuple, term_size = %d''
      \<and> handle_write_node_minimum_sampling_interval ext entity_type (ERL_TUPLE_EXT arity # rest) w
        = Abort '':handle_write_node_minimum_sampling_interval requires a 2-tuple, term_size = %d''
      \<and> handle_write_node_event_notifier ext entity_type (ERL_TUPLE_EXT arity # rest) w
        = Abort '':handle_write_node_event_notifier requires a 2-tuple, term_size = %d''
      \<and> handle_write_node_data_type ext entity_type (ERL_TUPLE_EXT arity # rest) w
        = Abort '':handle_write_node_data_type requires a 3-tuple, term_size = %d''
      \<and> decode_value ext UA_TYPES_QUALIFIEDNAME (ERL_TUPLE_EXT arity # rest)
        = Abort ''assemble_qualified_name requires a 2-tuple, term_size = %d''
      \<and> decode_value ext UA_TYPES_LOCALIZEDTEXT (ERL_TUPLE_EXT arity # rest)
        = Abort '':handle_write_node_value requires a 2-tuple, term_size = %d''
      \<and> decode_value ext UA_TYPES_SEMANTICCHANGESTRUCTUREDATATYPE (ERL_TUPLE_EXT arity # rest)
        = Abort '':handle_write_node_value requires a 2-tuple, term_size = %d''
      \<and> decode_value ext UA_TYPES_XVTYPE (ERL_TUPLE_EXT arity # rest)
        = Abort '':handle_write_node_value (UA_TYPES_XVTYPE) requires a 2-tuple, term_size = %d'')
   \<and> (arity \<noteq> 4 \<longrightarrow>
      decode_guid (ERL_TUPLE_EXT arity # rest) = Abort ''Invalid string, term_size = %d''
      \<and> decode_value ext UA_TYPES_GUID (ERL_TUPLE_EXT arity # rest) = Abort ''Invalid string, term_size = %d''
      \<and> handle_write_node_value ext entity_type (ERL_TUPLE_EXT arity # rest) w
        = Abort '':handle_write_node_value requires a 4-tuple, term_size = %d''
      \<and> handle_add_object_type_node ext entity_type (ERL_TUPLE_EXT arity # rest) w
        = Abort '':handle_add_object_type_node requires a 4-tuple, term_size = %d''
      \<and> handle_add_view_node ext entity_type (ERL_TUPLE_EXT arity # rest) w
        = Abort '':handle_add_view_node requires a 4-tuple, term_size = %d''
      \<and> handle_add_reference_type_node ext entity_type (ERL_TUPLE_EXT arity # rest) w
        = Abort '':handle_add_reference_type_node requires a 4-tuple, term_size = %d''
      \<and> handle_add_data_type_node ext entity_type (ERL_TUPLE_EXT arity # rest) w
        = Abort '':handle_add_data_type_node requires a 4-tuple, term_size = %d'')
   \<and> (arity \<noteq> 5 \<longrightarrow>
      handle_write_node_blank_array ext entity_type (ERL_TUPLE_EXT arity # rest) w
        = Abort '':handle_write_node_blank_array requires a 5-tuple, term_size = %d''
      \<and> handle_add_variable_node ext entity_type (ERL_TUPLE_EXT arity # rest) w
        = Abort '':handle_add_variable_node requires a 5-tuple, term_size = %d''
      \<and> handle_add_variable_type_node ext entity_type (ERL_TUPLE_EXT arity # rest) w
        = Abort '':handle_add_variable_type_node requires a 5-tuple, term_size = %d''
      \<and> handle_add_object_node ext entity_type (ERL_TUPLE_EXT arity # rest) w
        = Abort '':handle_add_object_node requires a 5-tuple, term_size = %d''
      \<and> handle_delete_reference ext entity_type (ERL_TUPLE_EXT arity # rest) w
        = Abort '':handle_delete_reference requires a 5-tuple, term_size = %d'')
   \<and> (assemble_node_id req = Ok (n, req') \<and> arity \<noteq> array_dimension_size
        \<and> ei_decode_ulong req' = Some (array_dimension_size, ERL_TUPLE_EXT arity # rest) \<longrightarrow>
      handle_write_node_array_dimensions ext entity_type (ERL_TUPLE_EXT 3 # req) w
        = Abort '':handle_write_node_array_dimension arity mismatch, list_size = %d, array_d = %ld'')
   \<and> (assemble_node_id req = Ok (n, req') \<and> arity \<noteq> array_dimension_size
        \<and> ei_decode_ulong req' = Some (data_type, req'')
        \<and> ei_decode_ulong req'' = Some (array_dimension_size, req''')
        \<and> ei_decode_ulong req''' = Some (array_raw_size, ERL_TUPLE_EXT arity # rest)
        \<and> blank_element (UA_TYPES ext data_type) = Some blank \<longrightarrow>
      handle_write_node_blank_array ext entity_type (ERL_TUPLE_EXT 5 # req) w
        = Abort '':handle_write_node_array_dimension arity mismatch, list_size = %d, array_d = %ld'')
   \<and> (ei_decode_ulong req = Some (2, req')
        \<and> ei_decode_ulong req' = Some (ns_index, req'')
        \<and> decode_guid req'' = Abort msg \<longrightarrow>
      assemble_node_id (ERL_TUPLE_EXT 3 # req) = Abort msg
      \<and> assemble_expanded_node_id (ERL_TUPLE_EXT 3 # req) = Abort msg)
   \<and> (assemble_node_id req = Abort msg \<longrightarrow>
      handle_write_node_array_dimensions ext entity_type (ERL_TUPLE_EXT 3 # req) w = Abort msg
      \<and> handle_write_node_historizing ext entity_type (ERL_TUPLE_EXT 2 # req) w = Abort msg
      \<and> handle_write_node_executable ext entity_type (ERL_TUPLE_EXT 2 # req) w = Abort msg
      \<and> handle_read_node_value ext entity_type (ERL_TUPLE_EXT 2 # req) w = Abort msg
      \<and> handle_read_node_value_by_index ext entity_type (ERL_TUPLE_EXT 2 # req) w = Abort msg
      \<and> handle_read_node_value_by_data_type ext entity_type (ERL_TUPLE_EXT 2 # req) w = Abort msg
      \<and> handle_write_node_value ext entity_type (ERL_TUPLE_EXT 4 # req) w = Abort msg
      \<and> handle_write_node_blank_array ext entity_type (ERL_TUPLE_EXT 5 # req) w = Abort msg
      \<and> handle_add_variable_node ext entity_type (ERL_TUPLE_EXT 5 # req) w = Abort msg
      \<and> handle_add_variable_type_node ext entity_type (ERL_TUPLE_EXT 5 # req) w = Abort msg
      \<and> handle_add_object_node ext entity_type (ERL_TUPLE_EXT 5 # req) w = Abort msg
      \<and> handle_delete_reference ext entity_type (ERL_TUPLE_EXT 5 # req) w = Abort msg
      \<and> handle_add_object_type_node ext entity_type (ERL_TUPLE_EXT 4 # req) w = Abort msg
      \<and> handle_add_view_node ext entity_type (ERL_TUPLE_EXT 4 # req) w = Abort msg
      \<and> handle_add_reference_type_node ext entity_type (ERL_TUPLE_EXT 4 # req) w = Abort msg
      \<and> handle_add_data_type_node ext entity_type (ERL_TUPLE_EXT 4 # req) w = Abort msg
      \<and> handle_delete_node ext entity_type (ERL_TUPLE_EXT 2 # req) w = Abort msg
      \<and> handle_write_node_browse_name ext entity_type (ERL_TUPLE_EXT 2 # req) w = Abort msg
      \<and> handle_write_node_write_mask ext entity_type (ERL_TUPLE_EXT 2 # req) w = Abort msg
      \<and> handle_write_node_is_abstract ext entity_type (ERL_TUPLE_EXT 2 # req) w = Abort msg
      \<and> handle_write_node_value_rank ext entity_type (ERL_TUPLE_EXT 2 # req) w = Abort msg
      \<and> handle_write_node_access_level ext entity_type (ERL_TUPLE_EXT 2 # req) w = Abort msg
      \<and> handle_write_node_minimum_sampling_interval ext entity_type (ERL_TUPLE_EXT 2 # req) w = Abort msg
      \<and> handle_write_node_event_notifier ext entity_type (ERL_TUPLE_EXT 2 # req) w = Abort msg
      \<and> handle_write_node_data_type ext entity_type (ERL_TUPLE_EXT 2 # req) w = Abort msg
      \<and> handle_write_node_display_name ext entity_type (ERL_TUPLE_EXT 3 # req) w = Abort msg
      \<and> handle_write_node_description ext entity_type (ERL_TUPLE_EXT 3 # req) w = Abort msg
      \<and> handle_write_node_inverse_name ext entity_type (ERL_TUPLE_EXT 3 # req) w = Abort msg
      \<and> handle_read_node_node_id ext entity_type req w = Abort msg
      \<and> handle_read_node_node_class ext entity_type req w = Abort msg
      \<and> handle_read_node_browse_name ext entity_type req w = Abort msg
      \<and> handle_read_node_display_name ext entity_type req w = Abort msg
      \<and> handle_read_node_description ext entity_type req w = Abort msg
      \<and> handle_read_node_write_mask ext entity_type req w = Abort msg
      \<and> handle_read_node_is_abstract ext entity_type req w = Abort msg
      \<and> handle_read_node_symmetric ext entity_type req w = Abort msg
      \<and> handle_read_node_inverse_name ext entity_type req w = Abort msg
      \<and> handle_read_node_contains_no_loops ext entity_type req w = Abort msg
      \<and> handle_read_node_data_type ext entity_type req w = Abort msg
      \<and> handle_read_node_value_rank ext entity_type req w = Abort msg
      \<and> handle_read_node_array_dimensions ext entity_type req w = Abort msg
      \<and> handle_read_node_access_level ext entity_type req w = Abort msg
      \<and> handle_read_node_minimum_sampling_interval ext entity_type req w = Abort msg
      \<and> handle_read_node_historizing ext entity_type req w = Abort msg
      \<and> handle_read_node_executable ext entity_type req w = Abort msg
      \<and> handle_read_node_event_notifier ext entity_type req w = Abort msg
      \<and> decode_value ext UA_TYPES_SEMANTICCHANGESTRUCTUREDATATYPE (ERL_TUPLE_EXT 2 # req) = Abort msg)
   \<and> (assemble_node_id req = Ok (n, req')
        \<and> assemble_node_id req' = Abort msg \<longrightarrow>
      handle_add_variable_node ext entity_type (ERL_TUPLE_EXT 5 # req) w = Abort msg
      \<and> handle_add_variable_type_node ext entity_type (ERL_TUPLE_EXT 5 # req) w = Abort msg
      \<and> handle_add_object_node ext entity_type (ERL_TUPLE_EXT 5 # req) w = Abort msg
      \<and> handle_add_object_type_node ext entity_type (ERL_TUPLE_EXT 4 # req) w = Abort msg
      \<and> handle_add_view_node ext entity_type (ERL_TUPLE_EXT 4 # req) w = Abort msg
      \<and> handle_add_reference_type_node ext entity_type (ERL_TUPLE_EXT 4 # req) w = Abort msg
      \<and> handle_add_data_type_node ext entity_type (ERL_TUPLE_EXT 4 # req) w = Abort msg
      \<and> handle_delete_reference ext entity_type (ERL_TUPLE_EXT 5 # req) w = Abort msg
      \<and> handle_write_node_data_type ext entity_type (ERL_TUPLE_EXT 2 # req) w = Abort msg
      \<and> decode_value ext UA_TYPES_SEMANTICCHANGESTRUCTUREDATATYPE (ERL_TUPLE_EXT 2 # req) = Abort msg)
   \<and> (assemble_node_id req = Ok (n, req')
        \<and> assemble_qualified_name req' = Abort msg \<longrightarrow>
      handle_write_node_browse_name ext entity_type (ERL_TUPLE_EXT 2 # req) w = Abort msg)
   \<and> (assemble_node_id req = Ok (n, req')
        \<and> assemble_node_id req' = Ok (parent, req'')
        \<and> assemble_node_id req'' = Abort msg \<longrightarrow>
      handle_add_variable_node ext entity_type (ERL_TUPLE_EXT 5 # req) w = Abort msg
      \<and> handle_add_variable_type_node ext entity_type (ERL_TUPLE_EXT 5 # req) w = Abort msg
      \<and> handle_add_object_node ext entity_type (ERL_TUPLE_EXT 5 # req) w = Abort msg
      \<and> handle_add_object_type_node ext entity_type (ERL_TUPLE_EXT 4 # req) w = Abort msg
      \<and> handle_add_view_node ext entity_type (ERL_TUPLE_EXT 4 # req) w = Abort msg
      \<and> handle_add_reference_type_node ext entity_type (ERL_TUPLE_EXT 4 # req) w = Abort msg
      \<and> handle_add_data_type_node ext entity_type (ERL_TUPLE_EXT 4 # req) w = Abort msg)
   \<and> (assemble_node_id req = Ok (n, req')
        \<and> assemble_node_id req' = Ok (parent, req'')
        \<and> assemble_expanded_node_id req'' = Abort msg \<longrightarrow>
      handle_delete_reference ext entity_type (ERL_TUPLE_EXT 5 # req) w = Abort msg)
   \<and> (assemble_node_id req = Ok (n, req')
        \<and> assemble_node_id req' = Ok (parent, req'')
        \<and> assemble_node_id req'' = Ok (reference, req''')
        \<and> assemble_qualified_name req''' = Abort msg \<longrightarrow>
      handle_add_variable_node ext entity_type (ERL_TUPLE_EXT 5 # req) w = Abort msg
      \<and> handle_add_variable_type_node ext entity_type (ERL_TUPLE_EXT 5 # req) w = Abort msg
      \<and> handle_add_object_node ext entity_type (ERL_TUPLE_EXT 5 # req) w = Abort msg
      \<and> handle_add_object_type_node ext entity_type (ERL_TUPLE_EXT 4 # req) w = Abort msg
      \<and> handle_add_view_node ext entity_type (ERL_TUPLE_EXT 4 # req) w = Abort msg
      \<and> handle_add_reference_type_node ext entity_type (ERL_TUPLE_EXT 4 # req) w = Abort msg
      \<and> handle_add_data_type_node ext entity_type (ERL_TUPLE_EXT 4 # req) w = Abort msg)
   \<and> (assemble_node_id req = Ok (n, req')
        \<and> assemble_node_id req' = Ok (parent, req'')
        \<and> assemble_node_id req'' = Ok (reference, req''')
        \<and> assemble_qualified_name req''' = Ok (name, req'''')
        \<and> assemble_node_id req'''' = Abort msg \<longrightarrow>
      handle_add_variable_node ext entity_type (ERL_TUPLE_EXT 5 # req) w = Abort msg
      \<and> handle_add_variable_type_node ext entity_type (ERL_TUPLE_EXT 5 # req) w = Abort msg
      \<and> handle_add_object_node ext entity_type (ERL_TUPLE_EXT 5 # req) w = Abort msg)
   \<and> (assemble_node_id req = Ok (n, req')
        \<and> ei_decode_ulong req' = Some (data_type, req'')
        \<and> ei_decode_ulong req'' = Some (data_index, req''')
        \<and> retval_of ext (UA_readValue entity_type n) = UA_STATUSCODE_GOOD
        \<and> (UA_Variant_isEmpty (value_read ext entity_type n)
             \<or> UA_Variant_isScalar (value_read ext entity_type n)
             \<or> data_index < arrayLength (value_read ext entity_type n))
        \<and> decode_value ext (UA_TYPES ext data_type) req''' = Abort msg \<longrightarrow>
      handle_write_node_value ext entity_type (ERL_TUPLE_EXT 4 # req) w = Abort msg)"
  by (intro conjI)
    (fact tuple_of_three_or_abort tuple_of_two_or_abort tuple_of_four_or_abort
       tuple_of_five_or_abort dimensions_or_abort blank_dimensions_or_abort abort_with_guid
       abort_with_node_id abort_with_second_node_id abort_with_browse_name
       abort_with_third_node_id abort_with_target_id abort_with_qualified_name
       abort_with_type_definition abort_with_payload)+

text \<open>
  A node identifier of seven elements: alone, before a handler that reads an
  attribute, before a handler that expects five elements, and as the second
  identifier of \<^verbatim>\<open>handle_write_node_data_type\<close>. Scenario C of the
  specification: \<^verbatim>\<open>array_dimension_size\<close> is 2 and the tuple of the dimensions
  has three elements. And the request of the counterexample on a node whose
  value is empty, where the handler does reach the payload.
\<close>

theorem arity_mismatch_aborts_witness:
  "assemble_node_id [ERL_TUPLE_EXT 7, ERL_INTEGER_EXT 0, ERL_INTEGER_EXT 1, ERL_INTEGER_EXT 42]
     = Abort ''assemble_node_id requires a 3-tuple, term_size = %d''
   \<and> handle_read_node_browse_name sample_platform False
       [ERL_TUPLE_EXT 7, ERL_INTEGER_EXT 0, ERL_INTEGER_EXT 1, ERL_INTEGER_EXT 42] sample_world
     = Abort ''assemble_node_id requires a 3-tuple, term_size = %d''
   \<and> handle_add_object_node sample_platform False
       [ERL_TUPLE_EXT 7, ERL_INTEGER_EXT 0, ERL_INTEGER_EXT 1, ERL_INTEGER_EXT 42] sample_world
     = Abort '':handle_add_object_node requires a 5-tuple, term_size = %d''
   \<and> handle_write_node_data_type sample_platform False
       (ERL_TUPLE_EXT 2 # sample_node_term
          @ [ERL_TUPLE_EXT 7, ERL_INTEGER_EXT 0, ERL_INTEGER_EXT 1, ERL_INTEGER_EXT 42]) sample_world
     = Abort ''assemble_node_id requires a 3-tuple, term_size = %d''
   \<and> handle_write_node_array_dimensions sample_platform False
       (ERL_TUPLE_EXT 3 # sample_node_term
          @ [ERL_INTEGER_EXT 2, ERL_TUPLE_EXT 3, ERL_INTEGER_EXT 4, ERL_INTEGER_EXT 5,
             ERL_INTEGER_EXT 6]) sample_world
     = Abort '':handle_write_node_array_dimension arity mismatch, list_size = %d, array_d = %ld''
   \<and> handle_write_node_value sample_platform False
       (ERL_TUPLE_EXT 4 # sample_node_term
          @ [ERL_INTEGER_EXT 20, ERL_INTEGER_EXT 5,
             ERL_TUPLE_EXT 3, ERL_BINARY_EXT ''en'', ERL_BINARY_EXT ''on'', ERL_BINARY_EXT ''off''])
       sample_world
     = Abort '':handle_write_node_value requires a 2-tuple, term_size = %d''"
  using arity_mismatch_aborts [where arity = 7
      and rest = "[ERL_INTEGER_EXT 0, ERL_INTEGER_EXT 1, ERL_INTEGER_EXT 42]"
      and ext = sample_platform and entity_type = False and w = sample_world
      and n = sample_node
      and req = "sample_node_term
                   @ [ERL_TUPLE_EXT 7, ERL_INTEGER_EXT 0, ERL_INTEGER_EXT 1, ERL_INTEGER_EXT 42]"
      and req' = "[ERL_TUPLE_EXT 7, ERL_INTEGER_EXT 0, ERL_INTEGER_EXT 1, ERL_INTEGER_EXT 42]"
      and msg = "''assemble_node_id requires a 3-tuple, term_size = %d''"
      and req'' = "[]" and req''' = "[]" and req'''' = "[]"
      and array_dimension_size = 0 and data_type = 0 and array_raw_size = 0 and data_index = 0
      and blank = "UA_Boolean False" and ns_index = 0 and parent = sample_node
      and reference = sample_node and name = "UA_QUALIFIEDNAME 0 []"]
    arity_mismatch_aborts [where arity = 3 and array_dimension_size = 2 and n = sample_node
      and req = "sample_node_term @ [ERL_INTEGER_EXT 2, ERL_TUPLE_EXT 3, ERL_INTEGER_EXT 4,
             ERL_INTEGER_EXT 5, ERL_INTEGER_EXT 6]"
      and req' = "[ERL_INTEGER_EXT 2, ERL_TUPLE_EXT 3, ERL_INTEGER_EXT 4,
             ERL_INTEGER_EXT 5, ERL_INTEGER_EXT 6]"
      and rest = "[ERL_INTEGER_EXT 4, ERL_INTEGER_EXT 5, ERL_INTEGER_EXT 6]"
      and ext = sample_platform and entity_type = False and w = sample_world
      and req'' = "[]" and req''' = "[]" and req'''' = "[]"
      and data_type = 0 and array_raw_size = 0 and data_index = 0
      and blank = "UA_Boolean False" and msg = "[]" and ns_index = 0 and parent = sample_node
      and reference = sample_node and name = "UA_QUALIFIEDNAME 0 []"]
    arity_mismatch_aborts [where arity = 3
      and rest = "[ERL_BINARY_EXT ''en'', ERL_BINARY_EXT ''on'', ERL_BINARY_EXT ''off'']"
      and ext = sample_platform and entity_type = False and w = sample_world
      and n = sample_node
      and req = "sample_node_term
                   @ [ERL_INTEGER_EXT 20, ERL_INTEGER_EXT 5, ERL_TUPLE_EXT 3, ERL_BINARY_EXT ''en'',
                      ERL_BINARY_EXT ''on'', ERL_BINARY_EXT ''off'']"
      and req' = "[ERL_INTEGER_EXT 20, ERL_INTEGER_EXT 5, ERL_TUPLE_EXT 3, ERL_BINARY_EXT ''en'',
                   ERL_BINARY_EXT ''on'', ERL_BINARY_EXT ''off'']"
      and data_type = 20
      and req'' = "[ERL_INTEGER_EXT 5, ERL_TUPLE_EXT 3, ERL_BINARY_EXT ''en'',
                    ERL_BINARY_EXT ''on'', ERL_BINARY_EXT ''off'']"
      and data_index = 5
      and req''' = "[ERL_TUPLE_EXT 3, ERL_BINARY_EXT ''en'', ERL_BINARY_EXT ''on'',
                     ERL_BINARY_EXT ''off'']"
      and msg = "'':handle_write_node_value requires a 2-tuple, term_size = %d''"
      and req'''' = "[]" and array_dimension_size = 0 and array_raw_size = 0
      and blank = "UA_Boolean False" and ns_index = 0 and parent = sample_node
      and reference = sample_node and name = "UA_QUALIFIEDNAME 0 []"]
  by (simp add: assemble_sample_node ei_decode_ulong_def sample_platform_def sample_types_def
      UA_STATUSCODE_GOOD_def UA_Variant_isEmpty_def)

subsection \<open>C3: reading a value that is empty\<close>

text \<open>
  C3, as stated, fails for the full read: on an empty value
  \<^verbatim>\<open>handle_read_node_value\<close> answers \<^verbatim>\<open>{:ok, nil}\<close>, an Ok response whose
  payload is the null marker, and not the error \<^verbatim>\<open>nil\<close>.
\<close>

theorem full_read_of_empty_counterexample:
  "handle_read_node_value sample_platform False
     (ERL_TUPLE_EXT 2 # sample_node_term @ [ERL_INTEGER_EXT 0]) sample_world
   = Ok (sample_world\<lparr>calls := [UA_readValue False sample_node],
          sent := [[ERL_VERSION_MAGIC, ERL_TUPLE_EXT 3, ERL_ATOM_EXT ''command'', ERL_ATOM_EXT ''from'',
                    ERL_TUPLE_EXT 2, ERL_ATOM_EXT ''ok'', ERL_ATOM_EXT ''nil'']]\<rparr>)
   \<and> handle_read_node_value sample_platform False
       (ERL_TUPLE_EXT 2 # sample_node_term @ [ERL_INTEGER_EXT 0]) sample_world
     \<noteq> Ok (send_error_response ''nil'' (store (UA_readValue False sample_node) sample_world))"
  by (simp add: handle_read_node_value_def assemble_sample_node ei_decode_defs control_defs
      or_einval_def sample_platform_def sample_world_def send_data_response_def send_defs
      encode_data_response_def encode_variant_struct_def UA_Variant_isEmpty_def ei_encode_defs
      UA_STATUSCODE_GOOD_def)

text \<open>
  C3, amended: for a node whose value is empty (and a request that decodes, and a
  Good status of the read), the indexed read answers the error \<^verbatim>\<open>nil\<close>, and
  the full read answers Ok with the null marker \<^verbatim>\<open>nil\<close> as its payload. The
  typed read is left out: it reads through a pointer that was never set, and the
  test it makes for ``nil'' asks for a value that is empty and has a type.
\<close>

theorem reads_of_empty_value:
  assumes "assemble_node_id req = Ok (node_id, req')"
    and "ei_decode_ulong req' = Some (data_index, req'')"
    and "retval_of ext (UA_readValue entity_type node_id) = UA_STATUSCODE_GOOD"
    and "value_read ext entity_type node_id = Empty"
  shows "handle_read_node_value_by_index ext entity_type (ERL_TUPLE_EXT 2 # req) w
           = Ok (send_error_response ''nil'' (store (UA_readValue entity_type node_id) w))
         \<and> handle_read_node_value ext entity_type (ERL_TUPLE_EXT 2 # req) w
           = Ok (erlcmd_send ([ERL_VERSION_MAGIC, ERL_TUPLE_EXT 3] @ encode_caller_metadata w
                              @ [ERL_TUPLE_EXT 2, ERL_ATOM_EXT ''ok'', ERL_ATOM_EXT ''nil''])
                   (store (UA_readValue entity_type node_id) w))"
  using assms
  by (simp add: handle_read_node_value_by_index_def handle_read_node_value_def
      ei_decode_tuple_header_def control_defs or_einval_def UA_Variant_isEmpty_def
      send_data_response_def encode_data_response_def encode_variant_struct_def
      ei_encode_defs send_defs)

theorem reads_of_empty_value_witness:
  "handle_read_node_value_by_index sample_platform False
     (ERL_TUPLE_EXT 2 # sample_node_term @ [ERL_INTEGER_EXT 3]) sample_world
   = Ok (sample_world\<lparr>calls := [UA_readValue False sample_node],
          sent := [[ERL_VERSION_MAGIC, ERL_TUPLE_EXT 3, ERL_ATOM_EXT ''command'', ERL_ATOM_EXT ''from'',
                    ERL_TUPLE_EXT 2, ERL_ATOM_EXT ''error'', ERL_ATOM_EXT ''nil'']]\<rparr>)"
  using reads_of_empty_value [where req = "sample_node_term @ [ERL_INTEGER_EXT 3]"
      and node_id = sample_node and req' = "[ERL_INTEGER_EXT 3]" and data_index = 3 and req'' = "[]"
      and ext = sample_platform and entity_type = False and w = sample_world]
  by (simp add: assemble_sample_node ei_decode_ulong_def sample_platform_def sample_world_def
      UA_STATUSCODE_GOOD_def send_defs ei_encode_defs)

subsection \<open>C4: the operation of the Node Store that a command invokes\<close>

text \<open>
  C4: the handlers invoke the operation of their attribute, in the family that
  \<open>entity_type\<close> selects. \<^verbatim>\<open>handle_write_node_executable\<close> does not: at a
  request to set Executable on the node \<^verbatim>\<open>ns=1;i=42\<close> of the local server, the
  one call it makes is the write of Historizing.
\<close>

theorem write_executable_calls_historizing:
  "handle_write_node_executable sample_platform False
     (ERL_TUPLE_EXT 2 # sample_node_term @ [ERL_ATOM_EXT ''true'']) sample_world
   = Ok (sample_world\<lparr>calls := [UA_writeHistorizing False sample_node True],
          sent := [[ERL_VERSION_MAGIC, ERL_TUPLE_EXT 3, ERL_ATOM_EXT ''command'', ERL_ATOM_EXT ''from'',
                    ERL_ATOM_EXT ''ok'']]\<rparr>)"
  by (simp add: handle_write_node_executable_def assemble_sample_node ei_decode_defs control_defs
      or_einval_def respond_to_def sample_platform_def sample_world_def send_defs ei_encode_defs)

text \<open>On every request of two elements the handler does what the Historizing handler does.\<close>

lemma write_executable_is_write_historizing:
  "handle_write_node_executable ext entity_type (ERL_TUPLE_EXT 2 # req) w
     = handle_write_node_historizing ext entity_type (ERL_TUPLE_EXT 2 # req) w"
  by (simp add: handle_write_node_executable_def handle_write_node_historizing_def
      ei_decode_tuple_header_def control_defs)

subsection \<open>C5: the envelope of a notification\<close>

text \<open>
  C5, as stated, fails for the notification of a write: its message is a tuple of
  three elements, \<^verbatim>\<open>{:write, node_id, value}\<close>, here for the node
  \<^verbatim>\<open>ns=1;i=42\<close> and an empty value.
\<close>

theorem write_notification_counterexample:
  "send_write_data_response sample_platform sample_node (Variant Empty) 29 sample_world
   = Ok (sample_world\<lparr>sent :=
       [[ERL_VERSION_MAGIC, ERL_TUPLE_EXT 3, ERL_ATOM_EXT ''write'',
         ERL_TUPLE_EXT 3, ERL_INTEGER_EXT 1, ERL_BINARY_EXT ''integer'', ERL_INTEGER_EXT 42,
         ERL_ATOM_EXT ''nil'']]\<rparr>)"
  by (simp add: send_write_data_response_def control_defs ei_encode_defs encode_data_response_def
      encode_variant_struct_def UA_Variant_isEmpty_def encode_node_id_def encode_identifier_def
      sample_node_def sample_world_def erlcmd_send_def)

text \<open>
  C5, amended: the notifications of a subscription (timeout, deleted, data
  changed, monitored item deleted) are a tuple of two elements, the atom
  \<^verbatim>\<open>subscription\<close> and one tuple that starts with the atom of the event; the
  notification of a write is a tuple of three elements, the atom \<^verbatim>\<open>write\<close>,
  the node identifier and the value. None of them holds the caller: each message
  is made of the encoded arguments alone.
\<close>

theorem notification_envelopes:
  "(encode_data_response ext data data_type data_len = Ok payload \<longrightarrow>
      send_subscription_timeout_response ext data data_type data_len w
        = Ok (erlcmd_send ([ERL_VERSION_MAGIC, ERL_TUPLE_EXT 2, ERL_ATOM_EXT ''subscription'',
                            ERL_TUPLE_EXT 2, ERL_ATOM_EXT ''timeout''] @ payload) w)
      \<and> send_subscription_deleted_response ext data data_type data_len w
        = Ok (erlcmd_send ([ERL_VERSION_MAGIC, ERL_TUPLE_EXT 2, ERL_ATOM_EXT ''subscription'',
                            ERL_TUPLE_EXT 2, ERL_ATOM_EXT ''delete''] @ payload) w))
   \<and> (encode_data_response ext subscription_id 27 0 = Ok sub
        \<and> encode_data_response ext monitored_id 27 0 = Ok mon \<longrightarrow>
      (encode_data_response ext item item_type 0 = Ok changed \<longrightarrow>
        send_monitored_item_response ext subscription_id monitored_id item item_type w
          = Ok (erlcmd_send ([ERL_VERSION_MAGIC, ERL_TUPLE_EXT 2, ERL_ATOM_EXT ''subscription'',
                              ERL_TUPLE_EXT 4, ERL_ATOM_EXT ''data''] @ sub @ mon @ changed) w))
      \<and> send_monitored_item_delete_response ext subscription_id monitored_id w
          = Ok (erlcmd_send ([ERL_VERSION_MAGIC, ERL_TUPLE_EXT 2, ERL_ATOM_EXT ''subscription'',
                              ERL_TUPLE_EXT 3, ERL_ATOM_EXT ''delete''] @ sub @ mon) w))
   \<and> (encode_variant_struct ext v = Ok written \<longrightarrow>
      send_write_data_response ext n (Variant v) 29 w
        = Ok (erlcmd_send ([ERL_VERSION_MAGIC, ERL_TUPLE_EXT 3, ERL_ATOM_EXT ''write'']
                           @ encode_node_id n @ written) w))"
  by (simp add: send_subscription_timeout_response_def send_subscription_deleted_response_def
      send_monitored_item_response_def send_monitored_item_delete_response_def
      send_write_data_response_def control_defs ei_encode_defs encode_data_response_def)

theorem notification_envelopes_witness:
  "send_subscription_timeout_response sample_platform (Object (UA_UInt32 7)) 27 0 sample_world
     = Ok (sample_world\<lparr>sent :=
         [[ERL_VERSION_MAGIC, ERL_TUPLE_EXT 2, ERL_ATOM_EXT ''subscription'',
           ERL_TUPLE_EXT 2, ERL_ATOM_EXT ''timeout'', ERL_INTEGER_EXT 7]]\<rparr>)
   \<and> send_monitored_item_response sample_platform (Object (UA_UInt32 7)) (Object (UA_UInt32 9))
       (Variant (Scalar (UA_Boolean True))) 29 sample_world
     = Ok (sample_world\<lparr>sent :=
         [[ERL_VERSION_MAGIC, ERL_TUPLE_EXT 2, ERL_ATOM_EXT ''subscription'',
           ERL_TUPLE_EXT 4, ERL_ATOM_EXT ''data'', ERL_INTEGER_EXT 7, ERL_INTEGER_EXT 9,
           ERL_ATOM_EXT ''true'']]\<rparr>)"
  using notification_envelopes [where ext = sample_platform and data = "Object (UA_UInt32 7)"
      and data_type = 27 and data_len = 0 and payload = "[ERL_INTEGER_EXT 7]"
      and subscription_id = "Object (UA_UInt32 7)" and monitored_id = "Object (UA_UInt32 9)"
      and sub = "[ERL_INTEGER_EXT 7]" and mon = "[ERL_INTEGER_EXT 9]"
      and item = "Variant (Scalar (UA_Boolean True))" and item_type = 29
      and changed = "[ERL_ATOM_EXT ''true'']" and w = sample_world]
  by (simp add: encode_data_response_def or_undefined_def read_word32_def ei_encode_defs
      encode_variant_struct_def UA_Variant_isEmpty_def UA_Variant_isScalar_def
      encode_variant_scalar_struct_def variant_element_def encode_element_def
      erlcmd_send_def sample_world_def)

subsection \<open>C6: an index past the end of the array\<close>

text \<open>
  C6: when the value of the node is an array and the index of the request is not
  below its length, the read by index and the write of a value both answer the
  error with the name of \<^verbatim>\<open>BadTypeMismatch\<close> and return; the only call made to
  the Node Store is the read of the value, and the process does not abort. (The
  request decodes and the read returns Good, for the handler to get that far.)
\<close>

theorem index_out_of_range:
  assumes "assemble_node_id req = Ok (node_id, req')"
    and "retval_of ext (UA_readValue entity_type node_id) = UA_STATUSCODE_GOOD"
    and "value_read ext entity_type node_id = Array t xs dims"
    and "length xs \<le> i"
  shows "(ei_decode_ulong req' = Some (i, req'') \<longrightarrow>
           handle_read_node_value_by_index ext entity_type (ERL_TUPLE_EXT 2 # req) w
             = Ok (send_opex_response ext UA_STATUSCODE_BADTYPEMISMATCH
                     (store (UA_readValue entity_type node_id) w)))
       \<and> (ei_decode_ulong req' = Some (data_type, req'') \<and> ei_decode_ulong req'' = Some (i, req''') \<longrightarrow>
           handle_write_node_value ext entity_type (ERL_TUPLE_EXT 4 # req) w
             = Ok (send_opex_response ext UA_STATUSCODE_BADTYPEMISMATCH
                     (store (UA_readValue entity_type node_id) w)))"
  using assms
  by (simp add: handle_read_node_value_by_index_def handle_write_node_value_def
      ei_decode_tuple_header_def control_defs or_einval_def UA_Variant_isEmpty_def
      UA_Variant_isScalar_def arrayLength_def)

theorem index_out_of_range_witness:
  "handle_write_node_value
     (sample_platform\<lparr>value_read := (\<lambda>entity_type n. Array UA_TYPES_INT32 [UA_Int32 1, UA_Int32 2] [])\<rparr>)
     False (ERL_TUPLE_EXT 4 # sample_node_term @ [ERL_INTEGER_EXT 5, ERL_INTEGER_EXT 2, ERL_INTEGER_EXT 9])
     sample_world
   = Ok (sample_world\<lparr>calls := [UA_readValue False sample_node],
          sent := [[ERL_VERSION_MAGIC, ERL_TUPLE_EXT 3, ERL_ATOM_EXT ''command'', ERL_ATOM_EXT ''from'',
                    ERL_TUPLE_EXT 2, ERL_ATOM_EXT ''error'', ERL_BINARY_EXT ''BadTypeMismatch'']]\<rparr>)"
  using index_out_of_range [where req = "sample_node_term @ [ERL_INTEGER_EXT 5, ERL_INTEGER_EXT 2, ERL_INTEGER_EXT 9]"
      and node_id = sample_node and req' = "[ERL_INTEGER_EXT 5, ERL_INTEGER_EXT 2, ERL_INTEGER_EXT 9]"
      and data_type = 5 and req'' = "[ERL_INTEGER_EXT 2, ERL_INTEGER_EXT 9]" and i = 2
      and req''' = "[ERL_INTEGER_EXT 9]"
      and ext = "sample_platform\<lparr>value_read := (\<lambda>entity_type n. Array UA_TYPES_INT32 [UA_Int32 1, UA_Int32 2] [])\<rparr>"
      and entity_type = False and t = UA_TYPES_INT32 and xs = "[UA_Int32 1, UA_Int32 2]" and dims = "[]"
      and w = sample_world]
  by (simp add: assemble_sample_node ei_decode_ulong_def sample_platform_def sample_world_def
      UA_STATUSCODE_GOOD_def UA_STATUSCODE_BADTYPEMISMATCH_def send_defs ei_encode_defs)

subsection \<open>C7: empty values, and arrays of one element\<close>

text \<open>
  C7, as stated, fails: the encoding of an array of one element is not the
  encoding of the scalar. The array of the one Int32 5 is written as a list,
  \<^verbatim>\<open>[5]\<close>; the scalar as \<^verbatim>\<open>5\<close>.
\<close>

theorem one_element_array_counterexample:
  "encode_variant_struct sample_platform (Array UA_TYPES_INT32 [UA_Int32 5] [])
     \<noteq> encode_variant_struct sample_platform (Scalar (UA_Int32 5))
   \<and> encode_variant_struct sample_platform (Array UA_TYPES_INT32 [UA_Int32 5] [])
     = Ok [ERL_LIST_EXT 1, ERL_INTEGER_EXT 5, ERL_NIL_EXT]
   \<and> encode_variant_struct sample_platform (Scalar (UA_Int32 5)) = Ok [ERL_INTEGER_EXT 5]"
  by (simp add: encode_variant_struct_def UA_Variant_isEmpty_def UA_Variant_isScalar_def
      encode_variant_array_struct_def encode_variant_scalar_struct_def variant_element_def
      arrayLength_def type_of_def encode_element_def control_defs ei_encode_defs)

text \<open>
  C7, amended: the encoding of an empty value is the atom \<^verbatim>\<open>nil\<close>; the
  encoding of an array of one element is a list header of length 1, then the
  encoding of the scalar of that kind, then the end of the list; and the encoder
  of one element gives at index 0 of the array what it gives for the scalar.
\<close>

theorem empty_and_one_element_encoding:
  "encode_variant_struct ext Empty = Ok [ERL_ATOM_EXT ''nil'']
   \<and> encode_variant_struct ext (Scalar x) = Ok (encode_element ext x)
   \<and> encode_variant_struct ext (Array (type_of x) [x] dims)
       = Ok ([ERL_LIST_EXT 1] @ encode_element ext x @ [ERL_NIL_EXT])
   \<and> encode_variant_scalar_struct ext (Array (type_of x) [x] dims) 0
       = encode_variant_scalar_struct ext (Scalar x) 0"
  by (simp add: encode_variant_struct_def UA_Variant_isEmpty_def UA_Variant_isScalar_def
      encode_variant_array_struct_def encode_variant_scalar_struct_def variant_element_def
      arrayLength_def control_defs ei_encode_defs)

subsection \<open>C8: the typed read and the kind of the value\<close>

text \<open>
  C8: the typed read does not answer \<^verbatim>\<open>eagain\<close> when the kind of the value is
  not the kind that the caller names. \<^verbatim>\<open>handle_read_node_value_by_data_type\<close>
  declares its pointer to the value and never sets it, where the two other reads
  of a value set theirs to a variant of \<^verbatim>\<open>UA_Variant_new\<close>, and it hands that
  pointer to the read of the Node Store. Here the node \<^verbatim>\<open>ns=1;i=42\<close> of the
  local server holds the Int32 -1 and the caller asks for index 0, Boolean: the
  request decodes, and the handler has no defined answer.
\<close>

theorem typed_read_through_pointer_never_set:
  "handle_read_node_value_by_data_type
     (sample_platform\<lparr>value_read := (\<lambda>entity_type n. Scalar (UA_Int32 0xFFFFFFFF))\<rparr>) False
     (ERL_TUPLE_EXT 2 # sample_node_term @ [ERL_INTEGER_EXT 0]) sample_world
   = Undefined
   \<and> type_of (UA_Int32 0xFFFFFFFF) \<noteq> sample_types 0"
  by (simp add: handle_read_node_value_by_data_type_def assemble_sample_node ei_decode_defs
      control_defs or_einval_def read_through_def sample_types_def type_of_def)

text \<open>
  So it is on every request that decodes, whatever the Node Store holds, for the
  local server and for a client.
\<close>

lemma typed_read_has_no_defined_answer:
  assumes "assemble_node_id req = Ok (node_id, req')"
    and "ei_decode_ulong req' = Some (data_type, req'')"
  shows "handle_read_node_value_by_data_type ext entity_type (ERL_TUPLE_EXT 2 # req) w = Undefined"
  using assms
  by (simp add: handle_read_node_value_by_data_type_def ei_decode_tuple_header_def control_defs
      or_einval_def read_through_def)

subsection \<open>C9: the flag of a write in progress\<close>



subsection \<open>C10: the index of a write over an empty or scalar value\<close>



end
